theory Spec2Isabelle
  imports Complex_Main
begin

section \<open>Go values and the library functions the adapter calls\<close>

text \<open>
  A Go \<open>string\<close> is a sequence of bytes, here \<open>string\<close> (a list of 8-bit characters);
  text outside ASCII appears as its UTF-8 bytes. A value of type \<open>interface{}\<close> as
  \<open>encoding/json\<close> produces it (and as the handlers build it for the reply) is a
  \<open>json\<close>: \<open>nil\<close>, a bool, a number, a string, a slice or a map with string keys.
  A map is an association list read with \<open>map_of\<close>.
\<close>

datatype json =
    JNull
  | JBool bool
  | JNum rat
  | JStr string
  | JArr "json list"
  | JObj "(string \<times> json) list"

text \<open>
  The regular expressions of \<open>requestTokenAndHash\<close>, one constructor per pattern text:
  \<^item> \<open>P_vqd_eq\<close>: \<^verbatim>\<open>vqd=["']([^"']+)["']\<close>
  \<^item> \<open>P_vqd_sep\<close>: \<^verbatim>\<open>vqd[:=]["']([^"']+)["']\<close>
  \<^item> \<open>P_vqd_dq\<close>: \<^verbatim>\<open>"vqd":"([^"]+)"\<close>
  \<^item> \<open>P_vqd_sq\<close>: \<^verbatim>\<open>'vqd':'([^']+)'\<close>
  \<^item> \<open>P_dist_js\<close>: \<^verbatim>\<open>(\/dist\/[^"']+\.js)\<close>
  \<^item> \<open>P_vqd_sep_ws\<close>: \<^verbatim>\<open>vqd\s*[:=]\s*["']([^"']+)["']\<close>
  \<^item> \<open>P_vqd_dq_ws\<close>: \<^verbatim>\<open>"vqd"\s*:\s*"([^"]+)"\<close>
  \<^item> \<open>P_vqd_sq_ws\<close>: \<^verbatim>\<open>'vqd'\s*:\s*'([^']+)'\<close>
\<close>

datatype pattern =
    P_vqd_eq | P_vqd_sep | P_vqd_dq | P_vqd_sq
  | P_dist_js
  | P_vqd_sep_ws | P_vqd_dq_ws | P_vqd_sq_ws

text \<open>
  What the Go standard library computes and the repository does not define is a
  parameter, gathered in one record:
  \<^item> \<open>unicodeToLower s\<close> is \<open>strings.Map(unicode.ToLower, s)\<close>, the path of
    \<open>strings.ToLower\<close> for a string with a byte outside ASCII;
  \<^item> \<open>unicodeTrim s\<close> and \<open>unicodeTrimRight s\<close> are
    \<open>strings.TrimFunc(s, unicode.IsSpace)\<close> and \<open>strings.TrimRightFunc(s, unicode.IsSpace)\<close>,
    the paths of \<open>strings.TrimSpace\<close> once it meets a byte outside ASCII;
  \<^item> \<open>jsonUnmarshal line\<close> is \<open>json.Unmarshal\<close> into a \<open>map[string]interface{}\<close>:
    \<open>None\<close> is an error, \<open>Some m\<close> the decoded map;
  \<^item> \<open>jsonMarshal v\<close> is \<open>json.Marshal\<close>: \<open>Inl\<close> the error, \<open>Inr\<close> the bytes;
  \<^item> \<open>fmtV v\<close> is \<open>fmt.Sprintf("%v", v)\<close>;
  \<^item> \<open>FindStringSubmatch p s\<close> and \<open>FindAllStringSubmatch p s\<close> are the methods of
    the compiled pattern \<open>p\<close> (\<open>[]\<close> is Go's \<open>nil\<close>: no match);
  \<^item> \<open>NewRequest method url\<close> is the error of \<open>http.NewRequest\<close>, \<open>None\<close> when it
    builds the request.
\<close>

record golib =
  unicodeToLower :: "string \<Rightarrow> string"
  unicodeTrim :: "string \<Rightarrow> string"
  unicodeTrimRight :: "string \<Rightarrow> string"
  jsonUnmarshal :: "string \<Rightarrow> (string \<times> json) list option"
  jsonMarshal :: "json \<Rightarrow> string + string"
  fmtV :: "json \<Rightarrow> string"
  FindStringSubmatch :: "pattern \<Rightarrow> string \<Rightarrow> string list"
  FindAllStringSubmatch :: "pattern \<Rightarrow> string \<Rightarrow> string list list"
  NewRequest :: "string \<Rightarrow> string \<Rightarrow> string option"

definition byte :: "char \<Rightarrow> nat" where
  "byte c = of_char c"

definition isASCII :: "string \<Rightarrow> bool" where
  "isASCII s = list_all (\<lambda>c. byte c < 128) s"

definition lowerByte :: "char \<Rightarrow> char" where
  "lowerByte c = (if 65 \<le> byte c \<and> byte c \<le> 90 then char_of (byte c + 32) else c)"

text \<open>
  \<open>strings.ToLower\<close>: a string of ASCII bytes only has each of \<open>A\<close> .. \<open>Z\<close> moved by
  \<open>'a' - 'A'\<close>; any other string goes through the Unicode mapping.
\<close>

definition ToLower :: "golib \<Rightarrow> string \<Rightarrow> string" where
  "ToLower L s = (if isASCII s then map lowerByte s else unicodeToLower L s)"

text \<open>
  \<open>strings.TrimSpace\<close>: the ASCII white space is tab, line feed, vertical tab, form
  feed, carriage return and space. \<open>trimScan\<close> is one of its two loops: it drops
  white space from the front and stops at the first other byte, with \<open>Inl\<close> when that
  byte is outside ASCII (the caller then falls back to the Unicode-aware function on
  what is left).
\<close>

definition asciiSpace :: "char \<Rightarrow> bool" where
  "asciiSpace c = (byte c = 9 \<or> byte c = 10 \<or> byte c = 11 \<or> byte c = 12 \<or> byte c = 13 \<or> byte c = 32)"

fun trimScan :: "string \<Rightarrow> string + string" where
  "trimScan [] = Inr []"
| "trimScan (c # cs) =
     (if 128 \<le> byte c then Inl (c # cs)
      else if asciiSpace c then trimScan cs
      else Inr (c # cs))"

definition TrimSpace :: "golib \<Rightarrow> string \<Rightarrow> string" where
  "TrimSpace L s =
     (case trimScan s of
        Inl r \<Rightarrow> unicodeTrim L r
      | Inr r \<Rightarrow>
          (case trimScan (rev r) of
             Inl q \<Rightarrow> unicodeTrimRight L (rev q)
           | Inr q \<Rightarrow> rev q))"

definition HasPrefix :: "string \<Rightarrow> string \<Rightarrow> bool" where
  "HasPrefix s p = (take (length p) s = p)"

definition TrimPrefix :: "string \<Rightarrow> string \<Rightarrow> string" where
  "TrimPrefix s p = (if HasPrefix s p then drop (length p) s else s)"

section \<open>The request translator\<close>

subsection \<open>\<open>convertModel\<close>\<close>

definition convertModel :: "golib \<Rightarrow> string \<Rightarrow> string" where
  "convertModel L inputModel =
     (let m = ToLower L inputModel in
      if m = ''claude-3-haiku'' then ''claude-3-haiku-20240307''
      else if m = ''llama-3.3-70b'' then ''meta-llama/Llama-3.3-70B-Instruct-Turbo''
      else if m = ''mistral-small'' then ''mistralai/Mistral-Small-24B-Instruct-2501''
      else if m = ''o3-mini'' then ''o3-mini''
      else ''gpt-4o-mini'')"

subsection \<open>\<open>prepareMessages\<close>\<close>

text \<open>One element of \<open>req.Messages\<close>: the role and the decoded \<open>content\<close>.\<close>

record message =
  Role :: string
  Content :: json

text \<open>
  The inner loop over a content list: an item that is a map whose \<open>text\<close> entry is a
  string appends that string; every other item is passed over.
\<close>

fun contentItems :: "json list \<Rightarrow> string \<Rightarrow> string" where
  "contentItems [] contentStr = contentStr"
| "contentItems (item # items) contentStr =
     (case item of
        JObj itemMap \<Rightarrow>
          (case map_of itemMap ''text'' of
             Some (JStr text) \<Rightarrow> contentItems items (contentStr @ text)
           | _ \<Rightarrow> contentItems items contentStr)
      | _ \<Rightarrow> contentItems items contentStr)"

definition contentString :: "golib \<Rightarrow> json \<Rightarrow> string" where
  "contentString L c =
     (case c of
        JStr v \<Rightarrow> v
      | JArr v \<Rightarrow> contentItems v []
      | _ \<Rightarrow> fmtV L c)"

text \<open>The loop over the messages, with the \<open>strings.Builder\<close> as accumulator.\<close>

fun prepareLoop :: "golib \<Rightarrow> message list \<Rightarrow> string \<Rightarrow> string" where
  "prepareLoop L [] contentBuilder = contentBuilder"
| "prepareLoop L (msg # msgs) contentBuilder =
     (let role = (if Role msg = ''system'' then ''user'' else Role msg);
          contentStr = contentString L (Content msg)
      in prepareLoop L msgs
           (contentBuilder @ role @ '':'' @ contentStr @ [CHR '';'', CHR 0x0D, CHR 0x0A]))"

definition prepareMessages :: "golib \<Rightarrow> message list \<Rightarrow> string" where
  "prepareMessages L messages = prepareLoop L messages []"

text \<open>
  The words of the specification, to compare with: the text of a content is the string
  itself, or the \<open>text\<close> fields of the fragments of a list, in order; a message is the
  line \<open>role:content;\r\n\<close> with \<open>system\<close> written as \<open>user\<close>.
\<close>

definition spec_fragmentText :: "json \<Rightarrow> string option" where
  "spec_fragmentText item =
     (case item of
        JObj kv \<Rightarrow> (case map_of kv ''text'' of Some (JStr t) \<Rightarrow> Some t | _ \<Rightarrow> None)
      | _ \<Rightarrow> None)"

definition spec_normalize :: "golib \<Rightarrow> json \<Rightarrow> string" where
  "spec_normalize L c =
     (case c of
        JStr v \<Rightarrow> v
      | JArr items \<Rightarrow> concat (List.map_filter spec_fragmentText items)
      | _ \<Rightarrow> fmtV L c)"

definition spec_role :: "string \<Rightarrow> string" where
  "spec_role r = (if r = ''system'' then ''user'' else r)"

definition spec_line :: "golib \<Rightarrow> message \<Rightarrow> string" where
  "spec_line L m = spec_role (Role m) @ '':'' @ spec_normalize L (Content m) @ '';'' @ [CHR 0x0D, CHR 0x0A]"

section \<open>The world of one request\<close>

text \<open>
  An upstream request as \<open>http.NewRequest\<close> and \<open>Header.Set\<close> build it, and an
  upstream response as \<open>client.Do\<close> returns it. Header names are kept as the source
  writes them. A response body is the bytes it delivers and how it ends: \<open>berr = None\<close>
  when the bytes end with \<open>io.EOF\<close>, \<open>Some e\<close> when reading fails with \<open>e\<close> after them.
\<close>

record http_req =
  reqMethod :: string
  reqURL :: string
  reqHeader :: "string \<Rightarrow> string option"
  reqBody :: string

record rbody =
  bdata :: string
  berr :: "string option"

record http_resp =
  StatusCode :: int
  respHeader :: "string \<Rightarrow> string"
  Body :: rbody

record Config =
  APIPrefix :: string
  MaxRetryCount :: int
  RetryDelay :: int
  FakeHeaders :: "(string \<times> string) list"
  ProxyURL :: string

definition fakeHeaders :: "(string \<times> string) list" where
  \<open>fakeHeaders =
     [(''Accept'', ''*/*''),
      (''Accept-Encoding'', ''gzip, deflate, br, zstd''),
      (''Accept-Language'', ''zh-CN,zh;q=0.9''),
      (''Origin'', ''https://duckduckgo.com/''),
      (''Cookie'', ''dcm=3; dcs=1''),
      (''Priority'', ''u=1, i''),
      (''Referer'', ''https://duckduckgo.com/''),
      (''Sec-Ch-Ua'', ''"Chromium";v="134", "Not:A-Brand";v="24", "Google Chrome";v="134"''),
      (''Sec-Ch-Ua-Mobile'', ''?0''),
      (''Sec-Ch-Ua-Platform'', ''"Windows"''),
      (''Sec-Fetch-Dest'', ''empty''),
      (''Sec-Fetch-Mode'', ''cors''),
      (''Sec-Fetch-Site'', ''same-origin''),
      (''User-Agent'', ''Mozilla/5.0 (Windows NT 10.0; Win64; x64) AppleWebKit/537.36 (KHTML, like Gecko) Chrome/134.0.0.0 Safari/537.36'')]\<close>

text \<open>
  \<open>getDurationEnv\<close>, from the integer that \<open>getIntEnv\<close> read:
  \<open>time.Duration(n) * time.Millisecond\<close>. A \<open>time.Duration\<close> is a count of nanoseconds
  in a signed integer of 64 bits, and the product wraps around.
\<close>

definition getDurationEnv :: "int \<Rightarrow> int" where
  "getDurationEnv n = (n * 1000000 + 2 ^ 63) mod 2 ^ 64 - 2 ^ 63"

text \<open>
  \<open>init\<close>: the configuration read from the environment (here the arguments), with the
  defaults \<open>/\<close>, \<open>3\<close>, \<open>5000\<close> ms and no proxy when a variable is not set.
  \<open>RetryDelay\<close> is in nanoseconds.
\<close>

definition initConfig :: "string \<Rightarrow> int \<Rightarrow> int \<Rightarrow> string \<Rightarrow> Config" where
  "initConfig prefix maxRetry delay proxy =
     \<lparr>APIPrefix = prefix, MaxRetryCount = maxRetry, RetryDelay = getDurationEnv delay,
      FakeHeaders = fakeHeaders, ProxyURL = proxy\<rparr>"

definition defaultConfig :: Config where
  "defaultConfig = initConfig ''/'' 3 5000 []"

text \<open>
  What the handler does to the outside, in order: the calls on the gin context
  (\<open>effects\<close>), the upstream requests handed to \<open>client.Do\<close> (\<open>sent\<close>), the number of
  \<open>time.Sleep(config.RetryDelay)\<close> calls, and two counters that index the answers of
  the world: the calls of \<open>time.Now\<close> and of \<open>c.Writer.Write\<close> so far.
\<close>

datatype effect =
    SetHeader string string
  | Write string
  | Flush
  | JSON int json

record state =
  effects :: "effect list"
  nowCalls :: nat
  writeCalls :: nat
  sleeps :: nat
  sent :: "http_req list"

text \<open>The \<open>req\<close> struct that \<open>handleCompletion\<close> binds the inbound body to.\<close>

record chat_request =
  Model :: string
  Messages :: "message list"
  Stream :: bool

text \<open>
  The world of one inbound request: \<open>clock k\<close> is what the \<open>k\<close>-th call of
  \<open>time.Now().Unix()\<close> returns, \<open>writeErr k\<close> the error of the \<open>k\<close>-th
  \<open>c.Writer.Write\<close> (\<open>None\<close>: written), \<open>isFlusher\<close> whether the writer is an
  \<open>http.Flusher\<close>, \<open>APIKEY\<close> the environment variable, \<open>ShouldBindJSON\<close> the
  decoding of the inbound body (\<open>Inl\<close> the error), and \<open>clientDo k\<close> how the upstream
  answers \<open>client.Do\<close> during the attempt with \<open>retryCount = k\<close> (\<open>Inl\<close> the transport
  error). Within one attempt the upstream answers a request as a function of the
  request; between attempts it may change. The client that \<open>createHTTPClient\<close> builds
  (its timeout of 30 seconds, the proxy of the configuration) is part of the world:
  \<open>clientDo\<close> is what its \<open>Do\<close> returns.
\<close>

record world =
  clock :: "nat \<Rightarrow> int"
  writeErr :: "nat \<Rightarrow> string option"
  isFlusher :: bool
  APIKEY :: string
  ShouldBindJSON :: "string \<Rightarrow> string + chat_request"
  clientDo :: "nat \<Rightarrow> http_req \<Rightarrow> string + http_resp"

record inbound =
  Authorization :: string
  rawBody :: string

definition gin_JSON :: "int \<Rightarrow> json \<Rightarrow> state \<Rightarrow> state" where
  "gin_JSON code obj s = s\<lparr>effects := effects s @ [JSON code obj]\<rparr>"

definition gin_H_error :: "string \<Rightarrow> json" where
  "gin_H_error m = JObj [(''error'', JStr m)]"

definition setHeader :: "string \<Rightarrow> string \<Rightarrow> state \<Rightarrow> state" where
  "setHeader k v s = s\<lparr>effects := effects s @ [SetHeader k v]\<rparr>"

definition flush :: "state \<Rightarrow> state" where
  "flush s = s\<lparr>effects := effects s @ [Flush]\<rparr>"

definition timeNow :: "world \<Rightarrow> state \<Rightarrow> int \<times> state" where
  "timeNow W s = (clock W (nowCalls s), s\<lparr>nowCalls := Suc (nowCalls s)\<rparr>)"

definition writerWrite :: "world \<Rightarrow> string \<Rightarrow> state \<Rightarrow> string option \<times> state" where
  "writerWrite W b s =
     (case writeErr W (writeCalls s) of
        Some e \<Rightarrow> (Some e, s\<lparr>writeCalls := Suc (writeCalls s)\<rparr>)
      | None \<Rightarrow> (None, s\<lparr>effects := effects s @ [Write b], writeCalls := Suc (writeCalls s)\<rparr>))"

text \<open>The messages of the source, as their UTF-8 bytes.\<close>

definition msgNoKey :: string where
  "msgNoKey = [CHR 0xE6, CHR 0x9C, CHR 0xAA, CHR 0xE6, CHR 0x8F, CHR 0x90, CHR 0xE4, CHR 0xBE, CHR 0x9B] @ '' APIKEY''"

definition msgBadFormat :: string where
  "msgBadFormat = ''APIKEY '' @ [CHR 0xE6, CHR 0xA0, CHR 0xBC, CHR 0xE5, CHR 0xBC, CHR 0x8F, CHR 0xE9, CHR 0x94, CHR 0x99, CHR 0xE8, CHR 0xAF, CHR 0xAF]"

definition msgBadKey :: string where
  "msgBadKey = ''APIKEY'' @ [CHR 0xE6, CHR 0x97, CHR 0xA0, CHR 0xE6, CHR 0x95, CHR 0x88]"

definition msgTokenFail :: string where
  "msgTokenFail = [CHR 0xE6, CHR 0x97, CHR 0xA0, CHR 0xE6, CHR 0xB3, CHR 0x95, CHR 0xE8, CHR 0x8E, CHR 0xB7, CHR 0xE5, CHR 0x8F, CHR 0x96] @ ''token: ''"

definition msgMarshalFail :: string where
  "msgMarshalFail = [CHR 0xE8, CHR 0xAF, CHR 0xB7, CHR 0xE6, CHR 0xB1, CHR 0x82, CHR 0xE4, CHR 0xBD, CHR 0x93, CHR 0xE5, CHR 0xBA, CHR 0x8F, CHR 0xE5, CHR 0x88, CHR 0x97, CHR 0xE5, CHR 0x8C, CHR 0x96, CHR 0xE5, CHR 0xA4, CHR 0xB1, CHR 0xE8, CHR 0xB4, CHR 0xA5] @ '': ''"

definition msgNewReqFail :: string where
  "msgNewReqFail = [CHR 0xE5, CHR 0x88, CHR 0x9B, CHR 0xE5, CHR 0xBB, CHR 0xBA, CHR 0xE8, CHR 0xAF, CHR 0xB7, CHR 0xE6, CHR 0xB1, CHR 0x82, CHR 0xE5, CHR 0xA4, CHR 0xB1, CHR 0xE8, CHR 0xB4, CHR 0xA5] @ '': ''"

definition msgDoFail :: string where
  "msgDoFail = [CHR 0xE8, CHR 0xAF, CHR 0xB7, CHR 0xE6, CHR 0xB1, CHR 0x82, CHR 0xE5, CHR 0xA4, CHR 0xB1, CHR 0xE8, CHR 0xB4, CHR 0xA5] @ '': ''"

definition msgNon200 :: string where
  "msgNon200 = [CHR 0xE9, CHR 0x9D, CHR 0x9E] @ ''200'' @ [CHR 0xE5, CHR 0x93, CHR 0x8D, CHR 0xE5, CHR 0xBA, CHR 0x94] @ '': ''"

definition msgContent :: string where
  "msgContent = '', '' @ [CHR 0xE5, CHR 0x86, CHR 0x85, CHR 0xE5, CHR 0xAE, CHR 0xB9] @ '': ''"

definition msgWriteFail :: string where
  "msgWriteFail = [CHR 0xE5, CHR 0x86, CHR 0x99, CHR 0xE5, CHR 0x85, CHR 0xA5, CHR 0xE5, CHR 0x93, CHR 0x8D, CHR 0xE5, CHR 0xBA, CHR 0x94, CHR 0xE5, CHR 0xA4, CHR 0xB1, CHR 0xE8, CHR 0xB4, CHR 0xA5] @ '': ''"

definition msgReadFail :: string where
  "msgReadFail = [CHR 0xE8, CHR 0xAF, CHR 0xBB, CHR 0xE5, CHR 0x8F, CHR 0x96, CHR 0xE5, CHR 0x93, CHR 0x8D, CHR 0xE5, CHR 0xBA, CHR 0x94, CHR 0xE5, CHR 0xA4, CHR 0xB1, CHR 0xE8, CHR 0xB4, CHR 0xA5] @ '': ''"

text \<open>The verb \<open>%d\<close> of \<open>fmt\<close>: an integer in decimal.\<close>

function showNat :: "nat \<Rightarrow> string" where
  "showNat n = (if n < 10 then [char_of (48 + n)] else showNat (n div 10) @ [char_of (48 + n mod 10)])"
  by pat_completeness auto
termination
  by (relation "measure (\<lambda>n. n)") auto

definition showInt :: "int \<Rightarrow> string" where
  "showInt i = (if i < 0 then ''-'' @ showNat (nat (- i)) else showNat (nat i))"

section \<open>The response translator\<close>

text \<open>
  \<open>reader.ReadString('\n')\<close> on what is left of the body: the line up to and with the
  first line feed and the rest, or \<open>None\<close> when no line feed is left: then the call
  returns the error that ends the body, and both loops leave without looking at the
  bytes read.
\<close>

fun ReadString :: "string \<Rightarrow> (string \<times> string) option" where
  "ReadString [] = None"
| "ReadString (c # cs) =
     (if c = CHR 0x0A then Some ([c], cs)
      else (case ReadString cs of None \<Rightarrow> None | Some (l, r) \<Rightarrow> Some (c # l, r)))"

definition chunkId :: string where
  "chunkId = ''chatcmpl-QXlha2FBbmROaXhpZUFyZUF3ZXNvbWUK''"

definition stopChunk :: "string \<Rightarrow> int \<Rightarrow> json" where
  "stopChunk model created =
     JObj [(''id'', JStr chunkId),
           (''object'', JStr ''chat.completion.chunk''),
           (''created'', JNum (of_int created)),
           (''model'', JStr model),
           (''choices'', JArr [JObj [(''index'', JNum 0), (''finish_reason'', JStr ''stop'')]])]"

definition deltaChunk :: "string \<Rightarrow> string \<Rightarrow> int \<Rightarrow> json" where
  "deltaChunk model msgStr created =
     JObj [(''id'', JStr chunkId),
           (''object'', JStr ''chat.completion.chunk''),
           (''created'', JNum (of_int created)),
           (''model'', JStr model),
           (''choices'', JArr [JObj [(''index'', JNum 0),
                                     (''delta'', JObj [(''content'', JStr msgStr)]),
                                     (''finish_reason'', JNull)]])]"

definition completion :: "string \<Rightarrow> string \<Rightarrow> int \<Rightarrow> json" where
  "completion model fullResponse created =
     JObj [(''id'', JStr chunkId),
           (''object'', JStr ''chat.completion''),
           (''created'', JNum (of_int created)),
           (''model'', JStr model),
           (''usage'', JObj [(''prompt_tokens'', JNum 0),
                            (''completion_tokens'', JNum 0),
                            (''total_tokens'', JNum 0)]),
           (''choices'', JArr [JObj [(''message'', JObj [(''role'', JStr ''assistant''),
                                                         (''content'', JStr fullResponse)]),
                                     (''index'', JNum 0)]])]"

text \<open>
  \<open>sseData, _ := json.Marshal(response)\<close> and \<open>fmt.Sprintf("data: %s\n\n", sseData)\<close>:
  the error of the marshaller is dropped, its bytes are then empty.
\<close>

definition sseMessage :: "golib \<Rightarrow> json \<Rightarrow> string" where
  "sseMessage L response =
     ''data: '' @ (case jsonMarshal L response of Inl e \<Rightarrow> [] | Inr b \<Rightarrow> b) @ [CHR 0x0A, CHR 0x0A]"

text \<open>
  Writing one chunk, as both places of \<open>handleStreamResponse\<close> do: read the time, build
  and marshal the chunk, write it (an error ends the handler with
  \<open>msgWriteFail\<close> and the error), flush.
\<close>

definition writeChunk :: "golib \<Rightarrow> world \<Rightarrow> (int \<Rightarrow> json) \<Rightarrow> state \<Rightarrow> string option \<times> state" where
  "writeChunk L W response s =
     (case timeNow W s of
        (created, s1) \<Rightarrow>
          (case writerWrite W (sseMessage L (response created)) s1 of
             (Some e, s2) \<Rightarrow> (Some (msgWriteFail @ e), s2)
           | (None, s2) \<Rightarrow> (None, flush s2)))"

function streamLoop :: "golib \<Rightarrow> world \<Rightarrow> string \<Rightarrow> string \<Rightarrow> state \<Rightarrow> string option \<times> state" where
  "streamLoop L W model body s =
     (case ReadString body of
        None \<Rightarrow> (None, s)
      | Some (line, rest) \<Rightarrow>
          (if HasPrefix line ''data: '' then
             (let line' = TrimSpace L (TrimPrefix line ''data: '') in
              if line' = ''[DONE]'' then writeChunk L W (stopChunk model) s
              else
                (case jsonUnmarshal L line' of
                   None \<Rightarrow> streamLoop L W model rest s
                 | Some chunk \<Rightarrow>
                     (if map_of chunk ''action'' \<noteq> Some (JStr ''success'')
                      then streamLoop L W model rest s
                      else
                        (case map_of chunk ''message'' of
                           Some (JStr msgStr) \<Rightarrow>
                             (case writeChunk L W (deltaChunk model msgStr) s of
                                (Some e, s') \<Rightarrow> (Some e, s')
                              | (None, s') \<Rightarrow> streamLoop L W model rest s')
                         | _ \<Rightarrow> streamLoop L W model rest s))))
           else streamLoop L W model rest s))"
  by pat_completeness auto
termination
proof -
  have shorter: "ReadString b = Some (l, r) \<Longrightarrow> length r < length b" for b l r
    by (induction b arbitrary: l) (auto split: if_splits option.splits)
  show ?thesis
    by (relation "measure (\<lambda>(L, W, model, body, s). length body)") (auto dest: shorter)
qed

definition handleStreamResponse :: "golib \<Rightarrow> world \<Rightarrow> string \<Rightarrow> http_resp \<Rightarrow> state \<Rightarrow> string option \<times> state" where
  "handleStreamResponse L W model resp s =
     (let s1 = setHeader ''Connection'' ''keep-alive''
                 (setHeader ''Cache-Control'' ''no-cache''
                   (setHeader ''Content-Type'' ''text/event-stream'' s))
      in if \<not> isFlusher W then (Some ''Streaming not supported'', s1)
         else streamLoop L W model (bdata (Body resp)) s1)"

text \<open>
  The loop of \<open>handleNonStreamResponse\<close>, with the \<open>strings.Builder\<close> as accumulator:
  \<open>Inr\<close> the text gathered when the loop is left at \<open>[DONE]\<close> or \<open>io.EOF\<close>, \<open>Inl\<close>
  the error when reading the body fails.
\<close>

function nonStreamLoop :: "golib \<Rightarrow> string option \<Rightarrow> string \<Rightarrow> string \<Rightarrow> string + string" where
  "nonStreamLoop L endErr body fullResponse =
     (case ReadString body of
        None \<Rightarrow>
          (case endErr of
             None \<Rightarrow> Inr fullResponse
           | Some e \<Rightarrow> Inl (msgReadFail @ e))
      | Some (line, rest) \<Rightarrow>
          (if HasPrefix line ''data: '' then
             (let line' = TrimSpace L (TrimPrefix line ''data: '') in
              if line' = ''[DONE]'' then Inr fullResponse
              else
                (case jsonUnmarshal L line' of
                   None \<Rightarrow> nonStreamLoop L endErr rest fullResponse
                 | Some chunk \<Rightarrow>
                     (if map_of chunk ''action'' \<noteq> Some (JStr ''success'')
                      then nonStreamLoop L endErr rest fullResponse
                      else
                        (case map_of chunk ''message'' of
                           Some (JStr msgStr) \<Rightarrow> nonStreamLoop L endErr rest (fullResponse @ msgStr)
                         | _ \<Rightarrow> nonStreamLoop L endErr rest fullResponse))))
           else nonStreamLoop L endErr rest fullResponse))"
  by pat_completeness auto
termination
proof -
  have shorter: "ReadString b = Some (l, r) \<Longrightarrow> length r < length b" for b l r
    by (induction b arbitrary: l) (auto split: if_splits option.splits)
  show ?thesis
    by (relation "measure (\<lambda>(L, endErr, body, fullResponse). length body)") (auto dest: shorter)
qed

definition handleNonStreamResponse :: "golib \<Rightarrow> world \<Rightarrow> string \<Rightarrow> http_resp \<Rightarrow> state \<Rightarrow> string option \<times> state" where
  "handleNonStreamResponse L W model resp s =
     (case nonStreamLoop L (berr (Body resp)) (bdata (Body resp)) [] of
        Inl e \<Rightarrow> (Some e, s)
      | Inr fullResponse \<Rightarrow>
          (case timeNow W s of
             (created, s1) \<Rightarrow> (None, gin_JSON 200 (completion model fullResponse created) s1)))"

definition handleResponse :: "golib \<Rightarrow> world \<Rightarrow> http_resp \<Rightarrow> bool \<Rightarrow> string \<Rightarrow> state \<Rightarrow> string option \<times> state" where
  "handleResponse L W resp isStream model s =
     (if isStream then handleStreamResponse L W model resp s
      else handleNonStreamResponse L W model resp s)"

section \<open>The token provider\<close>

definition homeURL :: string where
  "homeURL = ''https://duckduckgo.com/''"

definition statusURL :: string where
  "statusURL = ''https://duckduckgo.com/duckchat/v1/status''"

definition chatURL :: string where
  "chatURL = ''https://duckduckgo.com/duckchat/v1/chat''"

definition baseURL :: string where
  "baseURL = ''https://duckduckgo.com''"

definition fallbackURLs :: "string list" where
  "fallbackURLs = [''https://duckduckgo.com/duck.js'', ''https://duckduckgo.com/chat.js'', ''https://duckduckgo.com/d.js'']"

text \<open>
  A \<open>GET\<close> request with the fake headers, and the headers set after them (only the
  status probe sets one).
\<close>

definition getRequest :: "Config \<Rightarrow> string \<Rightarrow> (string \<times> string) list \<Rightarrow> http_req" where
  "getRequest cfg url extra =
     \<lparr>reqMethod = ''GET'', reqURL = url,
      reqHeader = fold (\<lambda>(k, v) h. h(k \<mapsto> v)) extra (map_of (FakeHeaders cfg)),
      reqBody = []\<rparr>"

text \<open>
  The loop over the alternate patterns of the landing page: \<open>matches\<close> is assigned for
  each pattern and the loop is left at the first one with a submatch.
\<close>

fun alternateLoop :: "golib \<Rightarrow> string \<Rightarrow> pattern list \<Rightarrow> string list \<Rightarrow> string list" where
  "alternateLoop L bodyStr [] matches = matches"
| "alternateLoop L bodyStr (p # ps) matches =
     (let matches' = FindStringSubmatch L p bodyStr in
      if 2 \<le> length matches' then matches' else alternateLoop L bodyStr ps matches')"

text \<open>
  The loop over the linked script assets. It returns the token when an asset has one
  (the function then returns it), and the requests handed to \<open>client.Do\<close>.
\<close>

fun jsLoop :: "golib \<Rightarrow> Config \<Rightarrow> (http_req \<Rightarrow> string + http_resp) \<Rightarrow> string list list \<Rightarrow> http_req list
    \<Rightarrow> string option \<times> http_req list" where
  "jsLoop L cfg net [] tr = (None, tr)"
| "jsLoop L cfg net (match # rest) tr =
     (if length match < 2 then jsLoop L cfg net rest tr
      else
        (let jsURL = baseURL @ match ! 1 in
         case NewRequest L ''GET'' jsURL of
           Some e \<Rightarrow> jsLoop L cfg net rest tr
         | None \<Rightarrow>
             (let jsReq = getRequest cfg jsURL [] in
              case net jsReq of
                Inl e \<Rightarrow> jsLoop L cfg net rest (tr @ [jsReq])
              | Inr jsResp \<Rightarrow>
                  (case berr (Body jsResp) of
                     Some e \<Rightarrow> jsLoop L cfg net rest (tr @ [jsReq])
                   | None \<Rightarrow>
                       (let jsContent = bdata (Body jsResp);
                            jsMatches = FindStringSubmatch L P_vqd_sep_ws jsContent
                        in if 2 \<le> length jsMatches then (Some (jsMatches ! 1), tr @ [jsReq])
                           else
                             (let jsMatches2 = FindStringSubmatch L P_vqd_dq_ws jsContent
                              in if 2 \<le> length jsMatches2 then (Some (jsMatches2 ! 1), tr @ [jsReq])
                                 else jsLoop L cfg net rest (tr @ [jsReq])))))))"

text \<open>The loop over the patterns tried on one fallback asset.\<close>

fun patternLoop :: "golib \<Rightarrow> string \<Rightarrow> pattern list \<Rightarrow> string option" where
  "patternLoop L fallbackContent [] = None"
| "patternLoop L fallbackContent (p # ps) =
     (let m = FindStringSubmatch L p fallbackContent in
      if 2 \<le> length m then Some (m ! 1) else patternLoop L fallbackContent ps)"

fun fallbackLoop :: "golib \<Rightarrow> Config \<Rightarrow> (http_req \<Rightarrow> string + http_resp) \<Rightarrow> string list \<Rightarrow> http_req list
    \<Rightarrow> string option \<times> http_req list" where
  "fallbackLoop L cfg net [] tr = (None, tr)"
| "fallbackLoop L cfg net (url # rest) tr =
     (case NewRequest L ''GET'' url of
        Some e \<Rightarrow> fallbackLoop L cfg net rest tr
      | None \<Rightarrow>
          (let fallbackReq = getRequest cfg url [] in
           case net fallbackReq of
             Inl e \<Rightarrow> fallbackLoop L cfg net rest (tr @ [fallbackReq])
           | Inr fallbackResp \<Rightarrow>
               (case berr (Body fallbackResp) of
                  Some e \<Rightarrow> fallbackLoop L cfg net rest (tr @ [fallbackReq])
                | None \<Rightarrow>
                    (case patternLoop L (bdata (Body fallbackResp)) [P_vqd_sep_ws, P_vqd_dq_ws, P_vqd_sq_ws] of
                       Some token \<Rightarrow> (Some token, tr @ [fallbackReq])
                     | None \<Rightarrow> fallbackLoop L cfg net rest (tr @ [fallbackReq])))))"

text \<open>The last resort: the status endpoint, read for its \<open>x-vqd-4\<close> header.\<close>

definition statusProbe :: "golib \<Rightarrow> Config \<Rightarrow> (http_req \<Rightarrow> string + http_resp) \<Rightarrow> http_req list
    \<Rightarrow> (string + string \<times> string) \<times> http_req list" where
  "statusProbe L cfg net tr =
     (case NewRequest L ''GET'' statusURL of
        Some e \<Rightarrow> (Inl (''failed to create status request: '' @ e), tr)
      | None \<Rightarrow>
          (let statusReq = getRequest cfg statusURL [(''x-vqd-accept'', ''1'')] in
           case net statusReq of
             Inl e \<Rightarrow> (Inl (''status request failed: '' @ e), tr @ [statusReq])
           | Inr statusResp \<Rightarrow>
               (let token = respHeader statusResp ''x-vqd-4'' in
                if token \<noteq> [] then (Inr (token, []), tr @ [statusReq])
                else (Inl ''could not find vqd token using any method'', tr @ [statusReq]))))"

text \<open>
  \<open>requestTokenAndHash\<close> of \<open>main.go\<close>: \<open>Inr (token, hash)\<close> or \<open>Inl\<close> the error, and
  the requests it handed to \<open>client.Do\<close>, in order.
\<close>

definition requestTokenAndHash :: "golib \<Rightarrow> Config \<Rightarrow> (http_req \<Rightarrow> string + http_resp)
    \<Rightarrow> (string + string \<times> string) \<times> http_req list" where
  "requestTokenAndHash L cfg net =
     (case NewRequest L ''GET'' homeURL of
        Some e \<Rightarrow> (Inl (''failed to create homepage request: '' @ e), [])
      | None \<Rightarrow>
          (let req = getRequest cfg homeURL [] in
           case net req of
             Inl e \<Rightarrow> (Inl (''homepage request failed: '' @ e), [req])
           | Inr resp \<Rightarrow>
               if StatusCode resp \<noteq> 200
               then (Inl (''homepage request returned status '' @ showInt (StatusCode resp) @ '': '' @ bdata (Body resp)), [req])
               else
                 (case berr (Body resp) of
                    Some e \<Rightarrow> (Inl (''failed to read homepage: '' @ e), [req])
                  | None \<Rightarrow>
                      (let bodyStr = bdata (Body resp);
                           matches0 = FindStringSubmatch L P_vqd_eq bodyStr;
                           matches = (if length matches0 < 2
                                      then alternateLoop L bodyStr [P_vqd_sep, P_vqd_dq, P_vqd_sq] matches0
                                      else matches0)
                       in if 2 \<le> length matches then (Inr (matches ! 1, []), [req])
                          else
                            (case jsLoop L cfg net (FindAllStringSubmatch L P_dist_js bodyStr) [req] of
                               (Some token, tr) \<Rightarrow> (Inr (token, []), tr)
                             | (None, tr) \<Rightarrow>
                                 (case fallbackLoop L cfg net fallbackURLs tr of
                                    (Some token, tr') \<Rightarrow> (Inr (token, []), tr')
                                  | (None, tr') \<Rightarrow> statusProbe L cfg net tr'))))))"

definition requestToken :: "golib \<Rightarrow> Config \<Rightarrow> (http_req \<Rightarrow> string + http_resp) \<Rightarrow> string + string" where
  "requestToken L cfg net =
     (case fst (requestTokenAndHash L cfg net) of Inl e \<Rightarrow> Inl e | Inr (token, h) \<Rightarrow> Inr token)"

text \<open>
  \<open>requestTokenAndHash\<close> of the variant with the hard-coded token: it makes no request
  and cannot fail.
\<close>

definition hardcodedToken :: string where
  "hardcodedToken = ''4-254683533747813303106479798401426525337''"

definition hardcodedHash :: string where
  "hardcodedHash = ''eyJzZXJ2ZXJfaGFzaGVzIjpbIlhjeXJBK0duWGVCZHRPVlJFNGxnOUl2djZHRFFuWmpmdWNhMGlSVUFwYm89IiwiSWRnOVVoVDZxUHEvenR5NWIwNWJuQ09wVVJZR1ZaSXk1bW00UnBaeHpiZz0iXSwiY2xpZW50X2hhc2hlcyI6WyJrZFFzVzJHY3NXR29XUW0zN01QOEp0MHJvMko5d1BkSVhodHhicWRjSGdZPSIsIm1rUzJRZ0VuempqM1NZRjMwUFBFNm0wdUkwczU5RmtqM3IrQ3VYWjFVWGM9Il0sInNpZ25hbHMiOnt9fQ==''"

definition multiTurnToken :: string where
  "multiTurnToken = ''4-212890776487765339064984812855765849703''"

definition requestTokenAndHash_hardcoded :: "(string + string \<times> string) \<times> http_req list" where
  "requestTokenAndHash_hardcoded = (Inr (hardcodedToken, hardcodedHash), [])"

section \<open>The retry loop and \<open>handleCompletion\<close>\<close>

text \<open>What one pass through the body of the retry loop ends with: \<open>return\<close>, or
  \<open>lastError = e; retryCount++; continue\<close>.\<close>

datatype attempt = Finished state | Failed string state

text \<open>How the handler ends: it returns, or it panics (a method call on a nil error).\<close>

datatype exit = Return | Panic

definition chatHeaders :: "Config \<Rightarrow> string \<Rightarrow> string \<Rightarrow> string \<Rightarrow> string option" where
  "chatHeaders cfg token vqdHash =
     (let h0 = map_of (FakeHeaders cfg);
          h1 = h0(''x-vqd-4'' \<mapsto> token);
          h2 = (if vqdHash \<noteq> [] then h1(''x-vqd-hash-1'' \<mapsto> vqdHash) else h1);
          h3 = h2(''Content-Type'' \<mapsto> ''application/json'')
      in h3(''Accept'' \<mapsto> ''text/event-stream''))"

text \<open>
  The loop body from the request body on, which the two variants share: marshal the
  upstream request, send it, check the status, translate the response.
\<close>

definition sendChat :: "golib \<Rightarrow> world \<Rightarrow> Config \<Rightarrow> bool \<Rightarrow> string \<Rightarrow> string \<Rightarrow> nat \<Rightarrow> string \<Rightarrow> string
    \<Rightarrow> state \<Rightarrow> attempt" where
  "sendChat L W cfg isStream model content retryCount token vqdHash s =
     (let reqBody = JObj [(''model'', JStr model),
                          (''messages'', JArr [JObj [(''role'', JStr ''user''), (''content'', JStr content)]])]
      in case jsonMarshal L reqBody of
           Inl e \<Rightarrow> Finished (gin_JSON 500 (gin_H_error (msgMarshalFail @ e)) s)
         | Inr body \<Rightarrow>
             (case NewRequest L ''POST'' chatURL of
                Some e \<Rightarrow> Finished (gin_JSON 500 (gin_H_error (msgNewReqFail @ e)) s)
              | None \<Rightarrow>
                  (let upstreamReq = \<lparr>reqMethod = ''POST'', reqURL = chatURL,
                                      reqHeader = chatHeaders cfg token vqdHash, reqBody = body\<rparr>;
                       s1 = s\<lparr>sent := sent s @ [upstreamReq]\<rparr>
                   in case clientDo W retryCount upstreamReq of
                        Inl e \<Rightarrow> Failed (msgDoFail @ e) s1
                      | Inr resp \<Rightarrow>
                          if StatusCode resp \<noteq> 200
                          then Failed (msgNon200 @ showInt (StatusCode resp) @ msgContent @ bdata (Body resp)) s1
                          else
                            (case handleResponse L W resp isStream model s1 of
                               (Some e, s2) \<Rightarrow> Failed e s2
                             | (None, s2) \<Rightarrow> Finished s2))))"

text \<open>The loop body of \<open>main.go\<close>.\<close>

definition attemptScrape :: "golib \<Rightarrow> world \<Rightarrow> Config \<Rightarrow> chat_request \<Rightarrow> string \<Rightarrow> string \<Rightarrow> nat \<Rightarrow> state \<Rightarrow> attempt" where
  "attemptScrape L W cfg req model content retryCount s =
     (case requestTokenAndHash L cfg (clientDo W retryCount) of
        (Inl err, tr) \<Rightarrow> Failed (msgTokenFail @ err) (s\<lparr>sent := sent s @ tr\<rparr>)
      | (Inr (token, vqdHash), tr) \<Rightarrow>
          sendChat L W cfg (Stream req) model content retryCount token vqdHash (s\<lparr>sent := sent s @ tr\<rparr>))"

text \<open>The loop body of the variant with the hard-coded token.\<close>

definition attemptHardcoded :: "golib \<Rightarrow> world \<Rightarrow> Config \<Rightarrow> chat_request \<Rightarrow> string \<Rightarrow> string \<Rightarrow> nat \<Rightarrow> state \<Rightarrow> attempt" where
  "attemptHardcoded L W cfg req model content retryCount s =
     (case requestTokenAndHash_hardcoded of
        (Inl err, tr) \<Rightarrow> Failed (msgTokenFail @ err) (s\<lparr>sent := sent s @ tr\<rparr>)
      | (Inr (token, vqdHash), tr) \<Rightarrow>
          (let token' = (if 1 < length (Messages req) then multiTurnToken else token)
           in sendChat L W cfg (Stream req) model content retryCount token' vqdHash (s\<lparr>sent := sent s @ tr\<rparr>)))"

text \<open>
  \<open>for retryCount <= config.MaxRetryCount\<close>, with the loop body as an argument; after
  the loop the last error is sent with status 500.
\<close>

function retryLoop :: "(nat \<Rightarrow> state \<Rightarrow> attempt) \<Rightarrow> Config \<Rightarrow> nat \<Rightarrow> string option \<Rightarrow> state \<Rightarrow> exit \<times> state" where
  "retryLoop body cfg retryCount lastError s =
     (if int retryCount \<le> MaxRetryCount cfg then
        (let s1 = (if 0 < retryCount then s\<lparr>sleeps := Suc (sleeps s)\<rparr> else s)
         in case body retryCount s1 of
              Finished s2 \<Rightarrow> (Return, s2)
            | Failed e s2 \<Rightarrow> retryLoop body cfg (Suc retryCount) (Some e) s2)
      else
        (case lastError of
           None \<Rightarrow> (Panic, s)
         | Some e \<Rightarrow> (Return, gin_JSON 500 (gin_H_error e) s)))"
  by pat_completeness auto
termination
  by (relation "measure (\<lambda>(body, cfg, retryCount, lastError, s). nat (MaxRetryCount cfg + 1 - int retryCount))") auto

text \<open>The check of the \<open>Authorization\<close> header: the message of the 401, or \<open>None\<close>.\<close>

definition authCheck :: "world \<Rightarrow> inbound \<Rightarrow> string option" where
  "authCheck W c =
     (let apiKey = APIKEY W; authorizationHeader = Authorization c in
      if apiKey \<noteq> [] then
        (if authorizationHeader = [] then Some msgNoKey
         else if \<not> HasPrefix authorizationHeader ''Bearer '' then Some msgBadFormat
         else
           (let providedToken = TrimPrefix authorizationHeader ''Bearer '' in
            if providedToken \<noteq> apiKey then Some msgBadKey else None))
      else None)"

text \<open>The handler after the check, with the loop body of the variant as an argument.\<close>

definition serveCompletion :: "(golib \<Rightarrow> world \<Rightarrow> Config \<Rightarrow> chat_request \<Rightarrow> string \<Rightarrow> string \<Rightarrow> nat \<Rightarrow> state \<Rightarrow> attempt)
    \<Rightarrow> golib \<Rightarrow> world \<Rightarrow> Config \<Rightarrow> inbound \<Rightarrow> state \<Rightarrow> exit \<times> state" where
  "serveCompletion body L W cfg c s =
     (case ShouldBindJSON W (rawBody c) of
        Inl err \<Rightarrow> (Return, gin_JSON 400 (gin_H_error err) s)
      | Inr req \<Rightarrow>
          (let model = convertModel L (Model req);
               content = prepareMessages L (Messages req)
           in retryLoop (body L W cfg req model content) cfg 0 None s))"

definition handleCompletionWith :: "(golib \<Rightarrow> world \<Rightarrow> Config \<Rightarrow> chat_request \<Rightarrow> string \<Rightarrow> string \<Rightarrow> nat \<Rightarrow> state \<Rightarrow> attempt)
    \<Rightarrow> golib \<Rightarrow> world \<Rightarrow> Config \<Rightarrow> inbound \<Rightarrow> state \<Rightarrow> exit \<times> state" where
  "handleCompletionWith body L W cfg c s =
     (case authCheck W c of
        Some m \<Rightarrow> (Return, gin_JSON 401 (gin_H_error m) s)
      | None \<Rightarrow> serveCompletion body L W cfg c s)"

text \<open>\<open>handleCompletion\<close> of \<open>main.go\<close>, and of the variant with the hard-coded token.\<close>

definition handleCompletion :: "golib \<Rightarrow> world \<Rightarrow> Config \<Rightarrow> inbound \<Rightarrow> state \<Rightarrow> exit \<times> state" where
  "handleCompletion = handleCompletionWith attemptScrape"

definition handleCompletion_hardcoded :: "golib \<Rightarrow> world \<Rightarrow> Config \<Rightarrow> inbound \<Rightarrow> state \<Rightarrow> exit \<times> state" where
  "handleCompletion_hardcoded = handleCompletionWith attemptHardcoded"

definition state0 :: state where
  "state0 = \<lparr>effects = [], nowCalls = 0, writeCalls = 0, sleeps = 0, sent = []\<rparr>"

text \<open>The state an attempt leaves behind, whichever way it ends.\<close>

fun attemptState :: "attempt \<Rightarrow> state" where
  "attemptState (Finished s) = s"
| "attemptState (Failed e s) = s"

section \<open>The words of the specification for the response translator\<close>

text \<open>Reading a reply: a field of an object, and the first element of \<open>choices\<close>.\<close>

fun jfield :: "string \<Rightarrow> json \<Rightarrow> json option" where
  "jfield k (JObj kv) = map_of kv k"
| "jfield k j = None"

definition firstChoice :: "json \<Rightarrow> json option" where
  "firstChoice j = (case jfield ''choices'' j of Some (JArr (c # cs)) \<Rightarrow> Some c | _ \<Rightarrow> None)"

definition choiceCount :: "json \<Rightarrow> nat" where
  "choiceCount j = (case jfield ''choices'' j of Some (JArr cs) \<Rightarrow> length cs | _ \<Rightarrow> 0)"

text \<open>
  The records of an upstream body are its lines, each ended by a line feed (bytes
  after the last line feed are not a record). A record is the terminal marker when it
  starts with \<open>data: \<close> and the rest, trimmed, is \<open>[DONE]\<close>. The fragment of a record
  is the \<open>message\<close> string of a \<open>data: \<close> record that decodes and is tagged \<open>success\<close>.
  The content of a body is the fragments of its records before the first terminal
  marker, in order.
\<close>

fun spec_split :: "string \<Rightarrow> string \<Rightarrow> string list" where
  "spec_split cur [] = []"
| "spec_split cur (c # cs) =
     (if c = CHR 0x0A then (cur @ [c]) # spec_split [] cs else spec_split (cur @ [c]) cs)"

definition spec_records :: "string \<Rightarrow> string list" where
  "spec_records body = spec_split [] body"

definition spec_payload :: "golib \<Rightarrow> string \<Rightarrow> string" where
  "spec_payload L record = TrimSpace L (drop 6 record)"

definition spec_isDone :: "golib \<Rightarrow> string \<Rightarrow> bool" where
  "spec_isDone L record = (take 6 record = ''data: '' \<and> spec_payload L record = ''[DONE]'')"

definition spec_fragment :: "golib \<Rightarrow> string \<Rightarrow> string option" where
  "spec_fragment L record =
     (if take 6 record = ''data: '' then
        (case jsonUnmarshal L (spec_payload L record) of
           None \<Rightarrow> None
         | Some chunk \<Rightarrow>
             (if map_of chunk ''action'' = Some (JStr ''success'') then
                (case map_of chunk ''message'' of Some (JStr m) \<Rightarrow> Some m | _ \<Rightarrow> None)
              else None))
      else None)"

definition spec_content :: "golib \<Rightarrow> string \<Rightarrow> string" where
  "spec_content L body =
     concat (List.map_filter (spec_fragment L)
               (takeWhile (\<lambda>r. \<not> spec_isDone L r) (spec_records body)))"

text \<open>A body is line-complete when it is empty or ends with a line feed.\<close>

definition lineComplete :: "string \<Rightarrow> bool" where
  "lineComplete b = (b = [] \<or> last b = CHR 0x0A)"

section \<open>The words of the specification for the token provider and the retry loop\<close>

text \<open>
  The four credential sources, each as what it yields on its own. A pattern yields the
  first submatch of its first match; a list of patterns yields what its first matching
  pattern yields; an asset is its text when the request for it can be built, is
  answered and is read to the end.
  \<^item> Method 1: the patterns of the landing page, on the landing page (fetched with
    status 200 and read to the end).
  \<^item> Method 2: the linked \<open>/dist/*.js\<close> assets in the order of the page, each searched
    with the two script patterns; the first asset that yields.
  \<^item> Method 3: the fallback assets in the order of the list, each searched with the
    three fallback patterns; the first asset that yields.
  \<^item> Method 4: the \<open>x-vqd-4\<close> header of the status probe, when it is not empty.
  \<open>spec_acquire\<close> is the first of the four that yields.
\<close>

definition spec_firstSome :: "'a option list \<Rightarrow> 'a option" where
  "spec_firstSome xs = (case List.map_filter (\<lambda>x. x) xs of [] \<Rightarrow> None | y # ys \<Rightarrow> Some y)"

definition spec_submatch :: "string list \<Rightarrow> string option" where
  "spec_submatch m = (if 2 \<le> length m then Some (m ! 1) else None)"

definition spec_firstMatch :: "golib \<Rightarrow> pattern list \<Rightarrow> string \<Rightarrow> string option" where
  "spec_firstMatch L ps text = spec_firstSome (map (\<lambda>p. spec_submatch (FindStringSubmatch L p text)) ps)"

definition spec_fetch :: "golib \<Rightarrow> Config \<Rightarrow> (http_req \<Rightarrow> string + http_resp) \<Rightarrow> string \<Rightarrow> string option" where
  "spec_fetch L cfg net url =
     (case NewRequest L ''GET'' url of
        Some e \<Rightarrow> None
      | None \<Rightarrow>
          (case net (getRequest cfg url []) of
             Inl e \<Rightarrow> None
           | Inr r \<Rightarrow> (case berr (Body r) of Some e \<Rightarrow> None | None \<Rightarrow> Some (bdata (Body r)))))"

definition spec_landingPage :: "golib \<Rightarrow> Config \<Rightarrow> (http_req \<Rightarrow> string + http_resp) \<Rightarrow> string option" where
  "spec_landingPage L cfg net =
     (case NewRequest L ''GET'' homeURL of
        Some e \<Rightarrow> None
      | None \<Rightarrow>
          (case net (getRequest cfg homeURL []) of
             Inl e \<Rightarrow> None
           | Inr r \<Rightarrow>
               if StatusCode r \<noteq> 200 then None
               else (case berr (Body r) of Some e \<Rightarrow> None | None \<Rightarrow> Some (bdata (Body r)))))"

definition spec_linkURLs :: "string list list \<Rightarrow> string list" where
  "spec_linkURLs ms = map (\<lambda>m. baseURL @ m ! 1) (filter (\<lambda>m. 2 \<le> length m) ms)"

definition spec_assetURLs :: "golib \<Rightarrow> string \<Rightarrow> string list" where
  "spec_assetURLs L page = spec_linkURLs (FindAllStringSubmatch L P_dist_js page)"

definition spec_method1 :: "golib \<Rightarrow> Config \<Rightarrow> (http_req \<Rightarrow> string + http_resp) \<Rightarrow> string option" where
  "spec_method1 L cfg net =
     (case spec_landingPage L cfg net of
        None \<Rightarrow> None
      | Some page \<Rightarrow> spec_firstMatch L [P_vqd_eq, P_vqd_sep, P_vqd_dq, P_vqd_sq] page)"

definition spec_asset :: "golib \<Rightarrow> Config \<Rightarrow> (http_req \<Rightarrow> string + http_resp) \<Rightarrow> pattern list \<Rightarrow> string \<Rightarrow> string option" where
  "spec_asset L cfg net ps url =
     (case spec_fetch L cfg net url of None \<Rightarrow> None | Some text \<Rightarrow> spec_firstMatch L ps text)"

definition spec_method2 :: "golib \<Rightarrow> Config \<Rightarrow> (http_req \<Rightarrow> string + http_resp) \<Rightarrow> string option" where
  "spec_method2 L cfg net =
     (case spec_landingPage L cfg net of
        None \<Rightarrow> None
      | Some page \<Rightarrow>
          spec_firstSome (map (spec_asset L cfg net [P_vqd_sep_ws, P_vqd_dq_ws]) (spec_assetURLs L page)))"

definition spec_method3 :: "golib \<Rightarrow> Config \<Rightarrow> (http_req \<Rightarrow> string + http_resp) \<Rightarrow> string option" where
  "spec_method3 L cfg net =
     spec_firstSome (map (spec_asset L cfg net [P_vqd_sep_ws, P_vqd_dq_ws, P_vqd_sq_ws]) fallbackURLs)"

definition spec_method4 :: "golib \<Rightarrow> Config \<Rightarrow> (http_req \<Rightarrow> string + http_resp) \<Rightarrow> string option" where
  "spec_method4 L cfg net =
     (case NewRequest L ''GET'' statusURL of
        Some e \<Rightarrow> None
      | None \<Rightarrow>
          (case net (getRequest cfg statusURL [(''x-vqd-accept'', ''1'')]) of
             Inl e \<Rightarrow> None
           | Inr r \<Rightarrow> if respHeader r ''x-vqd-4'' \<noteq> [] then Some (respHeader r ''x-vqd-4'') else None))"

definition spec_acquire :: "golib \<Rightarrow> Config \<Rightarrow> (http_req \<Rightarrow> string + http_resp) \<Rightarrow> string option" where
  "spec_acquire L cfg net =
     spec_firstSome [spec_method1 L cfg net, spec_method2 L cfg net, spec_method3 L cfg net, spec_method4 L cfg net]"

text \<open>
  The addresses the token provider may ask for, in the order of the four methods (an
  address for which no request can be built is never asked for).
\<close>

definition spec_requestOrder :: "golib \<Rightarrow> Config \<Rightarrow> (http_req \<Rightarrow> string + http_resp) \<Rightarrow> string list" where
  "spec_requestOrder L cfg net =
     homeURL #
     filter (\<lambda>u. NewRequest L ''GET'' u = None)
       ((case spec_landingPage L cfg net of None \<Rightarrow> [] | Some page \<Rightarrow> spec_assetURLs L page) @ fallbackURLs)
     @ [statusURL]"

text \<open>
  The retryable failure of the attempt with \<open>retryCount = k\<close>, as the message recorded
  for it: the token cannot be acquired, or the upstream request fails in transport, or
  its status is not 200. \<open>None\<close> when the attempt does not end in one of the three.
\<close>

definition chatBody :: "string \<Rightarrow> string \<Rightarrow> json" where
  "chatBody model content =
     JObj [(''model'', JStr model),
           (''messages'', JArr [JObj [(''role'', JStr ''user''), (''content'', JStr content)]])]"

definition spec_attemptFailure :: "golib \<Rightarrow> world \<Rightarrow> Config \<Rightarrow> string \<Rightarrow> string \<Rightarrow> nat \<Rightarrow> string option" where
  "spec_attemptFailure L W cfg model content k =
     (case fst (requestTokenAndHash L cfg (clientDo W k)) of
        Inl err \<Rightarrow> Some (msgTokenFail @ err)
      | Inr (token, vqdHash) \<Rightarrow>
          (case jsonMarshal L (chatBody model content) of
             Inl e \<Rightarrow> None
           | Inr body \<Rightarrow>
               (case NewRequest L ''POST'' chatURL of
                  Some e \<Rightarrow> None
                | None \<Rightarrow>
                    (case clientDo W k \<lparr>reqMethod = ''POST'', reqURL = chatURL,
                                         reqHeader = chatHeaders cfg token vqdHash, reqBody = body\<rparr> of
                       Inl e \<Rightarrow> Some (msgDoFail @ e)
                     | Inr resp \<Rightarrow>
                         if StatusCode resp \<noteq> 200
                         then Some (msgNon200 @ showInt (StatusCode resp) @ msgContent @ bdata (Body resp))
                         else None))))"

text \<open>
  The requests the attempt with \<open>retryCount = k\<close> hands to \<open>client.Do\<close> when it ends in
  a retryable failure: those of the token provider, then the chat request when a
  token was acquired and the request could be built. \<open>spec_requestsBefore j\<close> is the
  requests of the attempts \<open>0\<close> to \<open>j - 1\<close>, in order.
\<close>

definition spec_attemptRequests :: "golib \<Rightarrow> world \<Rightarrow> Config \<Rightarrow> string \<Rightarrow> string \<Rightarrow> nat \<Rightarrow> http_req list" where
  "spec_attemptRequests L W cfg model content k =
     (case requestTokenAndHash L cfg (clientDo W k) of
        (Inl err, tr) \<Rightarrow> tr
      | (Inr (token, vqdHash), tr) \<Rightarrow>
          (case jsonMarshal L (chatBody model content) of
             Inl e \<Rightarrow> tr
           | Inr body \<Rightarrow>
               (case NewRequest L ''POST'' chatURL of
                  Some e \<Rightarrow> tr
                | None \<Rightarrow> tr @ [\<lparr>reqMethod = ''POST'', reqURL = chatURL,
                                  reqHeader = chatHeaders cfg token vqdHash, reqBody = body\<rparr>])))"

definition spec_requestsBefore :: "golib \<Rightarrow> world \<Rightarrow> Config \<Rightarrow> string \<Rightarrow> string \<Rightarrow> nat \<Rightarrow> http_req list" where
  "spec_requestsBefore L W cfg model content j =
     concat (map (spec_attemptRequests L W cfg model content) [0..<j])"

section \<open>A library instance for concrete runs\<close>

text \<open>
  An instance of the library record for evaluating the handlers on concrete inputs.
  On the inputs of the runs below it answers as the Go library does: the Unicode
  paths are the identity (right for text that is already lower case and has no
  Unicode white space); the decoder reads the two records \<open>hiRecord\<close> and
  \<open>errRecord\<close> and the empty object, and rejects the rest (only \<open>{oops\<close> is put to it
  besides); the patterns \<open>P_vqd_eq\<close>, \<open>P_vqd_sep\<close> and \<open>P_vqd_sep_ws\<close> match
  \<open>vqd="tok"\<close> in \<open>tokenPage\<close>, the pattern \<open>P_vqd_sep_ws\<close> alone matches
  \<open>vqd = "tok2"\<close> in \<open>assetText\<close>, the pattern \<open>P_dist_js\<close> finds \<open>/dist/app.js\<close> once
  in \<open>linkPage\<close>, and nothing else matches; every request can be built.
  The bytes of \<open>json.Marshal\<close> and of \<open>%v\<close> are replaced by a tag: no run with this
  instance looks at them.
\<close>

definition hiRecord :: string where
  \<open>hiRecord = ''{"action":"success","message":"Hi"}''\<close>

definition errRecord :: string where
  \<open>errRecord = ''{"action":"error","message":"boom"}''\<close>

definition tokenPage :: string where
  \<open>tokenPage = ''<script>vqd="tok"</script>''\<close>

definition tokenMatch :: string where
  \<open>tokenMatch = ''vqd="tok"''\<close>

definition barePage :: string where
  "barePage = ''<html></html>''"

definition linkPage :: string where
  \<open>linkPage = ''<script src="/dist/app.js"></script>''\<close>

definition assetText :: string where
  \<open>assetText = ''var vqd = "tok2";''\<close>

definition assetMatch :: string where
  \<open>assetMatch = ''vqd = "tok2"''\<close>

definition demoLib :: golib where
  "demoLib = \<lparr>
     unicodeToLower = (\<lambda>s. s),
     unicodeTrim = (\<lambda>s. s),
     unicodeTrimRight = (\<lambda>s. s),
     jsonUnmarshal = (\<lambda>s.
        if s = hiRecord then Some [(''action'', JStr ''success''), (''message'', JStr ''Hi'')]
        else if s = errRecord then Some [(''action'', JStr ''error''), (''message'', JStr ''boom'')]
        else if s = ''{}'' then Some []
        else None),
     jsonMarshal = (\<lambda>v. Inr ''<json>''),
     fmtV = (\<lambda>v. ''<value>''),
     FindStringSubmatch = (\<lambda>p s.
        if s = tokenPage \<and> (p = P_vqd_eq \<or> p = P_vqd_sep \<or> p = P_vqd_sep_ws) then [tokenMatch, ''tok'']
        else if s = assetText \<and> p = P_vqd_sep_ws then [assetMatch, ''tok2'']
        else []),
     FindAllStringSubmatch = (\<lambda>p s.
        if s = linkPage \<and> p = P_dist_js then [[''/dist/app.js'', ''/dist/app.js'']] else []),
     NewRequest = (\<lambda>m u. None)
   \<rparr>"

text \<open>The body of the specification's example, and a world that answers with it.\<close>

definition hiBody :: string where
  "hiBody = ''data: '' @ hiRecord @ [CHR 0x0A] @ ''data: [DONE]'' @ [CHR 0x0A]"

definition hiResp :: http_resp where
  "hiResp = \<lparr>StatusCode = 200, respHeader = (\<lambda>k. []), Body = \<lparr>bdata = hiBody, berr = None\<rparr>\<rparr>"

text \<open>
  The same library with a marshaller that answers as \<open>json.Marshal\<close> does on the two
  chunks of the example run (the keys of a map in sorted order, \<open>nil\<close> as \<open>null\<close>);
  the other values keep their tag.
\<close>

definition hiChunkBytes :: string where
  \<open>hiChunkBytes = ''{"choices":[{"delta":{"content":"Hi"},"finish_reason":null,"index":0}],"created":1700000000,"id":"chatcmpl-QXlha2FBbmROaXhpZUFyZUF3ZXNvbWUK","model":"gpt-4o-mini","object":"chat.completion.chunk"}''\<close>

definition stopChunkBytes :: string where
  \<open>stopChunkBytes = ''{"choices":[{"finish_reason":"stop","index":0}],"created":1700000001,"id":"chatcmpl-QXlha2FBbmROaXhpZUFyZUF3ZXNvbWUK","model":"gpt-4o-mini","object":"chat.completion.chunk"}''\<close>

definition wireLib :: golib where
  "wireLib = demoLib\<lparr>jsonMarshal := (\<lambda>v.
      if v = deltaChunk ''gpt-4o-mini'' ''Hi'' 1700000000 then Inr hiChunkBytes
      else if v = stopChunk ''gpt-4o-mini'' 1700000001 then Inr stopChunkBytes
      else Inr ''<json>'')\<rparr>"

text \<open>
  Two more upstream answers: the record of the example without a line feed after it,
  read to the end; and the record with its line feed, after which reading fails.
\<close>

definition tailBody :: string where
  "tailBody = ''data: '' @ hiRecord"

definition tailResp :: http_resp where
  "tailResp = \<lparr>StatusCode = 200, respHeader = (\<lambda>k. []), Body = \<lparr>bdata = tailBody, berr = None\<rparr>\<rparr>"

definition resetResp :: http_resp where
  "resetResp = \<lparr>StatusCode = 200, respHeader = (\<lambda>k. []),
                 Body = \<lparr>bdata = ''data: '' @ hiRecord @ [CHR 0x0A], berr = Some ''connection reset by peer''\<rparr>\<rparr>"

definition oneBody :: string where
  \<open>oneBody = ''{"model":"gpt-4o-mini","messages":[{"role":"user","content":"Hi"}]}''\<close>

definition twoBody :: string where
  \<open>twoBody = ''{"model":"o3-mini","messages":[{"role":"system","content":"Be brief"},{"role":"user","content":"Hi"}]}''\<close>

definition badBody :: string where
  \<open>badBody = ''{"model":''\<close>

definition demoWorld :: world where
  "demoWorld = \<lparr>
     clock = (\<lambda>k. 1700000000 + int k),
     writeErr = (\<lambda>k. None),
     isFlusher = True,
     APIKEY = ''secret'',
     ShouldBindJSON = (\<lambda>b.
        if b = oneBody then Inr \<lparr>Model = ''gpt-4o-mini'', Messages = [\<lparr>Role = ''user'', Content = JStr ''Hi''\<rparr>], Stream = False\<rparr>
        else if b = twoBody then Inr \<lparr>Model = ''o3-mini'',
               Messages = [\<lparr>Role = ''system'', Content = JStr ''Be brief''\<rparr>, \<lparr>Role = ''user'', Content = JStr ''Hi''\<rparr>],
               Stream = False\<rparr>
        else Inl ''unexpected EOF''),
     clientDo = (\<lambda>k r. Inr hiResp)
   \<rparr>"

text \<open>
  A world for the retry loop: the landing page carries a token; the chat endpoint
  answers 503 during the attempts with \<open>retryCount < 3\<close> and with the example body
  from then on; nothing else answers.
\<close>

definition pageResp :: http_resp where
  "pageResp = \<lparr>StatusCode = 200, respHeader = (\<lambda>k. []), Body = \<lparr>bdata = tokenPage, berr = None\<rparr>\<rparr>"

definition busyResp :: http_resp where
  "busyResp = \<lparr>StatusCode = 503, respHeader = (\<lambda>k. []), Body = \<lparr>bdata = ''busy'', berr = None\<rparr>\<rparr>"

definition retryWorld :: world where
  "retryWorld = demoWorld\<lparr>clientDo := (\<lambda>k r.
      if reqURL r = homeURL then Inr pageResp
      else if reqURL r = chatURL then (if k < 3 then Inr busyResp else Inr hiResp)
      else Inl ''no route'')\<rparr>"

definition demoRequest :: inbound where
  "demoRequest = \<lparr>Authorization = ''Bearer secret'', rawBody = oneBody\<rparr>"

definition demoMessages :: "message list" where
  "demoMessages = [\<lparr>Role = ''user'', Content = JStr ''Hi''\<rparr>]"

definition twoRetries :: Config where
  "twoRetries = initConfig ''/'' 2 5000 []"

text \<open>
  A world for the token provider: the landing page answers 403, the status probe
  answers with the header \<open>x-vqd-4: tok\<close>, nothing else answers.
\<close>

definition forbiddenResp :: http_resp where
  "forbiddenResp = \<lparr>StatusCode = 403, respHeader = (\<lambda>k. []), Body = \<lparr>bdata = ''Forbidden'', berr = None\<rparr>\<rparr>"

definition probeResp :: http_resp where
  "probeResp = \<lparr>StatusCode = 200, respHeader = (\<lambda>k. if k = ''x-vqd-4'' then ''tok'' else []),
                Body = \<lparr>bdata = [], berr = None\<rparr>\<rparr>"

definition forbiddenNet :: "http_req \<Rightarrow> string + http_resp" where
  "forbiddenNet r =
     (if reqURL r = homeURL then Inr forbiddenResp
      else if reqURL r = statusURL then Inr probeResp
      else Inl ''no route'')"

text \<open>
  A world where only the last method yields: the landing page has no token and links
  no script, the fallback assets do not answer, the status probe has the header.
\<close>

definition bareResp :: http_resp where
  "bareResp = \<lparr>StatusCode = 200, respHeader = (\<lambda>k. []), Body = \<lparr>bdata = barePage, berr = None\<rparr>\<rparr>"

definition probeOnlyNet :: "http_req \<Rightarrow> string + http_resp" where
  "probeOnlyNet r =
     (if reqURL r = homeURL then Inr bareResp
      else if reqURL r = statusURL then Inr probeResp
      else Inl ''no route'')"

text \<open>A world where nothing yields: the landing page has no token, nothing else answers.\<close>

definition deadNet :: "http_req \<Rightarrow> string + http_resp" where
  "deadNet r = (if reqURL r = homeURL then Inr bareResp else Inl ''no route'')"

text \<open>
  A world where the second method yields: the landing page has no token and links the
  script \<open>/dist/app.js\<close>, which has one; the status probe has another.
\<close>

definition linkResp :: http_resp where
  "linkResp = \<lparr>StatusCode = 200, respHeader = (\<lambda>k. []), Body = \<lparr>bdata = linkPage, berr = None\<rparr>\<rparr>"

definition assetResp :: http_resp where
  "assetResp = \<lparr>StatusCode = 200, respHeader = (\<lambda>k. []), Body = \<lparr>bdata = assetText, berr = None\<rparr>\<rparr>"

definition assetNet :: "http_req \<Rightarrow> string + http_resp" where
  "assetNet r =
     (if reqURL r = homeURL then Inr linkResp
      else if reqURL r = baseURL @ ''/dist/app.js'' then Inr assetResp
      else if reqURL r = statusURL then Inr probeResp
      else Inl ''no route'')"

section \<open>Properties of the request translator\<close>

lemma lowerByte_idem: "lowerByte (lowerByte c) = lowerByte c"
  by (simp add: lowerByte_def byte_def)

lemma lowerByte_ascii: "byte c < 128 \<Longrightarrow> byte (lowerByte c) < 128"
  by (simp add: lowerByte_def byte_def)

lemma isASCII_map_lowerByte: "isASCII s \<Longrightarrow> isASCII (map lowerByte s)"
  by (induction s) (simp_all add: isASCII_def lowerByte_ascii)

lemma ToLower_idem_ascii: "isASCII s \<Longrightarrow> ToLower L (ToLower L s) = ToLower L s"
  by (simp add: ToLower_def isASCII_map_lowerByte lowerByte_idem)

text \<open>
  C9. \<open>convertModel\<close> is a function of its argument alone (a HOL function: total and
  deterministic). It is case-insensitive: two names with the same lower-casing get the
  same result, and a name and its lower-casing get the same result (for a name with a
  byte outside ASCII this rests on Go's Unicode lower-casing leaving an already
  lower-cased string as it is, the hypothesis). The four aliases go to their upstream
  names, and every name whose lower-casing is none of the four goes to
  \<open>gpt-4o-mini\<close>.
\<close>

theorem convertModel_case_insensitive:
  assumes "\<not> isASCII s \<longrightarrow> ToLower L (unicodeToLower L s) = unicodeToLower L s"
  shows "convertModel L (ToLower L s) = convertModel L s
       \<and> (\<forall>t. ToLower L t = ToLower L s \<longrightarrow> convertModel L t = convertModel L s)
       \<and> convertModel L ''claude-3-haiku'' = ''claude-3-haiku-20240307''
       \<and> convertModel L ''llama-3.3-70b'' = ''meta-llama/Llama-3.3-70B-Instruct-Turbo''
       \<and> convertModel L ''mistral-small'' = ''mistralai/Mistral-Small-24B-Instruct-2501''
       \<and> convertModel L ''o3-mini'' = ''o3-mini''
       \<and> (ToLower L s \<notin> {''claude-3-haiku'', ''llama-3.3-70b'', ''mistral-small'', ''o3-mini''}
            \<longrightarrow> convertModel L s = ''gpt-4o-mini'')"
proof -
  have idem: "ToLower L (ToLower L s) = ToLower L s"
  proof (cases "isASCII s")
    case True
    then show ?thesis by (rule ToLower_idem_ascii)
  next
    case False
    with assms show ?thesis by (simp add: ToLower_def)
  qed
  have a: "convertModel L (ToLower L s) = convertModel L s"
    by (simp add: convertModel_def idem)
  have b: "\<forall>t. ToLower L t = ToLower L s \<longrightarrow> convertModel L t = convertModel L s"
    by (simp add: convertModel_def)
  have low: "\<And>x. isASCII x \<Longrightarrow> map lowerByte x = x \<Longrightarrow> ToLower L x = x"
    by (simp add: ToLower_def)
  have c1: "ToLower L ''claude-3-haiku'' = ''claude-3-haiku''"
    by (rule low) (simp_all add: isASCII_def lowerByte_def byte_def)
  have c2: "ToLower L ''llama-3.3-70b'' = ''llama-3.3-70b''"
    by (rule low) (simp_all add: isASCII_def lowerByte_def byte_def)
  have c3: "ToLower L ''mistral-small'' = ''mistral-small''"
    by (rule low) (simp_all add: isASCII_def lowerByte_def byte_def)
  have c4: "ToLower L ''o3-mini'' = ''o3-mini''"
    by (rule low) (simp_all add: isASCII_def lowerByte_def byte_def)
  have d: "ToLower L s \<notin> {''claude-3-haiku'', ''llama-3.3-70b'', ''mistral-small'', ''o3-mini''}
            \<longrightarrow> convertModel L s = ''gpt-4o-mini''"
    by (simp add: convertModel_def)
  show ?thesis
    using a b d by (simp add: convertModel_def c1 c2 c3 c4)
qed

text \<open>
  C9 at concrete names: mixed case, an unknown name, and a name outside ASCII.
\<close>

theorem convertModel_case_insensitive_witness:
  "convertModel demoLib (ToLower demoLib ''Claude-3-HAIKU'') = convertModel demoLib ''Claude-3-HAIKU''
   \<and> convertModel demoLib ''Claude-3-HAIKU'' = ''claude-3-haiku-20240307''
   \<and> convertModel demoLib ''CLAUDE-3-haiku'' = convertModel demoLib ''Claude-3-HAIKU''
   \<and> convertModel demoLib ''GPT-5'' = ''gpt-4o-mini''
   \<and> convertModel demoLib [CHR 0xC3, CHR 0xA9] = convertModel demoLib (ToLower demoLib [CHR 0xC3, CHR 0xA9])"
proof -
  have asc: "isASCII ''Claude-3-HAIKU''" "isASCII ''CLAUDE-3-haiku''" "isASCII ''GPT-5''"
    by (simp_all add: isASCII_def byte_def)
  have low1: "ToLower demoLib ''Claude-3-HAIKU'' = ''claude-3-haiku''"
    by code_simp
  have low2: "ToLower demoLib ''CLAUDE-3-haiku'' = ''claude-3-haiku''"
    by code_simp
  have low3: "ToLower demoLib ''GPT-5'' = ''gpt-5''"
    by code_simp
  have h1: "\<not> isASCII ''Claude-3-HAIKU'' \<longrightarrow>
      ToLower demoLib (unicodeToLower demoLib ''Claude-3-HAIKU'') = unicodeToLower demoLib ''Claude-3-HAIKU''"
    by (simp add: asc)
  have h3: "\<not> isASCII ''GPT-5'' \<longrightarrow>
      ToLower demoLib (unicodeToLower demoLib ''GPT-5'') = unicodeToLower demoLib ''GPT-5''"
    by (simp add: asc)
  have na: "\<not> isASCII [CHR 0xC3, CHR 0xA9]"
    by (simp add: isASCII_def byte_def)
  have h4: "\<not> isASCII [CHR 0xC3, CHR 0xA9] \<longrightarrow>
      ToLower demoLib (unicodeToLower demoLib [CHR 0xC3, CHR 0xA9]) = unicodeToLower demoLib [CHR 0xC3, CHR 0xA9]"
    by (simp add: ToLower_def demoLib_def na)
  note t1 = convertModel_case_insensitive [OF h1]
  note t3 = convertModel_case_insensitive [OF h3]
  note t4 = convertModel_case_insensitive [OF h4]
  have a: "convertModel demoLib (ToLower demoLib ''Claude-3-HAIKU'') = convertModel demoLib ''Claude-3-HAIKU''"
    by (rule conjunct1 [OF t1])
  have al: "convertModel demoLib ''claude-3-haiku'' = ''claude-3-haiku-20240307''"
    by (rule conjunct1 [OF conjunct2 [OF conjunct2 [OF t1]]])
  have b: "convertModel demoLib ''Claude-3-HAIKU'' = ''claude-3-haiku-20240307''"
    using a al by (simp only: low1)
  have ci: "\<forall>t. ToLower demoLib t = ToLower demoLib ''Claude-3-HAIKU'' \<longrightarrow>
      convertModel demoLib t = convertModel demoLib ''Claude-3-HAIKU''"
    by (rule conjunct1 [OF conjunct2 [OF t1]])
  have c: "convertModel demoLib ''CLAUDE-3-haiku'' = convertModel demoLib ''Claude-3-HAIKU''"
    using ci [rule_format, of "''CLAUDE-3-haiku''"] by (simp only: low1 low2)
  have df: "ToLower demoLib ''GPT-5'' \<notin> {''claude-3-haiku'', ''llama-3.3-70b'', ''mistral-small'', ''o3-mini''}
      \<longrightarrow> convertModel demoLib ''GPT-5'' = ''gpt-4o-mini''"
    by (rule conjunct2 [OF conjunct2 [OF conjunct2 [OF conjunct2 [OF conjunct2 [OF conjunct2 [OF t3]]]]]])
  have notin: "ToLower demoLib ''GPT-5'' \<notin> {''claude-3-haiku'', ''llama-3.3-70b'', ''mistral-small'', ''o3-mini''}"
    by (simp add: low3)
  have d: "convertModel demoLib ''GPT-5'' = ''gpt-4o-mini''"
    using df notin by (rule mp)
  have e: "convertModel demoLib [CHR 0xC3, CHR 0xA9] = convertModel demoLib (ToLower demoLib [CHR 0xC3, CHR 0xA9])"
    by (rule sym [OF conjunct1 [OF t4]])
  show ?thesis using a b c d e by blast
qed

lemma contentItems_eq:
  "contentItems items acc = acc @ concat (List.map_filter spec_fragmentText items)"
proof (induction items arbitrary: acc)
  case Nil
  show ?case by (simp add: List.map_filter_simps)
next
  case (Cons item items)
  show ?case
    by (simp add: Cons.IH List.map_filter_simps spec_fragmentText_def split: json.splits option.splits)
qed

lemma contentString_eq: "contentString L c = spec_normalize L c"
  by (simp add: contentString_def spec_normalize_def contentItems_eq split: json.splits)

lemma prepareLoop_eq:
  "prepareLoop L msgs b = b @ concat (map (spec_line L) msgs)"
  by (induction msgs arbitrary: b)
     (simp_all add: contentString_eq spec_line_def spec_role_def)

text \<open>
  C3. \<open>prepareMessages\<close> returns the lines of the messages, one per message and in
  the order of the messages: the role with \<open>system\<close> written as \<open>user\<close> and every other
  role as it is, a colon, the content (the string itself, or the \<open>text\<close> fields of the
  fragments of a list in order; any other value as \<open>%v\<close> prints it), and \<open>;\r\n\<close>.
  Nothing is dropped or cut: the result is the concatenation of all the lines.
\<close>

theorem prepareMessages_lines:
  "prepareMessages L messages = concat (map (spec_line L) messages)
   \<and> length (map (spec_line L) messages) = length messages"
  by (simp add: prepareMessages_def prepareLoop_eq)

text \<open>
  C3 at a request with a system message, a list content and a string content.
\<close>

theorem prepareMessages_lines_witness:
  "prepareMessages demoLib
     [\<lparr>Role = ''system'', Content = JStr ''Be brief''\<rparr>,
      \<lparr>Role = ''user'', Content = JArr [JObj [(''type'', JStr ''text''), (''text'', JStr ''Hi'')],
                                            JObj [(''type'', JStr ''image_url'')],
                                            JObj [(''text'', JStr ''!'')]]\<rparr>,
      \<lparr>Role = ''assistant'', Content = JStr ''Hello''\<rparr>]
   = ''user:Be brief;'' @ [CHR 0x0D, CHR 0x0A] @ ''user:Hi!;'' @ [CHR 0x0D, CHR 0x0A]
     @ ''assistant:Hello;'' @ [CHR 0x0D, CHR 0x0A]"
  using prepareMessages_lines [of demoLib
     "[\<lparr>Role = ''system'', Content = JStr ''Be brief''\<rparr>,
      \<lparr>Role = ''user'', Content = JArr [JObj [(''type'', JStr ''text''), (''text'', JStr ''Hi'')],
                                            JObj [(''type'', JStr ''image_url'')],
                                            JObj [(''text'', JStr ''!'')]]\<rparr>,
      \<lparr>Role = ''assistant'', Content = JStr ''Hello''\<rparr>]"]
  by (simp add: spec_line_def spec_role_def spec_normalize_def spec_fragmentText_def List.map_filter_simps)

section \<open>Properties of the response translator\<close>

declare streamLoop.simps [simp del]
declare nonStreamLoop.simps [simp del]

lemma ReadString_line:
  "CHR 0x0A \<notin> set l \<Longrightarrow> ReadString (l @ CHR 0x0A # rest) = Some (l @ [CHR 0x0A], rest)"
  by (induction l) auto

lemma ReadString_append:
  "ReadString b = Some (l, r) \<Longrightarrow> ReadString (b @ c) = Some (l, r @ c)"
  by (induction b arbitrary: l) (auto split: if_splits option.splits)

lemma ReadString_shorter:
  "ReadString b = Some (l, r) \<Longrightarrow> length r < length b"
  by (induction b arbitrary: l) (auto split: if_splits option.splits)

lemma ReadString_complete:
  "lineComplete b \<Longrightarrow> b \<noteq> [] \<Longrightarrow> \<exists>l r. ReadString b = Some (l, r) \<and> lineComplete r"
proof (induction b)
  case Nil
  then show ?case by simp
next
  case (Cons c cs)
  show ?case
  proof (cases "c = CHR 0x0A")
    case True
    then show ?thesis
      using Cons.prems by (auto simp: lineComplete_def split: if_splits)
  next
    case False
    with Cons.prems have "cs \<noteq> []" "lineComplete cs"
      by (auto simp: lineComplete_def split: if_splits)
    with Cons.IH obtain l r where "ReadString cs = Some (l, r)" "lineComplete r"
      by blast
    with False show ?thesis by simp
  qed
qed

lemma spec_split_ReadString:
  "spec_split cur b = (case ReadString b of None \<Rightarrow> [] | Some (l, r) \<Rightarrow> (cur @ l) # spec_split [] r)"
  by (induction b arbitrary: cur) (auto split: option.splits)

lemma spec_records_None: "ReadString b = None \<Longrightarrow> spec_records b = []"
  by (simp add: spec_records_def spec_split_ReadString [of "[]" b])

lemma spec_records_Some: "ReadString b = Some (l, r) \<Longrightarrow> spec_records b = l # spec_records r"
  by (simp add: spec_records_def spec_split_ReadString [of "[]" b])

lemma spec_content_None: "ReadString b = None \<Longrightarrow> spec_content L b = []"
  by (simp add: spec_content_def spec_records_None List.map_filter_simps)

lemma spec_content_Some:
  "ReadString b = Some (l, r) \<Longrightarrow>
   spec_content L b =
     (if spec_isDone L l then []
      else (case spec_fragment L l of None \<Rightarrow> spec_content L r | Some m \<Rightarrow> m @ spec_content L r))"
  by (simp add: spec_content_def spec_records_Some List.map_filter_simps split: option.splits)

lemma HasPrefix_data: "HasPrefix line ''data: '' = (take 6 line = ''data: '')"
  by (simp add: HasPrefix_def eval_nat_numeral)

lemma TrimPrefix_data: "take 6 line = ''data: '' \<Longrightarrow> TrimPrefix line ''data: '' = drop 6 line"
  by (simp add: TrimPrefix_def HasPrefix_def eval_nat_numeral)

lemma nonStreamLoop_step:
  assumes "ReadString body = Some (line, rest)"
  shows "nonStreamLoop L e body acc =
     (if spec_isDone L line then Inr acc
      else (case spec_fragment L line of
              None \<Rightarrow> nonStreamLoop L e rest acc
            | Some m \<Rightarrow> nonStreamLoop L e rest (acc @ m)))"
proof (cases "take 6 line = ''data: ''")
  case True
  show ?thesis
    by (subst nonStreamLoop.simps)
       (simp add: assms True HasPrefix_data TrimPrefix_data spec_isDone_def spec_fragment_def
          spec_payload_def Let_def split: option.splits json.splits)
next
  case False
  show ?thesis
    by (subst nonStreamLoop.simps)
       (simp add: assms False HasPrefix_data spec_isDone_def spec_fragment_def)
qed

lemma nonStreamLoop_content:
  "nonStreamLoop L None body acc = Inr (acc @ spec_content L body)"
proof (induction "length body" arbitrary: body acc rule: less_induct)
  case less
  show ?case
  proof (cases "ReadString body")
    case None
    then show ?thesis
      by (subst nonStreamLoop.simps) (simp add: spec_content_None)
  next
    case (Some p)
    obtain line rest where p: "p = (line, rest)" by (cases p)
    have rs: "ReadString body = Some (line, rest)" using Some p by simp
    have IH: "\<And>a. nonStreamLoop L None rest a = Inr (a @ spec_content L rest)"
      using less [OF ReadString_shorter [OF rs]] .
    show ?thesis
      by (simp add: nonStreamLoop_step [OF rs] IH spec_content_Some [OF rs] split: option.splits)
  qed
qed

text \<open>
  C2, as the code has it. When the upstream body is read to its end without a read
  error, \<open>handleNonStreamResponse\<close> returns no error and makes one call
  \<open>c.JSON(200, response)\<close> and nothing else: the object is a \<open>chat.completion\<close> with
  one choice, whose message content is the fragments, in order, of the records
  before the terminal marker (or of all records when there is none), and whose three
  usage counters are zero. The records are the lines of the body that end with a line
  feed: bytes after the last line feed are not a record.
\<close>

theorem nonStream_aggregate:
  assumes "berr (Body resp) = None"
  shows "handleNonStreamResponse L W model resp s =
           (None, s\<lparr>effects := effects s @
                       [JSON 200 (completion model (spec_content L (bdata (Body resp))) (clock W (nowCalls s)))],
                     nowCalls := Suc (nowCalls s)\<rparr>)
       \<and> jfield ''object'' (completion model text t) = Some (JStr ''chat.completion'')
       \<and> choiceCount (completion model text t) = 1
       \<and> Option.bind (firstChoice (completion model text t)) (jfield ''message'')
            = Some (JObj [(''role'', JStr ''assistant''), (''content'', JStr text)])
       \<and> jfield ''usage'' (completion model text t)
            = Some (JObj [(''prompt_tokens'', JNum 0), (''completion_tokens'', JNum 0), (''total_tokens'', JNum 0)])"
  using assms
  by (simp add: handleNonStreamResponse_def nonStreamLoop_content timeNow_def gin_JSON_def
        completion_def firstChoice_def choiceCount_def)


lemma streamLoop_step:
  assumes "ReadString body = Some (line, rest)"
  shows "streamLoop L W model body s =
     (if spec_isDone L line then writeChunk L W (stopChunk model) s
      else (case spec_fragment L line of
              None \<Rightarrow> streamLoop L W model rest s
            | Some m \<Rightarrow>
                (case writeChunk L W (deltaChunk model m) s of
                   (Some e, s') \<Rightarrow> (Some e, s')
                 | (None, s') \<Rightarrow> streamLoop L W model rest s')))"
proof (cases "take 6 line = ''data: ''")
  case True
  show ?thesis
    by (subst streamLoop.simps)
       (simp add: assms True HasPrefix_data TrimPrefix_data spec_isDone_def spec_fragment_def
          spec_payload_def Let_def split: option.splits json.splits)
next
  case False
  show ?thesis
    by (subst streamLoop.simps)
       (simp add: assms False HasPrefix_data spec_isDone_def spec_fragment_def)
qed

lemma streamLoop_prefix:
  assumes "lineComplete pre"
    and "\<And>s. streamLoop L W model b1 s = streamLoop L W model b2 s"
  shows "streamLoop L W model (pre @ b1) s = streamLoop L W model (pre @ b2) s"
  using assms(1)
proof (induction "length pre" arbitrary: pre s rule: less_induct)
  case less
  show ?case
  proof (cases "pre = []")
    case True
    then show ?thesis by (simp add: assms(2))
  next
    case False
    with less.prems obtain l r where rs: "ReadString pre = Some (l, r)" and lc: "lineComplete r"
      using ReadString_complete by blast
    have IH: "\<And>s. streamLoop L W model (r @ b1) s = streamLoop L W model (r @ b2) s"
      using less.hyps [OF ReadString_shorter [OF rs] lc] .
    show ?thesis
      by (simp add: streamLoop_step [OF ReadString_append [OF rs]] IH split: option.splits prod.splits)
  qed
qed

lemma nonStreamLoop_prefix:
  assumes "lineComplete pre"
    and "\<And>acc. nonStreamLoop L e b1 acc = nonStreamLoop L e b2 acc"
  shows "nonStreamLoop L e (pre @ b1) acc = nonStreamLoop L e (pre @ b2) acc"
  using assms(1)
proof (induction "length pre" arbitrary: pre acc rule: less_induct)
  case less
  show ?case
  proof (cases "pre = []")
    case True
    then show ?thesis by (simp add: assms(2))
  next
    case False
    with less.prems obtain l r where rs: "ReadString pre = Some (l, r)" and lc: "lineComplete r"
      using ReadString_complete by blast
    have IH: "\<And>acc. nonStreamLoop L e (r @ b1) acc = nonStreamLoop L e (r @ b2) acc"
      using less.hyps [OF ReadString_shorter [OF rs] lc] .
    show ?thesis
      by (simp add: nonStreamLoop_step [OF ReadString_append [OF rs]] IH split: option.splits)
  qed
qed

text \<open>A record that is neither the terminal marker nor a fragment changes nothing.\<close>

lemma skipped_record:
  assumes pre: "lineComplete pre" and nl: "CHR 0x0A \<notin> set p"
    and nd: "\<not> spec_isDone L (''data: '' @ p @ [CHR 0x0A])"
    and nf: "spec_fragment L (''data: '' @ p @ [CHR 0x0A]) = None"
  shows "handleStreamResponse L W model
            \<lparr>StatusCode = c, respHeader = h, Body = \<lparr>bdata = pre @ ''data: '' @ p @ [CHR 0x0A] @ post, berr = e\<rparr>\<rparr> s
         = handleStreamResponse L W model
            \<lparr>StatusCode = c, respHeader = h, Body = \<lparr>bdata = pre @ post, berr = e\<rparr>\<rparr> s"
    and "handleNonStreamResponse L W model
            \<lparr>StatusCode = c, respHeader = h, Body = \<lparr>bdata = pre @ ''data: '' @ p @ [CHR 0x0A] @ post, berr = e\<rparr>\<rparr> s
         = handleNonStreamResponse L W model
            \<lparr>StatusCode = c, respHeader = h, Body = \<lparr>bdata = pre @ post, berr = e\<rparr>\<rparr> s"
proof -
  have "CHR 0x0A \<notin> set (''data: '' @ p)" using nl by simp
  from ReadString_line [OF this, of post]
  have rs: "ReadString (''data: '' @ p @ [CHR 0x0A] @ post) = Some (''data: '' @ p @ [CHR 0x0A], post)"
    by simp
  have a: "\<And>s. streamLoop L W model (''data: '' @ p @ [CHR 0x0A] @ post) s = streamLoop L W model post s"
    by (simp only: streamLoop_step [OF rs] nd nf if_False option.case)
  have b: "\<And>acc. nonStreamLoop L e (''data: '' @ p @ [CHR 0x0A] @ post) acc = nonStreamLoop L e post acc"
    by (simp only: nonStreamLoop_step [OF rs] nd nf if_False option.case)
  show "handleStreamResponse L W model
            \<lparr>StatusCode = c, respHeader = h, Body = \<lparr>bdata = pre @ ''data: '' @ p @ [CHR 0x0A] @ post, berr = e\<rparr>\<rparr> s
         = handleStreamResponse L W model
            \<lparr>StatusCode = c, respHeader = h, Body = \<lparr>bdata = pre @ post, berr = e\<rparr>\<rparr> s"
    by (simp only: handleStreamResponse_def http_resp.simps rbody.simps streamLoop_prefix [OF pre a])
  show "handleNonStreamResponse L W model
            \<lparr>StatusCode = c, respHeader = h, Body = \<lparr>bdata = pre @ ''data: '' @ p @ [CHR 0x0A] @ post, berr = e\<rparr>\<rparr> s
         = handleNonStreamResponse L W model
            \<lparr>StatusCode = c, respHeader = h, Body = \<lparr>bdata = pre @ post, berr = e\<rparr>\<rparr> s"
    by (simp only: handleNonStreamResponse_def http_resp.simps rbody.simps nonStreamLoop_prefix [OF pre b])
qed

text \<open>
  C7. A \<open>data: \<close> record whose payload does not decode is passed over in both modes:
  the handler does on the body with the record exactly what it does on the body
  without it, so every record after it is translated as if the bad record were
  not there. (\<open>pre\<close> is the records before it, \<open>post\<close> the rest of the body.)
\<close>

theorem malformed_record_skipped:
  assumes "lineComplete pre" and "CHR 0x0A \<notin> set p"
    and "TrimSpace L (p @ [CHR 0x0A]) \<noteq> ''[DONE]''"
    and "jsonUnmarshal L (TrimSpace L (p @ [CHR 0x0A])) = None"
  shows "handleStreamResponse L W model
            \<lparr>StatusCode = c, respHeader = h, Body = \<lparr>bdata = pre @ ''data: '' @ p @ [CHR 0x0A] @ post, berr = e\<rparr>\<rparr> s
         = handleStreamResponse L W model
            \<lparr>StatusCode = c, respHeader = h, Body = \<lparr>bdata = pre @ post, berr = e\<rparr>\<rparr> s
       \<and> handleNonStreamResponse L W model
            \<lparr>StatusCode = c, respHeader = h, Body = \<lparr>bdata = pre @ ''data: '' @ p @ [CHR 0x0A] @ post, berr = e\<rparr>\<rparr> s
         = handleNonStreamResponse L W model
            \<lparr>StatusCode = c, respHeader = h, Body = \<lparr>bdata = pre @ post, berr = e\<rparr>\<rparr> s"
proof -
  have nd: "\<not> spec_isDone L (''data: '' @ p @ [CHR 0x0A])"
    using assms(3) by (simp add: spec_isDone_def spec_payload_def)
  have nf: "spec_fragment L (''data: '' @ p @ [CHR 0x0A]) = None"
    using assms(4) by (simp add: spec_fragment_def spec_payload_def)
  show ?thesis
    using skipped_record [OF assms(1) assms(2) nd nf] by blast
qed

text \<open>
  C8. A \<open>data: \<close> record that decodes and whose \<open>action\<close> is not the string
  \<open>success\<close> adds nothing to the output in either mode: the handler does on the body
  with the record exactly what it does on the body without it, whatever the
  \<open>message\<close> of the record.
\<close>

theorem non_success_record_skipped:
  assumes "lineComplete pre" and "CHR 0x0A \<notin> set p"
    and "TrimSpace L (p @ [CHR 0x0A]) \<noteq> ''[DONE]''"
    and "jsonUnmarshal L (TrimSpace L (p @ [CHR 0x0A])) = Some chunk"
    and "map_of chunk ''action'' \<noteq> Some (JStr ''success'')"
  shows "handleStreamResponse L W model
            \<lparr>StatusCode = c, respHeader = h, Body = \<lparr>bdata = pre @ ''data: '' @ p @ [CHR 0x0A] @ post, berr = e\<rparr>\<rparr> s
         = handleStreamResponse L W model
            \<lparr>StatusCode = c, respHeader = h, Body = \<lparr>bdata = pre @ post, berr = e\<rparr>\<rparr> s
       \<and> handleNonStreamResponse L W model
            \<lparr>StatusCode = c, respHeader = h, Body = \<lparr>bdata = pre @ ''data: '' @ p @ [CHR 0x0A] @ post, berr = e\<rparr>\<rparr> s
         = handleNonStreamResponse L W model
            \<lparr>StatusCode = c, respHeader = h, Body = \<lparr>bdata = pre @ post, berr = e\<rparr>\<rparr> s"
proof -
  have nd: "\<not> spec_isDone L (''data: '' @ p @ [CHR 0x0A])"
    using assms(3) by (simp add: spec_isDone_def spec_payload_def)
  have nf: "spec_fragment L (''data: '' @ p @ [CHR 0x0A]) = None"
    using assms(4) assms(5) by (simp add: spec_fragment_def spec_payload_def)
  show ?thesis
    using skipped_record [OF assms(1) assms(2) nd nf] by blast
qed

lemma hiRecord_no_newline: "CHR 0x0A \<notin> set (''data: '' @ hiRecord)"
  by (simp add: hiRecord_def)

lemma ReadString_hiBody:
  "ReadString hiBody = Some (''data: '' @ hiRecord @ [CHR 0x0A], ''data: [DONE]'' @ [CHR 0x0A])"
  using ReadString_line [OF hiRecord_no_newline, of "''data: [DONE]'' @ [CHR 0x0A]"]
  by (simp add: hiBody_def)

lemma ReadString_done:
  "ReadString (''data: [DONE]'' @ [CHR 0x0A]) = Some (''data: [DONE]'' @ [CHR 0x0A], [])"
  by simp

lemma payload_hi:
  "TrimSpace L (TrimPrefix (''data: '' @ hiRecord @ [CHR 0x0A]) ''data: '') = hiRecord"
  by (simp add: TrimSpace_def TrimPrefix_def HasPrefix_def hiRecord_def asciiSpace_def byte_def)

lemma payload_done:
  "TrimSpace L (TrimPrefix (''data: [DONE]'' @ [CHR 0x0A]) ''data: '') = ''[DONE]''"
  by (simp add: TrimSpace_def TrimPrefix_def HasPrefix_def asciiSpace_def byte_def)

lemma prefix_hi: "HasPrefix (''data: '' @ hiRecord @ [CHR 0x0A]) ''data: ''"
  by (simp add: HasPrefix_def)

lemma prefix_done: "HasPrefix (''data: [DONE]'' @ [CHR 0x0A]) ''data: ''"
  by (simp add: HasPrefix_def)

lemma hi_not_done: "hiRecord \<noteq> ''[DONE]''"
  by (simp add: hiRecord_def)

lemma stream_hiBody_run:
  assumes fl: "isFlusher W"
    and w0: "writeErr W (writeCalls s) = None"
    and w1: "writeErr W (Suc (writeCalls s)) = None"
    and dec: "jsonUnmarshal L hiRecord = Some chunk"
    and act: "map_of chunk ''action'' = Some (JStr ''success'')"
    and msg: "map_of chunk ''message'' = Some (JStr ''Hi'')"
    and body: "bdata (Body resp) = hiBody"
  shows "handleStreamResponse L W model resp s =
      (None, s\<lparr>effects := effects s @
                 [SetHeader ''Content-Type'' ''text/event-stream'',
                  SetHeader ''Cache-Control'' ''no-cache'',
                  SetHeader ''Connection'' ''keep-alive'',
                  Write (sseMessage L (deltaChunk model ''Hi'' (clock W (nowCalls s)))),
                  Flush,
                  Write (sseMessage L (stopChunk model (clock W (Suc (nowCalls s))))),
                  Flush],
               nowCalls := Suc (Suc (nowCalls s)),
               writeCalls := Suc (Suc (writeCalls s))\<rparr>)"
proof -
  let ?s1 = "setHeader ''Connection'' ''keep-alive''
                 (setHeader ''Cache-Control'' ''no-cache''
                   (setHeader ''Content-Type'' ''text/event-stream'' s))"
  have c1: "writeChunk L W (deltaChunk model ''Hi'') ?s1 =
      (None, ?s1\<lparr>effects := effects ?s1 @ [Write (sseMessage L (deltaChunk model ''Hi'' (clock W (nowCalls s)))), Flush],
                 nowCalls := Suc (nowCalls s), writeCalls := Suc (writeCalls s)\<rparr>)"
    by (simp add: writeChunk_def timeNow_def writerWrite_def flush_def setHeader_def w0)
  let ?s2 = "?s1\<lparr>effects := effects ?s1 @ [Write (sseMessage L (deltaChunk model ''Hi'' (clock W (nowCalls s)))), Flush],
                 nowCalls := Suc (nowCalls s), writeCalls := Suc (writeCalls s)\<rparr>"
  have c2: "writeChunk L W (stopChunk model) ?s2 =
      (None, ?s2\<lparr>effects := effects ?s2 @ [Write (sseMessage L (stopChunk model (clock W (Suc (nowCalls s))))), Flush],
                 nowCalls := Suc (Suc (nowCalls s)), writeCalls := Suc (Suc (writeCalls s))\<rparr>)"
    by (simp add: writeChunk_def timeNow_def writerWrite_def flush_def setHeader_def w1)
  have step2: "streamLoop L W model (''data: [DONE]'' @ [CHR 0x0A]) ?s2 = writeChunk L W (stopChunk model) ?s2"
    by (subst streamLoop.simps) (simp only: ReadString_done option.case prod.case prefix_done if_True Let_def payload_done simp_thms)
  have step1: "streamLoop L W model hiBody ?s1 = streamLoop L W model (''data: [DONE]'' @ [CHR 0x0A]) ?s2"
    by (subst streamLoop.simps)
       (simp only: ReadString_hiBody option.case prod.case prefix_hi if_True if_False Let_def payload_hi
          hi_not_done dec act msg json.case c1 simp_thms)
  have "handleStreamResponse L W model resp s = streamLoop L W model hiBody ?s1"
    by (simp add: handleStreamResponse_def fl body Let_def)
  also have "\<dots> = writeChunk L W (stopChunk model) ?s2"
    by (simp only: step1 step2)
  also note c2
  finally show ?thesis
    by (simp add: setHeader_def)
qed


lemma spec_content_hiBody:
  assumes dec: "jsonUnmarshal L hiRecord = Some chunk"
    and act: "map_of chunk ''action'' = Some (JStr ''success'')"
    and msg: "map_of chunk ''message'' = Some (JStr ''Hi'')"
  shows "spec_content L hiBody = ''Hi''"
proof -
  have p1: "spec_payload L (''data: '' @ hiRecord @ [CHR 0x0A]) = hiRecord"
    by (simp add: spec_payload_def TrimSpace_def asciiSpace_def byte_def hiRecord_def)
  have p2: "spec_payload L (''data: [DONE]'' @ [CHR 0x0A]) = ''[DONE]''"
    by (simp add: spec_payload_def TrimSpace_def asciiSpace_def byte_def)
  have d1: "\<not> spec_isDone L (''data: '' @ hiRecord @ [CHR 0x0A])"
    by (simp only: spec_isDone_def p1 hi_not_done simp_thms)
  have d2: "spec_isDone L (''data: [DONE]'' @ [CHR 0x0A])"
    by (simp only: spec_isDone_def p2) simp
  have f1: "spec_fragment L (''data: '' @ hiRecord @ [CHR 0x0A]) = Some ''Hi''"
    by (simp only: spec_fragment_def p1 dec) (simp add: act msg)
  have "spec_content L (''data: [DONE]'' @ [CHR 0x0A]) = []"
    by (simp only: spec_content_Some [OF ReadString_done] d2 if_True)
  then show ?thesis
    by (simp only: spec_content_Some [OF ReadString_hiBody] d1 f1 if_False option.case append_Nil2)
qed

lemma demo_decodes_hi:
  "jsonUnmarshal demoLib hiRecord = Some [(''action'', JStr ''success''), (''message'', JStr ''Hi'')]"
  by (simp add: demoLib_def)

lemma demo_decodes_err:
  "jsonUnmarshal demoLib errRecord = Some [(''action'', JStr ''error''), (''message'', JStr ''boom'')]"
  by (simp add: demoLib_def errRecord_def hiRecord_def)

lemma demo_decodes_oops: "jsonUnmarshal demoLib ''{oops'' = None"
  by (simp add: demoLib_def errRecord_def hiRecord_def)

lemma nonstream_hi_any:
  "handleNonStreamResponse demoLib W model hiResp s =
      (None, s\<lparr>effects := effects s @ [JSON 200 (completion model ''Hi'' (clock W (nowCalls s)))],
               nowCalls := Suc (nowCalls s)\<rparr>)"
proof -
  have c: "spec_content demoLib hiBody = ''Hi''"
    by (rule spec_content_hiBody [OF demo_decodes_hi]) simp_all
  show ?thesis
    by (simp add: handleNonStreamResponse_def hiResp_def nonStreamLoop_content c timeNow_def gin_JSON_def)
qed

lemma demo_stream_run:
  "handleStreamResponse demoLib demoWorld model hiResp state0 =
      (None, state0\<lparr>effects :=
                 [SetHeader ''Content-Type'' ''text/event-stream'',
                  SetHeader ''Cache-Control'' ''no-cache'',
                  SetHeader ''Connection'' ''keep-alive'',
                  Write (sseMessage demoLib (deltaChunk model ''Hi'' 1700000000)),
                  Flush,
                  Write (sseMessage demoLib (stopChunk model 1700000001)),
                  Flush],
               nowCalls := 2, writeCalls := 2\<rparr>)"
proof -
  have "handleStreamResponse demoLib demoWorld model hiResp state0 =
      (None, state0\<lparr>effects := effects state0 @
                 [SetHeader ''Content-Type'' ''text/event-stream'',
                  SetHeader ''Cache-Control'' ''no-cache'',
                  SetHeader ''Connection'' ''keep-alive'',
                  Write (sseMessage demoLib (deltaChunk model ''Hi'' (clock demoWorld (nowCalls state0)))),
                  Flush,
                  Write (sseMessage demoLib (stopChunk model (clock demoWorld (Suc (nowCalls state0))))),
                  Flush],
               nowCalls := Suc (Suc (nowCalls state0)),
               writeCalls := Suc (Suc (writeCalls state0))\<rparr>)"
    by (rule stream_hiBody_run [OF _ _ _ demo_decodes_hi]) (simp_all add: demoWorld_def hiResp_def)
  then show ?thesis
    by (simp add: state0_def demoWorld_def)
qed

lemma demo_nonstream_run:
  "handleNonStreamResponse demoLib demoWorld model hiResp state0 =
      (None, state0\<lparr>effects := [JSON 200 (completion model ''Hi'' 1700000000)], nowCalls := 1\<rparr>)"
  by (simp add: nonstream_hi_any state0_def demoWorld_def)

text \<open>
  C1, as the code has it. On the body \<open>data: {"action":"success","message":"Hi"}\<close>,
  line feed, \<open>data: [DONE]\<close>, line feed (with a decoder that reads the first record as
  \<open>action = success\<close>, \<open>message = Hi\<close>, a marshaller that gives the bytes \<open>b1\<close> and
  \<open>b2\<close> for the two chunks, and a writer that takes both writes),
  \<open>handleStreamResponse\<close> sets its three headers and makes exactly two writes, each
  followed by a flush, and returns no error. Each write is \<open>data: \<close>, the bytes of one
  chunk, and two line feeds: first a \<open>chat.completion.chunk\<close> whose delta is
  \<open>{content: Hi}\<close> and whose \<open>finish_reason\<close> is null, then a
  \<open>chat.completion.chunk\<close> whose \<open>finish_reason\<close> is \<open>stop\<close> and whose choice has no
  \<open>delta\<close> field.
\<close>

theorem stream_hi_done:
  assumes "isFlusher W"
    and "writeErr W (writeCalls s) = None"
    and "writeErr W (Suc (writeCalls s)) = None"
    and "jsonUnmarshal L hiRecord = Some chunk"
    and "map_of chunk ''action'' = Some (JStr ''success'')"
    and "map_of chunk ''message'' = Some (JStr ''Hi'')"
    and "bdata (Body resp) = hiBody"
    and m1: "jsonMarshal L (deltaChunk model ''Hi'' (clock W (nowCalls s))) = Inr b1"
    and m2: "jsonMarshal L (stopChunk model (clock W (Suc (nowCalls s)))) = Inr b2"
  shows "handleStreamResponse L W model resp s =
      (None, s\<lparr>effects := effects s @
                 [SetHeader ''Content-Type'' ''text/event-stream'',
                  SetHeader ''Cache-Control'' ''no-cache'',
                  SetHeader ''Connection'' ''keep-alive'',
                  Write (''data: '' @ b1 @ [CHR 0x0A, CHR 0x0A]),
                  Flush,
                  Write (''data: '' @ b2 @ [CHR 0x0A, CHR 0x0A]),
                  Flush],
               nowCalls := Suc (Suc (nowCalls s)),
               writeCalls := Suc (Suc (writeCalls s))\<rparr>)
    \<and> jfield ''object'' (deltaChunk model ''Hi'' t) = Some (JStr ''chat.completion.chunk'')
    \<and> Option.bind (firstChoice (deltaChunk model ''Hi'' t)) (jfield ''delta'') = Some (JObj [(''content'', JStr ''Hi'')])
    \<and> Option.bind (firstChoice (deltaChunk model ''Hi'' t)) (jfield ''finish_reason'') = Some JNull
    \<and> jfield ''object'' (stopChunk model t) = Some (JStr ''chat.completion.chunk'')
    \<and> Option.bind (firstChoice (stopChunk model t)) (jfield ''finish_reason'') = Some (JStr ''stop'')
    \<and> Option.bind (firstChoice (stopChunk model t)) (jfield ''delta'') = None"
proof -
  have run: "handleStreamResponse L W model resp s =
      (None, s\<lparr>effects := effects s @
                 [SetHeader ''Content-Type'' ''text/event-stream'',
                  SetHeader ''Cache-Control'' ''no-cache'',
                  SetHeader ''Connection'' ''keep-alive'',
                  Write (sseMessage L (deltaChunk model ''Hi'' (clock W (nowCalls s)))),
                  Flush,
                  Write (sseMessage L (stopChunk model (clock W (Suc (nowCalls s))))),
                  Flush],
               nowCalls := Suc (Suc (nowCalls s)),
               writeCalls := Suc (Suc (writeCalls s))\<rparr>)"
    using assms(1-7) by (rule stream_hiBody_run)
  have b1: "sseMessage L (deltaChunk model ''Hi'' (clock W (nowCalls s))) = ''data: '' @ b1 @ [CHR 0x0A, CHR 0x0A]"
    by (simp add: sseMessage_def m1)
  have b2: "sseMessage L (stopChunk model (clock W (Suc (nowCalls s)))) = ''data: '' @ b2 @ [CHR 0x0A, CHR 0x0A]"
    by (simp add: sseMessage_def m2)
  have shape: "jfield ''object'' (deltaChunk model ''Hi'' t) = Some (JStr ''chat.completion.chunk'')
    \<and> Option.bind (firstChoice (deltaChunk model ''Hi'' t)) (jfield ''delta'') = Some (JObj [(''content'', JStr ''Hi'')])
    \<and> Option.bind (firstChoice (deltaChunk model ''Hi'' t)) (jfield ''finish_reason'') = Some JNull
    \<and> jfield ''object'' (stopChunk model t) = Some (JStr ''chat.completion.chunk'')
    \<and> Option.bind (firstChoice (stopChunk model t)) (jfield ''finish_reason'') = Some (JStr ''stop'')
    \<and> Option.bind (firstChoice (stopChunk model t)) (jfield ''delta'') = None"
    by (simp add: deltaChunk_def stopChunk_def firstChoice_def)
  from run [unfolded b1 b2] shape show ?thesis by (rule conjI)
qed

lemma wireLib_facts:
  "jsonUnmarshal wireLib hiRecord = Some [(''action'', JStr ''success''), (''message'', JStr ''Hi'')]"
  "jsonMarshal wireLib (deltaChunk ''gpt-4o-mini'' ''Hi'' 1700000000) = Inr hiChunkBytes"
  "jsonMarshal wireLib (stopChunk ''gpt-4o-mini'' 1700000001) = Inr stopChunkBytes"
  by (simp_all add: wireLib_def demoLib_def deltaChunk_def stopChunk_def)

lemma wire_stream_run:
  "handleStreamResponse wireLib demoWorld ''gpt-4o-mini'' hiResp state0 =
      (None, state0\<lparr>effects :=
                 [SetHeader ''Content-Type'' ''text/event-stream'',
                  SetHeader ''Cache-Control'' ''no-cache'',
                  SetHeader ''Connection'' ''keep-alive'',
                  Write (''data: '' @ hiChunkBytes @ [CHR 0x0A, CHR 0x0A]),
                  Flush,
                  Write (''data: '' @ stopChunkBytes @ [CHR 0x0A, CHR 0x0A]),
                  Flush],
               nowCalls := 2, writeCalls := 2\<rparr>)"
proof -
  have "handleStreamResponse wireLib demoWorld ''gpt-4o-mini'' hiResp state0 =
      (None, state0\<lparr>effects := effects state0 @
                 [SetHeader ''Content-Type'' ''text/event-stream'',
                  SetHeader ''Cache-Control'' ''no-cache'',
                  SetHeader ''Connection'' ''keep-alive'',
                  Write (sseMessage wireLib (deltaChunk ''gpt-4o-mini'' ''Hi'' (clock demoWorld (nowCalls state0)))),
                  Flush,
                  Write (sseMessage wireLib (stopChunk ''gpt-4o-mini'' (clock demoWorld (Suc (nowCalls state0))))),
                  Flush],
               nowCalls := Suc (Suc (nowCalls state0)),
               writeCalls := Suc (Suc (writeCalls state0))\<rparr>)"
    by (rule stream_hiBody_run [OF _ _ _ wireLib_facts(1)]) (simp_all add: demoWorld_def hiResp_def)
  moreover have "clock demoWorld (nowCalls state0) = 1700000000" "clock demoWorld (Suc (nowCalls state0)) = 1700000001"
    by (simp_all add: demoWorld_def state0_def)
  ultimately show ?thesis
    by (simp add: sseMessage_def wireLib_facts state0_def)
qed

text \<open>
  C1 in the example world: the bytes of the two writes, stamped with the first two
  readings of the clock.
\<close>

theorem stream_hi_done_witness:
  "handleStreamResponse wireLib demoWorld ''gpt-4o-mini'' hiResp state0 =
      (None, state0\<lparr>effects :=
                 [SetHeader ''Content-Type'' ''text/event-stream'',
                  SetHeader ''Cache-Control'' ''no-cache'',
                  SetHeader ''Connection'' ''keep-alive'',
                  Write (''data: '' @ hiChunkBytes @ [CHR 0x0A, CHR 0x0A]),
                  Flush,
                  Write (''data: '' @ stopChunkBytes @ [CHR 0x0A, CHR 0x0A]),
                  Flush],
               nowCalls := 2, writeCalls := 2\<rparr>)"
proof -
  have h1: "isFlusher demoWorld" by (simp add: demoWorld_def)
  have h2: "writeErr demoWorld (writeCalls state0) = None" by (simp add: demoWorld_def)
  have h3: "writeErr demoWorld (Suc (writeCalls state0)) = None" by (simp add: demoWorld_def)
  have h5: "map_of [(''action'', JStr ''success''), (''message'', JStr ''Hi'')] ''action'' = Some (JStr ''success'')" by simp
  have h6: "map_of [(''action'', JStr ''success''), (''message'', JStr ''Hi'')] ''message'' = Some (JStr ''Hi'')" by simp
  have h7: "bdata (Body hiResp) = hiBody" by (simp add: hiResp_def)
  have h8: "jsonMarshal wireLib (deltaChunk ''gpt-4o-mini'' ''Hi'' (clock demoWorld (nowCalls state0))) = Inr hiChunkBytes"
    by (simp add: demoWorld_def state0_def wireLib_facts)
  have h9: "jsonMarshal wireLib (stopChunk ''gpt-4o-mini'' (clock demoWorld (Suc (nowCalls state0)))) = Inr stopChunkBytes"
    by (simp add: demoWorld_def state0_def wireLib_facts)
  from conjunct1 [OF stream_hi_done [OF h1 h2 h3 wireLib_facts(1) h5 h6 h7 h8 h9]]
  show ?thesis by (simp add: state0_def)
qed

text \<open>
  C1 as stated fails in its last part: the terminating chunk does not carry an empty
  delta, it carries none. In the example world the second write is the chunk
  \<open>stopChunk\<close>, whose only choice is \<open>{index: 0, finish_reason: stop}\<close>: its \<open>delta\<close>
  is not the empty object, and the bytes written have no \<open>delta\<close> key.
\<close>

theorem stream_stop_delta_counterexample:
  "effects (snd (handleStreamResponse wireLib demoWorld ''gpt-4o-mini'' hiResp state0)) =
     [SetHeader ''Content-Type'' ''text/event-stream'',
      SetHeader ''Cache-Control'' ''no-cache'',
      SetHeader ''Connection'' ''keep-alive'',
      Write (''data: '' @ hiChunkBytes @ [CHR 0x0A, CHR 0x0A]),
      Flush,
      Write (''data: '' @ stopChunkBytes @ [CHR 0x0A, CHR 0x0A]),
      Flush]
   \<and> jsonMarshal wireLib (stopChunk ''gpt-4o-mini'' 1700000001) = Inr stopChunkBytes
   \<and> firstChoice (stopChunk ''gpt-4o-mini'' 1700000001)
       = Some (JObj [(''index'', JNum 0), (''finish_reason'', JStr ''stop'')])
   \<and> Option.bind (firstChoice (stopChunk ''gpt-4o-mini'' 1700000001)) (jfield ''delta'') \<noteq> Some (JObj [])"
proof -
  have "Option.bind (firstChoice (stopChunk ''gpt-4o-mini'' 1700000001)) (jfield ''delta'') \<noteq> Some (JObj [])"
       "firstChoice (stopChunk ''gpt-4o-mini'' 1700000001)
          = Some (JObj [(''index'', JNum 0), (''finish_reason'', JStr ''stop'')])"
    by (simp_all add: stopChunk_def firstChoice_def)
  then show ?thesis
    by (simp only: wire_stream_run wireLib_facts snd_conv) (simp add: state0_def)
qed

text \<open>
  C2 in the example world: one completion with the content \<open>Hi\<close>.
\<close>

theorem nonStream_aggregate_witness:
  "handleNonStreamResponse demoLib demoWorld ''gpt-4o-mini'' hiResp state0 =
      (None, state0\<lparr>effects := [JSON 200 (completion ''gpt-4o-mini'' ''Hi'' 1700000000)], nowCalls := 1\<rparr>)"
proof -
  have h: "berr (Body hiResp) = None" by (simp add: hiResp_def)
  have c: "spec_content demoLib hiBody = ''Hi''"
    by (rule spec_content_hiBody [OF demo_decodes_hi]) simp_all
  from conjunct1 [OF nonStream_aggregate [OF h]]
  show ?thesis by (simp add: hiResp_def c state0_def demoWorld_def)
qed

lemma ReadString_tail: "ReadString tailBody = None"
  by (simp add: tailBody_def hiRecord_def)

text \<open>
  C2 as stated fails on two kinds of body. A record that is not followed by a line
  feed is not translated: \<open>ReadString\<close> returns its bytes together with \<open>io.EOF\<close>, and
  the loop is left before it looks at them; on the body
  \<open>data: {"action":"success","message":"Hi"}\<close> without a line feed the content of the
  completion is empty, although the record decodes and is tagged \<open>success\<close>. And when
  reading the body fails with another error than \<open>io.EOF\<close>, the handler writes no
  completion at all and returns the error.
\<close>

theorem nonStream_tail_counterexample:
  "jsonUnmarshal demoLib hiRecord = Some [(''action'', JStr ''success''), (''message'', JStr ''Hi'')]
   \<and> bdata (Body tailResp) = ''data: '' @ hiRecord \<and> berr (Body tailResp) = None
   \<and> handleNonStreamResponse demoLib demoWorld ''gpt-4o-mini'' tailResp state0 =
       (None, state0\<lparr>effects := [JSON 200 (completion ''gpt-4o-mini'' [] 1700000000)], nowCalls := 1\<rparr>)
   \<and> Option.bind (firstChoice (completion ''gpt-4o-mini'' [] 1700000000)) (jfield ''message'')
       = Some (JObj [(''role'', JStr ''assistant''), (''content'', JStr [])])
   \<and> bdata (Body resetResp) = ''data: '' @ hiRecord @ [CHR 0x0A]
   \<and> berr (Body resetResp) = Some ''connection reset by peer''
   \<and> handleNonStreamResponse demoLib demoWorld ''gpt-4o-mini'' resetResp state0 =
       (Some (msgReadFail @ ''connection reset by peer''), state0)"
proof -
  have t: "nonStreamLoop demoLib None tailBody [] = Inr []"
    by (subst nonStreamLoop.simps) (simp add: ReadString_tail)
  have r1: "nonStreamLoop demoLib (Some ''connection reset by peer'') (''data: '' @ hiRecord @ [CHR 0x0A]) []
              = nonStreamLoop demoLib (Some ''connection reset by peer'') [] ''Hi''"
    using ReadString_line [OF hiRecord_no_newline, of "[]"]
    by (subst nonStreamLoop.simps)
       (simp only: append_Nil2 append_assoc option.case prod.case prefix_hi if_True if_False Let_def payload_hi
          hi_not_done demo_decodes_hi json.case simp_thms, simp)
  have r2: "nonStreamLoop demoLib (Some ''connection reset by peer'') [] ''Hi''
              = Inl (msgReadFail @ ''connection reset by peer'')"
    by (subst nonStreamLoop.simps) simp
  have tail: "handleNonStreamResponse demoLib demoWorld ''gpt-4o-mini'' tailResp state0 =
       (None, state0\<lparr>effects := [JSON 200 (completion ''gpt-4o-mini'' [] 1700000000)], nowCalls := 1\<rparr>)"
    by (simp add: tailResp_def handleNonStreamResponse_def t timeNow_def gin_JSON_def state0_def demoWorld_def)
  have "nonStreamLoop demoLib (berr (Body resetResp)) (bdata (Body resetResp)) []
          = Inl (msgReadFail @ ''connection reset by peer'')"
    unfolding resetResp_def http_resp.simps rbody.simps by (simp only: r1 r2)
  then have reset: "handleNonStreamResponse demoLib demoWorld ''gpt-4o-mini'' resetResp state0 =
       (Some (msgReadFail @ ''connection reset by peer''), state0)"
    by (simp add: handleNonStreamResponse_def)
  have shape: "Option.bind (firstChoice (completion ''gpt-4o-mini'' [] 1700000000)) (jfield ''message'')
       = Some (JObj [(''role'', JStr ''assistant''), (''content'', JStr [])])"
    by (simp add: completion_def firstChoice_def)
  have bodies: "bdata (Body tailResp) = ''data: '' @ hiRecord" "berr (Body tailResp) = None"
      "bdata (Body resetResp) = ''data: '' @ hiRecord @ [CHR 0x0A]"
      "berr (Body resetResp) = Some ''connection reset by peer''"
    by (simp_all add: tailResp_def tailBody_def resetResp_def)
  from demo_decodes_hi bodies tail shape reset show ?thesis
    by (intro conjI)
qed

lemma trim_oops: "TrimSpace L (''{oops'' @ [CHR 0x0A]) = ''{oops''"
  by (simp add: TrimSpace_def asciiSpace_def byte_def)

lemma trim_err: "TrimSpace L (errRecord @ [CHR 0x0A]) = errRecord"
  by (simp add: TrimSpace_def asciiSpace_def byte_def errRecord_def)

text \<open>
  C7 in the example world: the record \<open>{oops\<close> before the example body changes neither output.
\<close>

theorem malformed_record_skipped_witness:
  "handleStreamResponse demoLib demoWorld ''gpt-4o-mini''
      \<lparr>StatusCode = 200, respHeader = (\<lambda>k. []),
       Body = \<lparr>bdata = [] @ ''data: '' @ ''{oops'' @ [CHR 0x0A] @ hiBody, berr = None\<rparr>\<rparr> state0
     = (None, state0\<lparr>effects :=
                 [SetHeader ''Content-Type'' ''text/event-stream'',
                  SetHeader ''Cache-Control'' ''no-cache'',
                  SetHeader ''Connection'' ''keep-alive'',
                  Write (sseMessage demoLib (deltaChunk ''gpt-4o-mini'' ''Hi'' 1700000000)),
                  Flush,
                  Write (sseMessage demoLib (stopChunk ''gpt-4o-mini'' 1700000001)),
                  Flush],
               nowCalls := 2, writeCalls := 2\<rparr>)
   \<and> handleNonStreamResponse demoLib demoWorld ''gpt-4o-mini''
      \<lparr>StatusCode = 200, respHeader = (\<lambda>k. []),
       Body = \<lparr>bdata = [] @ ''data: '' @ ''{oops'' @ [CHR 0x0A] @ hiBody, berr = None\<rparr>\<rparr> state0
     = (None, state0\<lparr>effects := [JSON 200 (completion ''gpt-4o-mini'' ''Hi'' 1700000000)], nowCalls := 1\<rparr>)"
proof -
  have h1: "lineComplete []" by (simp add: lineComplete_def)
  have h2: "CHR 0x0A \<notin> set ''{oops''" by simp
  have h3: "TrimSpace demoLib (''{oops'' @ [CHR 0x0A]) \<noteq> ''[DONE]''" by (simp only: trim_oops) simp
  have h4: "jsonUnmarshal demoLib (TrimSpace demoLib (''{oops'' @ [CHR 0x0A])) = None"
    by (simp only: trim_oops demo_decodes_oops)
  note t = malformed_record_skipped [OF h1 h2 h3 h4, of demoWorld "''gpt-4o-mini''" 200 "\<lambda>k. []" hiBody None state0]
  have r: "\<lparr>StatusCode = 200, respHeader = (\<lambda>k. []), Body = \<lparr>bdata = [] @ hiBody, berr = None\<rparr>\<rparr> = hiResp"
    by (simp add: hiResp_def)
  show ?thesis
    using t by (simp only: r demo_stream_run demo_nonstream_run)
qed

text \<open>
  C8 in the example world: an \<open>error\<close> record with the message \<open>boom\<close> before the example
  body changes neither output.
\<close>

theorem non_success_record_skipped_witness:
  "handleStreamResponse demoLib demoWorld ''gpt-4o-mini''
      \<lparr>StatusCode = 200, respHeader = (\<lambda>k. []),
       Body = \<lparr>bdata = [] @ ''data: '' @ errRecord @ [CHR 0x0A] @ hiBody, berr = None\<rparr>\<rparr> state0
     = (None, state0\<lparr>effects :=
                 [SetHeader ''Content-Type'' ''text/event-stream'',
                  SetHeader ''Cache-Control'' ''no-cache'',
                  SetHeader ''Connection'' ''keep-alive'',
                  Write (sseMessage demoLib (deltaChunk ''gpt-4o-mini'' ''Hi'' 1700000000)),
                  Flush,
                  Write (sseMessage demoLib (stopChunk ''gpt-4o-mini'' 1700000001)),
                  Flush],
               nowCalls := 2, writeCalls := 2\<rparr>)
   \<and> handleNonStreamResponse demoLib demoWorld ''gpt-4o-mini''
      \<lparr>StatusCode = 200, respHeader = (\<lambda>k. []),
       Body = \<lparr>bdata = [] @ ''data: '' @ errRecord @ [CHR 0x0A] @ hiBody, berr = None\<rparr>\<rparr> state0
     = (None, state0\<lparr>effects := [JSON 200 (completion ''gpt-4o-mini'' ''Hi'' 1700000000)], nowCalls := 1\<rparr>)"
proof -
  have h1: "lineComplete []" by (simp add: lineComplete_def)
  have h2: "CHR 0x0A \<notin> set errRecord" by (simp add: errRecord_def)
  have h3: "TrimSpace demoLib (errRecord @ [CHR 0x0A]) \<noteq> ''[DONE]''"
    by (simp only: trim_err) (simp add: errRecord_def)
  have h4: "jsonUnmarshal demoLib (TrimSpace demoLib (errRecord @ [CHR 0x0A]))
      = Some [(''action'', JStr ''error''), (''message'', JStr ''boom'')]"
    by (simp only: trim_err demo_decodes_err)
  have h5: "map_of [(''action'', JStr ''error''), (''message'', JStr ''boom'')] ''action'' \<noteq> Some (JStr ''success'')"
    by simp
  note t = non_success_record_skipped [OF h1 h2 h3 h4 h5, of demoWorld "''gpt-4o-mini''" 200 "\<lambda>k. []" hiBody None state0]
  have r: "\<lparr>StatusCode = 200, respHeader = (\<lambda>k. []), Body = \<lparr>bdata = [] @ hiBody, berr = None\<rparr>\<rparr> = hiResp"
    by (simp add: hiResp_def)
  show ?thesis
    using t by (simp only: r demo_stream_run demo_nonstream_run)
qed

section \<open>Properties of \<open>handleCompletion\<close>\<close>

declare retryLoop.simps [simp del]

text \<open>
  The retry delay of the configuration: five seconds by default; the product of
  \<open>getDurationEnv\<close> wraps around for a large \<open>RETRY_DELAY\<close>.
\<close>

lemma getDurationEnv_values:
  "RetryDelay defaultConfig = 5000000000"
  "getDurationEnv 9223372036854775807 = - 1000000"
  by (simp_all add: defaultConfig_def initConfig_def getDurationEnv_def)

text \<open>
  C6. With an API key configured, a request whose \<open>Authorization\<close> header is absent
  (empty), does not start with \<open>Bearer \<close>, or carries another token than the key is
  answered with one \<open>c.JSON(401, {error: ...})\<close> and nothing else happens: the state
  is otherwise unchanged, so no upstream request is sent. With the right key the
  handler is what follows the check (\<open>serveCompletion\<close>: bind the body, translate,
  run the retry loop). With no API key configured the handler is what follows the
  check, whatever the header.
\<close>

theorem auth_check:
  "(APIKEY W \<noteq> [] \<and> Authorization c = [] \<longrightarrow>
      handleCompletion L W cfg c s = (Return, s\<lparr>effects := effects s @ [JSON 401 (gin_H_error msgNoKey)]\<rparr>))
 \<and> (APIKEY W \<noteq> [] \<and> Authorization c \<noteq> [] \<and> take 7 (Authorization c) \<noteq> ''Bearer '' \<longrightarrow>
      handleCompletion L W cfg c s = (Return, s\<lparr>effects := effects s @ [JSON 401 (gin_H_error msgBadFormat)]\<rparr>))
 \<and> (APIKEY W \<noteq> [] \<and> take 7 (Authorization c) = ''Bearer '' \<and> drop 7 (Authorization c) \<noteq> APIKEY W \<longrightarrow>
      handleCompletion L W cfg c s = (Return, s\<lparr>effects := effects s @ [JSON 401 (gin_H_error msgBadKey)]\<rparr>))
 \<and> (APIKEY W \<noteq> [] \<and> Authorization c = ''Bearer '' @ APIKEY W \<longrightarrow>
      handleCompletion L W cfg c s = serveCompletion attemptScrape L W cfg c s)
 \<and> (APIKEY W = [] \<longrightarrow>
      handleCompletion L W cfg c s = serveCompletion attemptScrape L W cfg c s)"
  by (auto simp add: handleCompletion_def handleCompletionWith_def authCheck_def gin_JSON_def
        HasPrefix_def TrimPrefix_def Let_def eval_nat_numeral)


text \<open>
  C6 with the key \<open>secret\<close>: no header, a Basic header and a wrong token get 401; the right
  token, and any header when no key is set, reach the decoding of the body (here a 400).
\<close>

theorem auth_check_witness:
  "handleCompletion demoLib demoWorld defaultConfig \<lparr>Authorization = [], rawBody = oneBody\<rparr> state0
     = (Return, state0\<lparr>effects := [JSON 401 (gin_H_error msgNoKey)]\<rparr>)
 \<and> handleCompletion demoLib demoWorld defaultConfig \<lparr>Authorization = ''Basic c2VjcmV0'', rawBody = oneBody\<rparr> state0
     = (Return, state0\<lparr>effects := [JSON 401 (gin_H_error msgBadFormat)]\<rparr>)
 \<and> handleCompletion demoLib demoWorld defaultConfig \<lparr>Authorization = ''Bearer wrong'', rawBody = oneBody\<rparr> state0
     = (Return, state0\<lparr>effects := [JSON 401 (gin_H_error msgBadKey)]\<rparr>)
 \<and> handleCompletion demoLib demoWorld defaultConfig \<lparr>Authorization = ''Bearer secret'', rawBody = badBody\<rparr> state0
     = (Return, state0\<lparr>effects := [JSON 400 (gin_H_error ''unexpected EOF'')]\<rparr>)
 \<and> handleCompletion demoLib (demoWorld\<lparr>APIKEY := []\<rparr>) defaultConfig \<lparr>Authorization = [], rawBody = badBody\<rparr> state0
     = (Return, state0\<lparr>effects := [JSON 400 (gin_H_error ''unexpected EOF'')]\<rparr>)"
proof -
  have e0: "effects state0 = []" by (simp add: state0_def)
  have k: "APIKEY demoWorld = ''secret''" by (simp add: demoWorld_def)
  have a: "handleCompletion demoLib demoWorld defaultConfig \<lparr>Authorization = [], rawBody = oneBody\<rparr> state0
     = (Return, state0\<lparr>effects := effects state0 @ [JSON 401 (gin_H_error msgNoKey)]\<rparr>)"
    by (rule auth_check [where W = demoWorld and c = "\<lparr>Authorization = [], rawBody = oneBody\<rparr>",
          THEN conjunct1, THEN mp]) (simp add: k)
  have b: "handleCompletion demoLib demoWorld defaultConfig \<lparr>Authorization = ''Basic c2VjcmV0'', rawBody = oneBody\<rparr> state0
     = (Return, state0\<lparr>effects := effects state0 @ [JSON 401 (gin_H_error msgBadFormat)]\<rparr>)"
    by (rule auth_check [where W = demoWorld and c = "\<lparr>Authorization = ''Basic c2VjcmV0'', rawBody = oneBody\<rparr>",
          THEN conjunct2, THEN conjunct1, THEN mp]) (simp add: k)
  have c: "handleCompletion demoLib demoWorld defaultConfig \<lparr>Authorization = ''Bearer wrong'', rawBody = oneBody\<rparr> state0
     = (Return, state0\<lparr>effects := effects state0 @ [JSON 401 (gin_H_error msgBadKey)]\<rparr>)"
    by (rule auth_check [where W = demoWorld and c = "\<lparr>Authorization = ''Bearer wrong'', rawBody = oneBody\<rparr>",
          THEN conjunct2, THEN conjunct2, THEN conjunct1, THEN mp]) (simp add: k)
  have d: "handleCompletion demoLib demoWorld defaultConfig \<lparr>Authorization = ''Bearer secret'', rawBody = badBody\<rparr> state0
     = serveCompletion attemptScrape demoLib demoWorld defaultConfig \<lparr>Authorization = ''Bearer secret'', rawBody = badBody\<rparr> state0"
    by (rule auth_check [where W = demoWorld and c = "\<lparr>Authorization = ''Bearer secret'', rawBody = badBody\<rparr>",
          THEN conjunct2, THEN conjunct2, THEN conjunct2, THEN conjunct1, THEN mp]) (simp add: k)
  have e: "handleCompletion demoLib (demoWorld\<lparr>APIKEY := []\<rparr>) defaultConfig \<lparr>Authorization = [], rawBody = badBody\<rparr> state0
     = serveCompletion attemptScrape demoLib (demoWorld\<lparr>APIKEY := []\<rparr>) defaultConfig \<lparr>Authorization = [], rawBody = badBody\<rparr> state0"
    by (rule auth_check [where W = "demoWorld\<lparr>APIKEY := []\<rparr>" and c = "\<lparr>Authorization = [], rawBody = badBody\<rparr>",
          THEN conjunct2, THEN conjunct2, THEN conjunct2, THEN conjunct2, THEN mp]) simp
  have f: "serveCompletion attemptScrape demoLib demoWorld defaultConfig \<lparr>Authorization = ''Bearer secret'', rawBody = badBody\<rparr> state0
     = (Return, state0\<lparr>effects := [JSON 400 (gin_H_error ''unexpected EOF'')]\<rparr>)"
    by (simp add: serveCompletion_def demoWorld_def badBody_def oneBody_def twoBody_def gin_JSON_def e0)
  have g: "serveCompletion attemptScrape demoLib (demoWorld\<lparr>APIKEY := []\<rparr>) defaultConfig \<lparr>Authorization = [], rawBody = badBody\<rparr> state0
     = (Return, state0\<lparr>effects := [JSON 400 (gin_H_error ''unexpected EOF'')]\<rparr>)"
    by (simp add: serveCompletion_def demoWorld_def badBody_def oneBody_def twoBody_def gin_JSON_def e0)
  show ?thesis
    using a b c d e by (simp only: e0 append_Nil f g simp_thms)
qed

lemma writeChunk_sent: "sent (snd (writeChunk L W r s)) = sent s"
  by (simp add: writeChunk_def timeNow_def writerWrite_def flush_def split: option.splits prod.splits)

lemma streamLoop_sent: "sent (snd (streamLoop L W model body s)) = sent s"
proof (induction "length body" arbitrary: body s rule: less_induct)
  case less
  show ?case
  proof (cases "ReadString body")
    case None
    then show ?thesis by (subst streamLoop.simps) simp
  next
    case (Some p)
    obtain line rest where rs: "ReadString body = Some (line, rest)" using Some by (cases p) simp
    have IH: "\<And>s. sent (snd (streamLoop L W model rest s)) = sent s"
      using less [OF ReadString_shorter [OF rs]] .
    show ?thesis
    proof (cases "spec_isDone L line")
      case True
      then show ?thesis by (simp add: streamLoop_step [OF rs] writeChunk_sent)
    next
      case False
      show ?thesis
      proof (cases "spec_fragment L line")
        case None
        with False show ?thesis by (simp add: streamLoop_step [OF rs] IH)
      next
        case (Some m)
        obtain r s' where w: "writeChunk L W (deltaChunk model m) s = (r, s')"
          by (cases "writeChunk L W (deltaChunk model m) s")
        have "sent s' = sent s" using writeChunk_sent [of L W "deltaChunk model m" s] w by simp
        with False Some w show ?thesis
          by (cases r) (simp_all add: streamLoop_step [OF rs] IH)
      qed
    qed
  qed
qed

lemma handleResponse_sent: "sent (snd (handleResponse L W resp isStream model s)) = sent s"
  by (simp add: handleResponse_def handleStreamResponse_def handleNonStreamResponse_def
        streamLoop_sent setHeader_def timeNow_def gin_JSON_def Let_def split: sum.splits)

lemma chatHeaders_vqd: "chatHeaders cfg token vqdHash ''x-vqd-4'' = Some token"
  by (simp add: chatHeaders_def Let_def)

lemma sendChat_sent:
  "\<exists>new. sent (attemptState (sendChat L W cfg isStream model content k token vqdHash s)) = sent s @ new
       \<and> (\<forall>r \<in> set new. reqURL r = chatURL \<and> reqHeader r ''x-vqd-4'' = Some token)"
proof (cases "jsonMarshal L (chatBody model content)")
  case (Inl e)
  then show ?thesis by (simp add: sendChat_def chatBody_def gin_JSON_def)
next
  case (Inr body)
  show ?thesis
  proof (cases "NewRequest L ''POST'' chatURL")
    case (Some e)
    with Inr show ?thesis by (simp add: sendChat_def chatBody_def gin_JSON_def)
  next
    case None
    let ?rq = "\<lparr>reqMethod = ''POST'', reqURL = chatURL, reqHeader = chatHeaders cfg token vqdHash, reqBody = body\<rparr>"
    let ?s1 = "s\<lparr>sent := sent s @ [?rq]\<rparr>"
    have "sent (attemptState (sendChat L W cfg isStream model content k token vqdHash s)) = sent s @ [?rq]"
    proof (cases "clientDo W k ?rq")
      case (Inl e)
      with Inr None show ?thesis by (simp add: sendChat_def chatBody_def Let_def)
    next
      case (Inr resp)
      obtain r s2 where h: "handleResponse L W resp isStream model ?s1 = (r, s2)"
        by (cases "handleResponse L W resp isStream model ?s1")
      have "sent s2 = sent ?s1" using handleResponse_sent [of L W resp isStream model ?s1] h by simp
      with \<open>jsonMarshal L (chatBody model content) = Inr body\<close> None Inr h show ?thesis
        by (cases r) (simp_all add: sendChat_def chatBody_def Let_def)
    qed
    then show ?thesis by (simp add: chatHeaders_vqd)
  qed
qed

lemma attemptHardcoded_sent:
  "\<exists>new. sent (attemptState (attemptHardcoded L W cfg req model content k s)) = sent s @ new
       \<and> (\<forall>r \<in> set new. reqURL r = chatURL \<and> reqHeader r ''x-vqd-4'' =
              Some (if 1 < length (Messages req) then multiTurnToken else hardcodedToken))"
  using sendChat_sent [of L W cfg "Stream req" model content k
          "if 1 < length (Messages req) then multiTurnToken else hardcodedToken" hardcodedHash s]
  by (simp add: attemptHardcoded_def requestTokenAndHash_hardcoded_def Let_def)

lemma retryLoop_sent:
  assumes "\<And>k s. \<exists>new. sent (attemptState (body k s)) = sent s @ new \<and> (\<forall>r \<in> set new. Q r)"
  shows "\<exists>new. sent (snd (retryLoop body cfg k le s)) = sent s @ new \<and> (\<forall>r \<in> set new. Q r)"
  using assms
proof (induction body cfg k le s rule: retryLoop.induct)
  case (1 body cfg retryCount lastError s)
  note A = "1.prems"
  show ?case
  proof (cases "int retryCount \<le> MaxRetryCount cfg")
    case False
    then show ?thesis
      by (subst retryLoop.simps) (simp add: gin_JSON_def split: option.splits)
  next
    case True
    let ?s1 = "if 0 < retryCount then s\<lparr>sleeps := Suc (sleeps s)\<rparr> else s"
    have s1: "sent ?s1 = sent s" by simp
    have "\<exists>new. sent (attemptState (body retryCount ?s1)) = sent ?s1 @ new \<and> (\<forall>r \<in> set new. Q r)"
      by (rule A)
    then obtain new where
      n0: "sent (attemptState (body retryCount ?s1)) = sent ?s1 @ new" and nq: "\<forall>r \<in> set new. Q r"
      by blast
    have n: "sent (attemptState (body retryCount ?s1)) = sent s @ new"
      using n0 by (simp only: s1)
    show ?thesis
    proof (cases "body retryCount ?s1")
      case (Finished s2)
      with True n nq show ?thesis
        by (subst retryLoop.simps) (auto simp: Let_def)
    next
      case (Failed e s2)
      from "1.IH" [OF True refl Failed A] obtain new2 where
        n2: "sent (snd (retryLoop body cfg (Suc retryCount) (Some e) s2)) = sent s2 @ new2" "\<forall>r \<in> set new2. Q r"
        by blast
      have "sent s2 = sent s @ new" using n Failed by simp
      with n2 nq have "sent (snd (retryLoop body cfg (Suc retryCount) (Some e) s2)) = sent s @ (new @ new2)"
        "\<forall>r \<in> set (new @ new2). Q r" by auto
      with True Failed show ?thesis
        by (subst retryLoop.simps) (auto simp: Let_def simp del: append_assoc)
    qed
  qed
qed


lemma sendChat_sent_one:
  assumes m: "jsonMarshal L (chatBody model content) = Inr body"
    and n: "NewRequest L ''POST'' chatURL = None"
  shows "sent (attemptState (sendChat L W cfg isStream model content k token vqdHash s))
         = sent s @ [\<lparr>reqMethod = ''POST'', reqURL = chatURL, reqHeader = chatHeaders cfg token vqdHash, reqBody = body\<rparr>]"
proof -
  let ?rq = "\<lparr>reqMethod = ''POST'', reqURL = chatURL, reqHeader = chatHeaders cfg token vqdHash, reqBody = body\<rparr>"
  let ?s1 = "s\<lparr>sent := sent s @ [?rq]\<rparr>"
  show ?thesis
  proof (cases "clientDo W k ?rq")
    case (Inl e)
    with m n show ?thesis by (simp add: sendChat_def chatBody_def Let_def)
  next
    case (Inr resp)
    obtain r s2 where h: "handleResponse L W resp isStream model ?s1 = (r, s2)"
      by (cases "handleResponse L W resp isStream model ?s1")
    have "sent s2 = sent ?s1" using handleResponse_sent [of L W resp isStream model ?s1] h by simp
    with m n Inr h show ?thesis
      by (cases r) (simp_all add: sendChat_def chatBody_def Let_def)
  qed
qed

lemma demoWorld_facts:
  "APIKEY demoWorld = ''secret''"
  "ShouldBindJSON demoWorld oneBody =
     Inr \<lparr>Model = ''gpt-4o-mini'', Messages = [\<lparr>Role = ''user'', Content = JStr ''Hi''\<rparr>], Stream = False\<rparr>"
  "ShouldBindJSON demoWorld twoBody =
     Inr \<lparr>Model = ''o3-mini'',
          Messages = [\<lparr>Role = ''system'', Content = JStr ''Be brief''\<rparr>, \<lparr>Role = ''user'', Content = JStr ''Hi''\<rparr>],
          Stream = False\<rparr>"
  "clientDo demoWorld k r = Inr hiResp"
  by (simp_all add: demoWorld_def oneBody_def twoBody_def)

lemma demoLib_facts:
  "jsonMarshal demoLib v = Inr ''<json>''"
  "NewRequest demoLib m u = None"
  by (simp_all add: demoLib_def)

lemma hiResp_status: "StatusCode hiResp = 200"
  by (simp add: hiResp_def)

lemma auth_secret: "authCheck demoWorld \<lparr>Authorization = ''Bearer secret'', rawBody = b\<rparr> = None"
  by (simp add: authCheck_def demoWorld_facts HasPrefix_def TrimPrefix_def)

text \<open>
  C10. In the variant with the hard-coded token, every request the handler sends
  upstream goes to the chat endpoint, and its \<open>x-vqd-4\<close> header is the fixed
  constant \<open>4-212890776487765339064984812855765849703\<close> when the request has more
  than one message, and the token that \<open>requestTokenAndHash\<close> returned,
  \<open>4-254683533747813303106479798401426525337\<close>, when it has at most one. The two
  tokens differ. At least one request is sent when the check passes, the retry bound
  is not negative and the upstream request can be built.
\<close>

theorem hardcoded_multi_turn_token:
  assumes bind: "ShouldBindJSON W (rawBody c) = Inr req"
  shows "(\<forall>r \<in> set (drop (length (sent s)) (sent (snd (handleCompletion_hardcoded L W cfg c s)))).
            reqURL r = ''https://duckduckgo.com/duckchat/v1/chat'' \<and>
            reqHeader r ''x-vqd-4'' =
              Some (if 1 < length (Messages req) then ''4-212890776487765339064984812855765849703''
                    else ''4-254683533747813303106479798401426525337''))
       \<and> (authCheck W c = None \<and> 0 \<le> MaxRetryCount cfg
            \<and> jsonMarshal L (chatBody (convertModel L (Model req)) (prepareMessages L (Messages req))) = Inr b
            \<and> NewRequest L ''POST'' chatURL = None
          \<longrightarrow> drop (length (sent s)) (sent (snd (handleCompletion_hardcoded L W cfg c s))) \<noteq> [])
       \<and> fst requestTokenAndHash_hardcoded = Inr (''4-254683533747813303106479798401426525337'', hardcodedHash)
       \<and> multiTurnToken = ''4-212890776487765339064984812855765849703''
       \<and> multiTurnToken \<noteq> hardcodedToken"
proof -
  let ?model = "convertModel L (Model req)"
  let ?content = "prepareMessages L (Messages req)"
  let ?body = "attemptHardcoded L W cfg req ?model ?content"
  let ?tok = "if 1 < length (Messages req) then multiTurnToken else hardcodedToken"
  let ?Q = "\<lambda>r. reqURL r = chatURL \<and> reqHeader r ''x-vqd-4'' = Some ?tok"
  have loop: "\<exists>new. sent (snd (retryLoop ?body cfg k le s')) = sent s' @ new \<and> (\<forall>r \<in> set new. ?Q r)" for k le s'
    by (rule retryLoop_sent) (rule attemptHardcoded_sent)
  have p1: "\<forall>r \<in> set (drop (length (sent s)) (sent (snd (handleCompletion_hardcoded L W cfg c s)))). ?Q r"
  proof (cases "authCheck W c")
    case (Some m)
    then show ?thesis
      by (simp add: handleCompletion_hardcoded_def handleCompletionWith_def gin_JSON_def)
  next
    case None
    from loop [of 0 None s] obtain new where
      n: "sent (snd (retryLoop ?body cfg 0 None s)) = sent s @ new" "\<forall>r \<in> set new. ?Q r" by blast
    have "handleCompletion_hardcoded L W cfg c s = retryLoop ?body cfg 0 None s"
      by (simp add: handleCompletion_hardcoded_def handleCompletionWith_def None serveCompletion_def bind Let_def)
    with n show ?thesis by simp
  qed
  have p2: "drop (length (sent s)) (sent (snd (handleCompletion_hardcoded L W cfg c s))) \<noteq> []"
    if a: "authCheck W c = None" and mx: "0 \<le> MaxRetryCount cfg"
      and m: "jsonMarshal L (chatBody ?model ?content) = Inr b" and nr: "NewRequest L ''POST'' chatURL = None"
  proof -
    let ?rq = "\<lparr>reqMethod = ''POST'', reqURL = chatURL, reqHeader = chatHeaders cfg ?tok hardcodedHash, reqBody = b\<rparr>"
    have hc: "handleCompletion_hardcoded L W cfg c s = retryLoop ?body cfg 0 None s"
      by (simp add: handleCompletion_hardcoded_def handleCompletionWith_def a serveCompletion_def bind Let_def)
    have one: "sent (attemptState (?body 0 s)) = sent s @ [?rq]"
      using sendChat_sent_one [OF m nr, of W cfg "Stream req" 0 ?tok hardcodedHash s]
      by (simp add: attemptHardcoded_def requestTokenAndHash_hardcoded_def Let_def)
    have "\<exists>new. sent (snd (retryLoop ?body cfg 0 None s)) = sent s @ ?rq # new"
    proof (cases "?body 0 s")
      case (Finished s2)
      with one mx show ?thesis
        by (subst retryLoop.simps) (simp add: Let_def)
    next
      case (Failed e s2)
      from loop [of "Suc 0" "Some e" s2] obtain new where
        "sent (snd (retryLoop ?body cfg (Suc 0) (Some e) s2)) = sent s2 @ new" by blast
      with one Failed mx show ?thesis
        by (subst retryLoop.simps) (simp add: Let_def)
    qed
    with hc show ?thesis by auto
  qed
  have p1': "\<forall>r \<in> set (drop (length (sent s)) (sent (snd (handleCompletion_hardcoded L W cfg c s)))).
            reqURL r = ''https://duckduckgo.com/duckchat/v1/chat'' \<and>
            reqHeader r ''x-vqd-4'' =
              Some (if 1 < length (Messages req) then ''4-212890776487765339064984812855765849703''
                    else ''4-254683533747813303106479798401426525337'')"
    using p1 unfolding multiTurnToken_def hardcodedToken_def chatURL_def .
  have p3: "fst requestTokenAndHash_hardcoded = Inr (''4-254683533747813303106479798401426525337'', hardcodedHash)"
    by (simp add: requestTokenAndHash_hardcoded_def hardcodedToken_def)
  have p4: "multiTurnToken = ''4-212890776487765339064984812855765849703''"
    by (simp add: multiTurnToken_def)
  have p5: "multiTurnToken \<noteq> hardcodedToken"
    by (simp add: multiTurnToken_def hardcodedToken_def)
  from p1' p2 p3 p4 p5 show ?thesis by blast
qed

lemma demo_hardcoded_sent:
  "\<exists>rq. sent (snd (handleCompletion_hardcoded demoLib demoWorld defaultConfig
                      \<lparr>Authorization = ''Bearer secret'', rawBody = b\<rparr> state0)) = [rq]"
  if "b = oneBody \<or> b = twoBody"
proof -
  have mx: "MaxRetryCount defaultConfig = 3" by (simp add: defaultConfig_def initConfig_def)
  have s0: "sent state0 = []" by (simp add: state0_def)
  from that show ?thesis
    by (auto simp add: handleCompletion_hardcoded_def handleCompletionWith_def auth_secret serveCompletion_def
          demoWorld_facts Let_def retryLoop.simps [of _ _ 0] mx attemptHardcoded_def
          requestTokenAndHash_hardcoded_def sendChat_def demoLib_facts hiResp_status handleResponse_def
          nonstream_hi_any s0)
qed

text \<open>
  C10 at a request with two messages and at one with a single message.
\<close>

theorem hardcoded_multi_turn_token_witness:
  "map (\<lambda>r. (reqURL r, reqHeader r ''x-vqd-4''))
     (sent (snd (handleCompletion_hardcoded demoLib demoWorld defaultConfig
                   \<lparr>Authorization = ''Bearer secret'', rawBody = twoBody\<rparr> state0)))
     = [(''https://duckduckgo.com/duckchat/v1/chat'', Some ''4-212890776487765339064984812855765849703'')]
   \<and> map (\<lambda>r. (reqURL r, reqHeader r ''x-vqd-4''))
     (sent (snd (handleCompletion_hardcoded demoLib demoWorld defaultConfig
                   \<lparr>Authorization = ''Bearer secret'', rawBody = oneBody\<rparr> state0)))
     = [(''https://duckduckgo.com/duckchat/v1/chat'', Some ''4-254683533747813303106479798401426525337'')]"
proof -
  have s0: "sent state0 = []" by (simp add: state0_def)
  obtain r2 where r2: "sent (snd (handleCompletion_hardcoded demoLib demoWorld defaultConfig
                   \<lparr>Authorization = ''Bearer secret'', rawBody = twoBody\<rparr> state0)) = [r2]"
    using demo_hardcoded_sent [of twoBody] by auto
  obtain r1 where r1: "sent (snd (handleCompletion_hardcoded demoLib demoWorld defaultConfig
                   \<lparr>Authorization = ''Bearer secret'', rawBody = oneBody\<rparr> state0)) = [r1]"
    using demo_hardcoded_sent [of oneBody] by auto
  have b2: "ShouldBindJSON demoWorld (rawBody \<lparr>Authorization = ''Bearer secret'', rawBody = twoBody\<rparr>) =
     Inr \<lparr>Model = ''o3-mini'',
          Messages = [\<lparr>Role = ''system'', Content = JStr ''Be brief''\<rparr>, \<lparr>Role = ''user'', Content = JStr ''Hi''\<rparr>],
          Stream = False\<rparr>"
    by (simp add: demoWorld_facts)
  have b1: "ShouldBindJSON demoWorld (rawBody \<lparr>Authorization = ''Bearer secret'', rawBody = oneBody\<rparr>) =
     Inr \<lparr>Model = ''gpt-4o-mini'', Messages = [\<lparr>Role = ''user'', Content = JStr ''Hi''\<rparr>], Stream = False\<rparr>"
    by (simp add: demoWorld_facts)
  from conjunct1 [OF hardcoded_multi_turn_token [OF b2, of state0 demoLib defaultConfig]]
  have q2: "reqURL r2 = ''https://duckduckgo.com/duckchat/v1/chat''
      \<and> reqHeader r2 ''x-vqd-4'' = Some ''4-212890776487765339064984812855765849703''"
    by (simp add: s0 r2)
  from conjunct1 [OF hardcoded_multi_turn_token [OF b1, of state0 demoLib defaultConfig]]
  have q1: "reqURL r1 = ''https://duckduckgo.com/duckchat/v1/chat''
      \<and> reqHeader r1 ''x-vqd-4'' = Some ''4-254683533747813303106479798401426525337''"
    by (simp add: s0 r1)
  show ?thesis
    by (simp add: r1 r2 q1 q2)
qed

lemma attemptScrape_failed:
  assumes "spec_attemptFailure L W cfg model content k = Some e"
  shows "attemptScrape L W cfg req model content k s
           = Failed e (s\<lparr>sent := sent s @ spec_attemptRequests L W cfg model content k\<rparr>)"
proof -
  obtain res tr where r: "requestTokenAndHash L cfg (clientDo W k) = (res, tr)"
    by (cases "requestTokenAndHash L cfg (clientDo W k)")
  show ?thesis
  proof (cases res)
    case (Inl err)
    with assms r show ?thesis
      by (simp add: spec_attemptFailure_def spec_attemptRequests_def attemptScrape_def)
  next
    case (Inr th)
    obtain token vqdHash where th: "th = (token, vqdHash)" by (cases th)
    from assms r Inr th show ?thesis
      by (auto simp add: spec_attemptFailure_def spec_attemptRequests_def attemptScrape_def sendChat_def
            chatBody_def Let_def split: sum.splits option.splits if_splits)
  qed
qed

lemma retryLoop_failures:
  assumes fail: "\<And>k s. k < j \<Longrightarrow> body k s = Failed (msg k) (s\<lparr>sent := sent s @ reqs k\<rparr>)"
    and le: "int j \<le> MaxRetryCount cfg + 1"
  shows "retryLoop body cfg 0 None s
           = retryLoop body cfg j (if j = 0 then None else Some (msg (j - 1)))
               (s\<lparr>sleeps := sleeps s + (j - 1), sent := sent s @ concat (map reqs [0..<j])\<rparr>)"
  using fail le
proof (induction j)
  case 0
  show ?case by simp
next
  case (Suc j)
  have le: "int j \<le> MaxRetryCount cfg" using Suc.prems(2) by simp
  have IH: "retryLoop body cfg 0 None s
           = retryLoop body cfg j (if j = 0 then None else Some (msg (j - 1)))
               (s\<lparr>sleeps := sleeps s + (j - 1), sent := sent s @ concat (map reqs [0..<j])\<rparr>)"
    using Suc.IH Suc.prems le by simp
  have b: "body j t = Failed (msg j) (t\<lparr>sent := sent t @ reqs j\<rparr>)" for t
    using Suc.prems(1) [of j t] by simp
  let ?t = "s\<lparr>sleeps := sleeps s + (j - 1), sent := sent s @ concat (map reqs [0..<j])\<rparr>"
  let ?u = "s\<lparr>sleeps := sleeps s + j, sent := sent s @ concat (map reqs [0..<j])\<rparr>"
  have s1: "(if 0 < j then ?t\<lparr>sleeps := Suc (sleeps ?t)\<rparr> else ?t) = ?u"
    by (cases s; cases j) simp_all
  have s2: "?u\<lparr>sent := sent ?u @ reqs j\<rparr>
              = s\<lparr>sleeps := sleeps s + (Suc j - 1), sent := sent s @ concat (map reqs [0..<Suc j])\<rparr>"
    by (cases s) simp
  have "retryLoop body cfg j (if j = 0 then None else Some (msg (j - 1))) ?t
          = retryLoop body cfg (Suc j) (Some (msg j))
              (s\<lparr>sleeps := sleeps s + (Suc j - 1), sent := sent s @ concat (map reqs [0..<Suc j])\<rparr>)"
    by (subst retryLoop.simps) (simp only: le if_True Let_def s1 b attempt.case s2)
  with IH show ?case
    by (simp only: nat.distinct if_False diff_Suc_1)
qed

text \<open>
  C4, as the code has it. The loop runs while \<open>retryCount <= MaxRetryCount\<close>: the first
  attempt and \<open>MaxRetryCount\<close> retries, with a sleep before each retry. When the bound
  is not negative and every one of these \<open>MaxRetryCount + 1\<close> attempts ends in a
  retryable failure (the token cannot be acquired, the upstream request fails in
  transport, or its status is not 200), the handler returns after one
  \<open>c.JSON(500, {error: e})\<close>, where \<open>e\<close> is the message recorded for the last attempt;
  it has slept \<open>MaxRetryCount\<close> times and has sent the requests of all
  \<open>MaxRetryCount + 1\<close> attempts, in order, and nothing else has changed. Fewer
  failures are not enough: after \<open>j <= MaxRetryCount\<close> failed attempts the attempt
  \<open>j\<close> is made (after \<open>j\<close> sleeps and the requests of the attempts before it), and
  when it finishes the handler returns with what that attempt did.
\<close>

theorem retry_exhausted:
  assumes auth: "authCheck W c = None"
    and bind: "ShouldBindJSON W (rawBody c) = Inr req"
    and model: "model = convertModel L (Model req)"
    and content: "content = prepareMessages L (Messages req)"
  shows "(0 \<le> MaxRetryCount cfg
          \<and> (\<forall>k. int k \<le> MaxRetryCount cfg \<longrightarrow> spec_attemptFailure L W cfg model content k \<noteq> None)
          \<longrightarrow> (\<exists>e. spec_attemptFailure L W cfg model content (nat (MaxRetryCount cfg)) = Some e
                 \<and> handleCompletion L W cfg c s =
                     (Return, s\<lparr>effects := effects s @ [JSON 500 (JObj [(''error'', JStr e)])],
                                sleeps := sleeps s + nat (MaxRetryCount cfg),
                                sent := sent s @ spec_requestsBefore L W cfg model content (Suc (nat (MaxRetryCount cfg)))\<rparr>)))
       \<and> (int j \<le> MaxRetryCount cfg
          \<and> (\<forall>k < j. spec_attemptFailure L W cfg model content k \<noteq> None)
          \<and> attemptScrape L W cfg req model content j
               (s\<lparr>sleeps := sleeps s + j, sent := sent s @ spec_requestsBefore L W cfg model content j\<rparr>) = Finished s'
          \<longrightarrow> handleCompletion L W cfg c s = (Return, s'))"
proof -
  let ?body = "attemptScrape L W cfg req model content"
  let ?msg = "\<lambda>k. the (spec_attemptFailure L W cfg model content k)"
  let ?reqs = "spec_attemptRequests L W cfg model content"
  have hc: "handleCompletion L W cfg c s = retryLoop ?body cfg 0 None s"
    by (simp add: handleCompletion_def handleCompletionWith_def auth serveCompletion_def bind Let_def model content)
  have p1: "\<exists>e. spec_attemptFailure L W cfg model content (nat (MaxRetryCount cfg)) = Some e
                 \<and> handleCompletion L W cfg c s =
                     (Return, s\<lparr>effects := effects s @ [JSON 500 (JObj [(''error'', JStr e)])],
                                sleeps := sleeps s + nat (MaxRetryCount cfg),
                                sent := sent s @ spec_requestsBefore L W cfg model content (Suc (nat (MaxRetryCount cfg)))\<rparr>)"
    if mx: "0 \<le> MaxRetryCount cfg"
      and fail: "\<forall>k. int k \<le> MaxRetryCount cfg \<longrightarrow> spec_attemptFailure L W cfg model content k \<noteq> None"
  proof -
    let ?n = "Suc (nat (MaxRetryCount cfg))"
    have f: "?body k t = Failed (?msg k) (t\<lparr>sent := sent t @ ?reqs k\<rparr>)" if "k < ?n" for k t
    proof -
      from that mx have "int k \<le> MaxRetryCount cfg" by simp
      with fail obtain e where "spec_attemptFailure L W cfg model content k = Some e" by auto
      then show ?thesis using attemptScrape_failed [of L W cfg model content k e req t] by simp
    qed
    have le: "int ?n \<le> MaxRetryCount cfg + 1" using mx by simp
    have nle: "\<not> int ?n \<le> MaxRetryCount cfg" using mx by simp
    from fail mx obtain e where
      e: "spec_attemptFailure L W cfg model content (nat (MaxRetryCount cfg)) = Some e"
      by (metis int_nat_eq order_refl not_None_eq)
    have "retryLoop ?body cfg 0 None s
           = retryLoop ?body cfg ?n (Some (?msg (nat (MaxRetryCount cfg))))
               (s\<lparr>sleeps := sleeps s + nat (MaxRetryCount cfg), sent := sent s @ concat (map ?reqs [0..<?n])\<rparr>)"
      using retryLoop_failures [of ?n ?body ?msg ?reqs cfg s, OF f le] by simp
    also have "\<dots> = (Return, s\<lparr>effects := effects s @ [JSON 500 (JObj [(''error'', JStr e)])],
                                sleeps := sleeps s + nat (MaxRetryCount cfg),
                                sent := sent s @ spec_requestsBefore L W cfg model content ?n\<rparr>)"
      using nle by (subst retryLoop.simps) (simp add: gin_JSON_def gin_H_error_def e spec_requestsBefore_def)
    finally show ?thesis using e hc by simp
  qed
  have p2: "handleCompletion L W cfg c s = (Return, s')"
    if le: "int j \<le> MaxRetryCount cfg"
      and fail: "\<forall>k < j. spec_attemptFailure L W cfg model content k \<noteq> None"
      and fin: "?body j (s\<lparr>sleeps := sleeps s + j, sent := sent s @ spec_requestsBefore L W cfg model content j\<rparr>) = Finished s'"
  proof -
    have f: "?body k t = Failed (?msg k) (t\<lparr>sent := sent t @ ?reqs k\<rparr>)" if "k < j" for k t
    proof -
      from that fail obtain e where "spec_attemptFailure L W cfg model content k = Some e" by auto
      then show ?thesis using attemptScrape_failed [of L W cfg model content k e req t] by simp
    qed
    have le1: "int j \<le> MaxRetryCount cfg + 1" using le by simp
    have "retryLoop ?body cfg 0 None s
           = retryLoop ?body cfg j (if j = 0 then None else Some (?msg (j - 1)))
               (s\<lparr>sleeps := sleeps s + (j - 1), sent := sent s @ concat (map ?reqs [0..<j])\<rparr>)"
      by (rule retryLoop_failures [OF f le1])
    also have "\<dots> = (Return, s')"
    proof -
      let ?t = "s\<lparr>sleeps := sleeps s + (j - 1), sent := sent s @ concat (map ?reqs [0..<j])\<rparr>"
      have s1: "(if 0 < j then ?t\<lparr>sleeps := Suc (sleeps ?t)\<rparr> else ?t)
                  = s\<lparr>sleeps := sleeps s + j, sent := sent s @ spec_requestsBefore L W cfg model content j\<rparr>"
        by (cases s; cases j) (simp_all add: spec_requestsBefore_def)
      show ?thesis
        by (subst retryLoop.simps) (simp only: le if_True Let_def s1 fin attempt.case)
    qed
    finally show ?thesis using hc by simp
  qed
  from p1 p2 show ?thesis by blast
qed


lemma retryWorld_facts:
  "APIKEY retryWorld = ''secret''"
  "ShouldBindJSON retryWorld oneBody = Inr \<lparr>Model = ''gpt-4o-mini'', Messages = demoMessages, Stream = False\<rparr>"
  "clock retryWorld n = 1700000000 + int n"
  "clientDo retryWorld k (getRequest cfg homeURL []) = Inr pageResp"
  "clientDo retryWorld k \<lparr>reqMethod = ''POST'', reqURL = chatURL, reqHeader = h, reqBody = b\<rparr>
     = (if k < 3 then Inr busyResp else Inr hiResp)"
  by (simp_all add: retryWorld_def demoWorld_def demoMessages_def getRequest_def homeURL_def chatURL_def
        oneBody_def twoBody_def)

lemma retry_token:
  "requestTokenAndHash demoLib cfg (clientDo retryWorld k) = (Inr (''tok'', []), [getRequest cfg homeURL []])"
  by (simp add: requestTokenAndHash_def demoLib_facts retryWorld_facts pageResp_def Let_def demoLib_def)

lemma retry_failure:
  "k < 3 \<Longrightarrow> spec_attemptFailure demoLib retryWorld cfg model content k
     = Some (msgNon200 @ showInt 503 @ msgContent @ ''busy'')"
  by (simp add: spec_attemptFailure_def retry_token demoLib_facts retryWorld_facts busyResp_def)

lemma retry_attempt_fail:
  "k < 3 \<Longrightarrow> \<exists>s'. attemptScrape demoLib retryWorld cfg req model content k s =
      Failed (msgNon200 @ showInt 503 @ msgContent @ ''busy'') s'
      \<and> effects s' = effects s \<and> sleeps s' = sleeps s \<and> nowCalls s' = nowCalls s"
  by (simp add: attemptScrape_def retry_token sendChat_def demoLib_facts retryWorld_facts busyResp_def Let_def)

lemma retry_attempt_ok:
  "3 \<le> k \<Longrightarrow>
   \<exists>s'. attemptScrape demoLib retryWorld cfg \<lparr>Model = mo, Messages = ms, Stream = False\<rparr> model content k s = Finished s'
      \<and> effects s' = effects s @ [JSON 200 (completion model ''Hi'' (1700000000 + int (nowCalls s)))]
      \<and> sleeps s' = sleeps s"
  by (simp add: attemptScrape_def retry_token sendChat_def demoLib_facts retryWorld_facts hiResp_status
        handleResponse_def nonstream_hi_any Let_def)

lemma demo_model: "convertModel demoLib ''gpt-4o-mini'' = ''gpt-4o-mini''"
  by code_simp

text \<open>
  C4 as stated fails: \<open>MaxRetryCount\<close> consecutive upstream-status failures are not
  enough for a 500. With the default bound 3 and an upstream that answers 503 three
  times and then with the example body, the fourth attempt is made and the caller
  receives the completion with status 200.
\<close>

theorem retry_count_counterexample:
  "MaxRetryCount defaultConfig = 3
   \<and> spec_attemptFailure demoLib retryWorld defaultConfig
        (convertModel demoLib ''gpt-4o-mini'') (prepareMessages demoLib demoMessages) 0
       = Some (msgNon200 @ showInt 503 @ msgContent @ ''busy'')
   \<and> spec_attemptFailure demoLib retryWorld defaultConfig
        (convertModel demoLib ''gpt-4o-mini'') (prepareMessages demoLib demoMessages) 1
       = Some (msgNon200 @ showInt 503 @ msgContent @ ''busy'')
   \<and> spec_attemptFailure demoLib retryWorld defaultConfig
        (convertModel demoLib ''gpt-4o-mini'') (prepareMessages demoLib demoMessages) 2
       = Some (msgNon200 @ showInt 503 @ msgContent @ ''busy'')
   \<and> fst (handleCompletion demoLib retryWorld defaultConfig demoRequest state0) = Return
   \<and> effects (snd (handleCompletion demoLib retryWorld defaultConfig demoRequest state0))
       = [JSON 200 (completion ''gpt-4o-mini'' ''Hi'' 1700000000)]
   \<and> sleeps (snd (handleCompletion demoLib retryWorld defaultConfig demoRequest state0)) = 3"
proof -
  let ?req = "\<lparr>Model = ''gpt-4o-mini'', Messages = demoMessages, Stream = False\<rparr>"
  let ?model = "convertModel demoLib ''gpt-4o-mini''"
  let ?content = "prepareMessages demoLib demoMessages"
  let ?body = "attemptScrape demoLib retryWorld defaultConfig ?req ?model ?content"
  let ?e = "msgNon200 @ showInt 503 @ msgContent @ ''busy''"
  have mx: "MaxRetryCount defaultConfig = 3" by (simp add: defaultConfig_def initConfig_def)
  have auth: "authCheck retryWorld demoRequest = None"
    by (simp add: authCheck_def demoRequest_def retryWorld_facts HasPrefix_def TrimPrefix_def)
  have rb: "rawBody demoRequest = oneBody" by (simp add: demoRequest_def)
  have hc: "handleCompletion demoLib retryWorld defaultConfig demoRequest state0
      = retryLoop ?body defaultConfig 0 None state0"
    by (simp add: handleCompletion_def handleCompletionWith_def auth serveCompletion_def
          rb retryWorld_facts Let_def)
  obtain s1 where a0: "?body 0 state0 = Failed ?e s1" and e1: "effects s1 = []" "sleeps s1 = 0" "nowCalls s1 = 0"
    using retry_attempt_fail [of 0 defaultConfig ?req ?model ?content state0] by (auto simp: state0_def)
  obtain s2 where a1: "?body (Suc 0) (s1\<lparr>sleeps := Suc (sleeps s1)\<rparr>) = Failed ?e s2"
      and e2: "effects s2 = []" "sleeps s2 = 1" "nowCalls s2 = 0"
    using retry_attempt_fail [of "Suc 0" defaultConfig ?req ?model ?content "s1\<lparr>sleeps := Suc (sleeps s1)\<rparr>"] e1 by auto
  obtain s3 where a2: "?body (Suc (Suc 0)) (s2\<lparr>sleeps := Suc (sleeps s2)\<rparr>) = Failed ?e s3"
      and e3: "effects s3 = []" "sleeps s3 = 2" "nowCalls s3 = 0"
    using retry_attempt_fail [of "Suc (Suc 0)" defaultConfig ?req ?model ?content "s2\<lparr>sleeps := Suc (sleeps s2)\<rparr>"] e2 by auto
  obtain s4 where a3: "?body (Suc (Suc (Suc 0))) (s3\<lparr>sleeps := Suc (sleeps s3)\<rparr>) = Finished s4"
      and e4: "effects s4 = [JSON 200 (completion ?model ''Hi'' 1700000000)]" "sleeps s4 = 3"
    using retry_attempt_ok [of "Suc (Suc (Suc 0))" defaultConfig "''gpt-4o-mini''" demoMessages ?model ?content
            "s3\<lparr>sleeps := Suc (sleeps s3)\<rparr>"] e3
    by auto
  have l3: "retryLoop ?body defaultConfig (Suc (Suc (Suc 0))) (Some ?e) s3 = (Return, s4)"
    by (subst retryLoop.simps) (simp add: mx a3)
  have l2: "retryLoop ?body defaultConfig (Suc (Suc 0)) (Some ?e) s2 = (Return, s4)"
    by (subst retryLoop.simps) (simp add: mx a2 l3)
  have l1: "retryLoop ?body defaultConfig (Suc 0) (Some ?e) s1 = (Return, s4)"
    by (subst retryLoop.simps) (simp add: mx a1 l2)
  have l0: "retryLoop ?body defaultConfig 0 None state0 = (Return, s4)"
    by (subst retryLoop.simps) (simp add: mx a0 l1)
  show ?thesis
    unfolding hc l0 by (simp add: mx retry_failure e4 demo_model)
qed

lemma retry_requests:
  "spec_attemptRequests demoLib retryWorld cfg model content k
     = [getRequest cfg homeURL [],
        \<lparr>reqMethod = ''POST'', reqURL = chatURL, reqHeader = chatHeaders cfg ''tok'' [], reqBody = ''<json>''\<rparr>]"
  by (simp add: spec_attemptRequests_def retry_token demoLib_facts)

lemma retry_attempt_finished:
  "3 \<le> k \<Longrightarrow>
   attemptScrape demoLib retryWorld cfg \<lparr>Model = mo, Messages = ms, Stream = False\<rparr> model content k s
     = Finished (s\<lparr>effects := effects s @ [JSON 200 (completion model ''Hi'' (1700000000 + int (nowCalls s)))],
                   nowCalls := Suc (nowCalls s),
                   sent := sent s @ [getRequest cfg homeURL [],
                       \<lparr>reqMethod = ''POST'', reqURL = chatURL, reqHeader = chatHeaders cfg ''tok'' [],
                        reqBody = ''<json>''\<rparr>]\<rparr>)"
  by (cases s)
     (simp add: attemptScrape_def retry_token sendChat_def demoLib_facts retryWorld_facts hiResp_status
        handleResponse_def nonstream_hi_any Let_def)

lemma busy_message:
  "msgNon200 @ showInt 503 @ msgContent @ ''busy''
     = [CHR 0xE9, CHR 0x9D, CHR 0x9E] @ ''200'' @ [CHR 0xE5, CHR 0x93, CHR 0x8D, CHR 0xE5, CHR 0xBA, CHR 0x94]
       @ '': 503, '' @ [CHR 0xE5, CHR 0x86, CHR 0x85, CHR 0xE5, CHR 0xAE, CHR 0xB9] @ '': busy''"
  by code_simp

text \<open>
  C4 in the retry world. With the bound 2 the upstream answers 503 three times: a 500
  with the last message, after two sleeps and three attempts of two requests each.
  With the bound 3 the first three attempts fail and the fourth finishes: the
  completion with status 200, after three sleeps and four attempts.
\<close>

theorem retry_exhausted_witness:
  "handleCompletion demoLib retryWorld twoRetries demoRequest state0 =
     (Return, state0\<lparr>effects := [JSON 500 (JObj [(''error'', JStr
                 ([CHR 0xE9, CHR 0x9D, CHR 0x9E] @ ''200'' @ [CHR 0xE5, CHR 0x93, CHR 0x8D, CHR 0xE5, CHR 0xBA, CHR 0x94]
                  @ '': 503, '' @ [CHR 0xE5, CHR 0x86, CHR 0x85, CHR 0xE5, CHR 0xAE, CHR 0xB9] @ '': busy''))])],
               sleeps := 2,
               sent := concat (replicate 3 [getRequest twoRetries homeURL [],
                   \<lparr>reqMethod = ''POST'', reqURL = chatURL, reqHeader = chatHeaders twoRetries ''tok'' [],
                    reqBody = ''<json>''\<rparr>])\<rparr>)
   \<and> map (\<lambda>r. (reqMethod r, reqURL r))
        (sent (snd (handleCompletion demoLib retryWorld twoRetries demoRequest state0)))
       = [(''GET'', ''https://duckduckgo.com/''), (''POST'', ''https://duckduckgo.com/duckchat/v1/chat''),
          (''GET'', ''https://duckduckgo.com/''), (''POST'', ''https://duckduckgo.com/duckchat/v1/chat''),
          (''GET'', ''https://duckduckgo.com/''), (''POST'', ''https://duckduckgo.com/duckchat/v1/chat'')]
   \<and> handleCompletion demoLib retryWorld defaultConfig demoRequest state0 =
     (Return, state0\<lparr>effects := [JSON 200 (completion ''gpt-4o-mini'' ''Hi'' 1700000000)],
               nowCalls := 1,
               sleeps := 3,
               sent := concat (replicate 4 [getRequest defaultConfig homeURL [],
                   \<lparr>reqMethod = ''POST'', reqURL = chatURL, reqHeader = chatHeaders defaultConfig ''tok'' [],
                    reqBody = ''<json>''\<rparr>])\<rparr>)"
proof -
  let ?req = "\<lparr>Model = ''gpt-4o-mini'', Messages = demoMessages, Stream = False\<rparr>"
  let ?model = "convertModel demoLib (Model ?req)"
  let ?content = "prepareMessages demoLib (Messages ?req)"
  let ?rq = "\<lambda>cfg. [getRequest cfg homeURL [],
                   \<lparr>reqMethod = ''POST'', reqURL = chatURL, reqHeader = chatHeaders cfg ''tok'' [],
                    reqBody = ''<json>''\<rparr>]"
  have mx: "MaxRetryCount twoRetries = 2" by (simp add: twoRetries_def initConfig_def)
  have mx3: "MaxRetryCount defaultConfig = 3" by (simp add: defaultConfig_def initConfig_def)
  have auth: "authCheck retryWorld demoRequest = None"
    by (simp add: authCheck_def demoRequest_def retryWorld_facts HasPrefix_def TrimPrefix_def)
  have bind: "ShouldBindJSON retryWorld (rawBody demoRequest) = Inr ?req"
    by (simp add: demoRequest_def retryWorld_facts)
  have fail: "0 \<le> MaxRetryCount twoRetries \<and> (\<forall>k. int k \<le> MaxRetryCount twoRetries \<longrightarrow>
      spec_attemptFailure demoLib retryWorld twoRetries ?model ?content k \<noteq> None)"
    by (simp add: mx retry_failure)
  have before: "spec_requestsBefore demoLib retryWorld cfg ?model ?content n = concat (replicate n (?rq cfg))" for cfg n
  proof -
    have "spec_attemptRequests demoLib retryWorld cfg ?model ?content = (\<lambda>k. ?rq cfg)"
      by (rule ext) (rule retry_requests)
    then show ?thesis
      by (simp add: spec_requestsBefore_def map_replicate_const)
  qed
  from conjunct1 [OF retry_exhausted [OF auth bind refl refl], THEN mp, OF fail, of state0]
  obtain e where
    e: "spec_attemptFailure demoLib retryWorld twoRetries ?model ?content (nat (MaxRetryCount twoRetries)) = Some e"
    and r: "handleCompletion demoLib retryWorld twoRetries demoRequest state0 =
       (Return, state0\<lparr>effects := effects state0 @ [JSON 500 (JObj [(''error'', JStr e)])],
                  sleeps := sleeps state0 + nat (MaxRetryCount twoRetries),
                  sent := sent state0 @ spec_requestsBefore demoLib retryWorld twoRetries ?model ?content
                            (Suc (nat (MaxRetryCount twoRetries)))\<rparr>)"
    by blast
  have "e = msgNon200 @ showInt 503 @ msgContent @ ''busy''"
    using e by (simp add: mx retry_failure)
  then have e': "e = [CHR 0xE9, CHR 0x9D, CHR 0x9E] @ ''200'' @ [CHR 0xE5, CHR 0x93, CHR 0x8D, CHR 0xE5, CHR 0xBA, CHR 0x94]
       @ '': 503, '' @ [CHR 0xE5, CHR 0x86, CHR 0x85, CHR 0xE5, CHR 0xAE, CHR 0xB9] @ '': busy''"
    by (simp only: busy_message)
  have w1: "handleCompletion demoLib retryWorld twoRetries demoRequest state0 =
     (Return, state0\<lparr>effects := [JSON 500 (JObj [(''error'', JStr
                 ([CHR 0xE9, CHR 0x9D, CHR 0x9E] @ ''200'' @ [CHR 0xE5, CHR 0x93, CHR 0x8D, CHR 0xE5, CHR 0xBA, CHR 0x94]
                  @ '': 503, '' @ [CHR 0xE5, CHR 0x86, CHR 0x85, CHR 0xE5, CHR 0xAE, CHR 0xB9] @ '': busy''))])],
               sleeps := 2,
               sent := concat (replicate 3 (?rq twoRetries))\<rparr>)"
    unfolding r before e' by (simp add: mx state0_def)
  have w2: "map (\<lambda>r. (reqMethod r, reqURL r))
        (sent (snd (handleCompletion demoLib retryWorld twoRetries demoRequest state0)))
       = [(''GET'', ''https://duckduckgo.com/''), (''POST'', ''https://duckduckgo.com/duckchat/v1/chat''),
          (''GET'', ''https://duckduckgo.com/''), (''POST'', ''https://duckduckgo.com/duckchat/v1/chat''),
          (''GET'', ''https://duckduckgo.com/''), (''POST'', ''https://duckduckgo.com/duckchat/v1/chat'')]"
    unfolding w1 by (simp add: numeral_3_eq_3 getRequest_def homeURL_def chatURL_def)
  have fail3: "\<forall>k < 3. spec_attemptFailure demoLib retryWorld defaultConfig ?model ?content k \<noteq> None"
    by (simp add: retry_failure)
  have fin: "attemptScrape demoLib retryWorld defaultConfig ?req ?model ?content 3
               (state0\<lparr>sleeps := sleeps state0 + 3,
                       sent := sent state0 @ spec_requestsBefore demoLib retryWorld defaultConfig ?model ?content 3\<rparr>)
      = Finished (state0\<lparr>effects := [JSON 200 (completion ''gpt-4o-mini'' ''Hi'' 1700000000)],
               nowCalls := 1,
               sleeps := 3,
               sent := concat (replicate 4 (?rq defaultConfig))\<rparr>)"
    unfolding before
    by (subst retry_attempt_finished) (simp_all add: state0_def demo_model numeral_3_eq_3 eval_nat_numeral)
  have le3: "int 3 \<le> MaxRetryCount defaultConfig" by (simp add: mx3)
  have w3: "handleCompletion demoLib retryWorld defaultConfig demoRequest state0 =
     (Return, state0\<lparr>effects := [JSON 200 (completion ''gpt-4o-mini'' ''Hi'' 1700000000)],
               nowCalls := 1,
               sleeps := 3,
               sent := concat (replicate 4 (?rq defaultConfig))\<rparr>)"
    by (rule conjunct2 [OF retry_exhausted [OF auth bind refl refl], THEN mp, OF conjI [OF le3 conjI [OF fail3 fin]]])
  from w1 w2 w3 show ?thesis by simp
qed

section \<open>Properties of the token provider\<close>

lemma spec_firstSome_simps:
  "spec_firstSome [] = None"
  "spec_firstSome (Some x # xs) = Some x"
  "spec_firstSome (None # xs) = spec_firstSome xs"
  by (simp_all add: spec_firstSome_def List.map_filter_simps)

lemma spec_firstMatch_simps:
  "spec_firstMatch L [] text = None"
  "spec_firstMatch L (p # ps) text =
     (case spec_submatch (FindStringSubmatch L p text) of
        Some t \<Rightarrow> Some t
      | None \<Rightarrow> spec_firstMatch L ps text)"
  by (simp_all add: spec_firstMatch_def spec_firstSome_simps split: option.splits)

lemma patternLoop_spec: "patternLoop L text ps = spec_firstMatch L ps text"
  by (induction ps) (simp_all add: spec_firstMatch_simps spec_submatch_def Let_def)

lemma alternateLoop_spec:
  "spec_submatch (alternateLoop L text ps m0)
   = (if ps = [] then spec_submatch m0 else spec_firstMatch L ps text)"
proof (induction ps arbitrary: m0)
  case Nil
  show ?case by simp
next
  case (Cons p ps)
  show ?case
  proof (cases "2 \<le> length (FindStringSubmatch L p text)")
    case True
    then show ?thesis by (simp add: spec_firstMatch_simps spec_submatch_def Let_def)
  next
    case False
    then have n: "spec_submatch (FindStringSubmatch L p text) = None"
      by (simp add: spec_submatch_def)
    have "alternateLoop L text (p # ps) m0 = alternateLoop L text ps (FindStringSubmatch L p text)"
      using False by (simp add: Let_def)
    then show ?thesis
      using Cons.IH [of "FindStringSubmatch L p text"]
      by (cases ps) (simp_all add: spec_firstMatch_simps n)
  qed
qed

lemma reqURL_getRequest: "reqURL (getRequest cfg u e) = u"
  by (simp add: getRequest_def)

lemma spec_linkURLs_simps:
  "spec_linkURLs [] = []"
  "spec_linkURLs (m # ms) = (if 2 \<le> length m then (baseURL @ m ! 1) # spec_linkURLs ms else spec_linkURLs ms)"
  by (simp_all add: spec_linkURLs_def)

lemma spec_asset_no_request:
  "NewRequest L ''GET'' u \<noteq> None \<Longrightarrow> spec_asset L cfg net ps u = None"
  by (auto simp add: spec_asset_def spec_fetch_def)

text \<open>One pass of the loop over the script assets, by what the asset yields.\<close>

lemma jsLoop_step:
  "jsLoop L cfg net (m # rest) tr =
     (if length m < 2 then jsLoop L cfg net rest tr
      else if NewRequest L ''GET'' (baseURL @ m ! 1) \<noteq> None then jsLoop L cfg net rest tr
      else (case spec_asset L cfg net [P_vqd_sep_ws, P_vqd_dq_ws] (baseURL @ m ! 1) of
              Some t \<Rightarrow> (Some t, tr @ [getRequest cfg (baseURL @ m ! 1) []])
            | None \<Rightarrow> jsLoop L cfg net rest (tr @ [getRequest cfg (baseURL @ m ! 1) []])))"
  by (simp add: spec_asset_def spec_fetch_def spec_firstMatch_simps spec_submatch_def Let_def
        split: option.splits sum.splits)

lemma fallbackLoop_step:
  "fallbackLoop L cfg net (u # rest) tr =
     (if NewRequest L ''GET'' u \<noteq> None then fallbackLoop L cfg net rest tr
      else (case spec_asset L cfg net [P_vqd_sep_ws, P_vqd_dq_ws, P_vqd_sq_ws] u of
              Some t \<Rightarrow> (Some t, tr @ [getRequest cfg u []])
            | None \<Rightarrow> fallbackLoop L cfg net rest (tr @ [getRequest cfg u []])))"
  by (simp add: spec_asset_def spec_fetch_def patternLoop_spec Let_def
        split: option.splits sum.splits)

declare jsLoop.simps [simp del]
declare fallbackLoop.simps(2) [simp del]

lemma fallbackLoop_result:
  "fst (fallbackLoop L cfg net us tr) = spec_firstSome (map (spec_asset L cfg net [P_vqd_sep_ws, P_vqd_dq_ws, P_vqd_sq_ws]) us)"
proof (induction us arbitrary: tr)
  case Nil
  show ?case by (simp add: spec_firstSome_simps)
next
  case (Cons u rest)
  show ?case
    by (simp add: fallbackLoop_step Cons.IH spec_firstSome_simps spec_asset_no_request split: option.splits)
qed

lemma fallbackLoop_trace_all:
  "fst (fallbackLoop L cfg net us tr) = None \<Longrightarrow>
   map reqURL (snd (fallbackLoop L cfg net us tr))
     = map reqURL tr @ filter (\<lambda>u. NewRequest L ''GET'' u = None) us"
proof (induction us arbitrary: tr)
  case Nil
  show ?case by simp
next
  case (Cons u rest)
  from Cons.prems show ?case
    by (simp add: fallbackLoop_step Cons.IH reqURL_getRequest split: option.splits if_splits)
qed

lemma fallbackLoop_trace_prefix:
  "\<exists>n. map reqURL (snd (fallbackLoop L cfg net us tr))
     = map reqURL tr @ take n (filter (\<lambda>u. NewRequest L ''GET'' u = None) us)"
proof (induction us arbitrary: tr)
  case Nil
  show ?case by simp
next
  case (Cons u rest)
  let ?ok = "\<lambda>u. NewRequest L ''GET'' u = None"
  show ?case
  proof (cases "NewRequest L ''GET'' u \<noteq> None")
    case True
    then show ?thesis using Cons.IH [of tr] by (auto simp add: fallbackLoop_step)
  next
    case False
    show ?thesis
    proof (cases "spec_asset L cfg net [P_vqd_sep_ws, P_vqd_dq_ws, P_vqd_sq_ws] u")
      case (Some t)
      with False have "map reqURL (snd (fallbackLoop L cfg net (u # rest) tr))
          = map reqURL tr @ take (Suc 0) (filter ?ok (u # rest))"
        by (simp add: fallbackLoop_step reqURL_getRequest)
      then show ?thesis by blast
    next
      case None
      from Cons.IH [of "tr @ [getRequest cfg u []]"] obtain n where
        "map reqURL (snd (fallbackLoop L cfg net rest (tr @ [getRequest cfg u []])))
           = map reqURL (tr @ [getRequest cfg u []]) @ take n (filter ?ok rest)" by blast
      with False None have "map reqURL (snd (fallbackLoop L cfg net (u # rest) tr))
          = map reqURL tr @ take (Suc n) (filter ?ok (u # rest))"
        by (simp add: fallbackLoop_step reqURL_getRequest)
      then show ?thesis by blast
    qed
  qed
qed

lemma jsLoop_result:
  "fst (jsLoop L cfg net ms tr) = spec_firstSome (map (spec_asset L cfg net [P_vqd_sep_ws, P_vqd_dq_ws]) (spec_linkURLs ms))"
proof (induction ms arbitrary: tr)
  case Nil
  show ?case by (simp add: jsLoop.simps spec_linkURLs_simps spec_firstSome_simps)
next
  case (Cons m rest)
  show ?case
    by (simp add: jsLoop_step Cons.IH spec_linkURLs_simps spec_firstSome_simps spec_asset_no_request
          split: option.splits)
qed

lemma jsLoop_trace_all:
  "fst (jsLoop L cfg net ms tr) = None \<Longrightarrow>
   map reqURL (snd (jsLoop L cfg net ms tr))
     = map reqURL tr @ filter (\<lambda>u. NewRequest L ''GET'' u = None) (spec_linkURLs ms)"
proof (induction ms arbitrary: tr)
  case Nil
  show ?case by (simp add: jsLoop.simps spec_linkURLs_simps)
next
  case (Cons m rest)
  from Cons.prems show ?case
    by (simp add: jsLoop_step Cons.IH spec_linkURLs_simps reqURL_getRequest split: option.splits if_splits)
qed

lemma jsLoop_trace_prefix:
  "\<exists>n. map reqURL (snd (jsLoop L cfg net ms tr))
     = map reqURL tr @ take n (filter (\<lambda>u. NewRequest L ''GET'' u = None) (spec_linkURLs ms))"
proof (induction ms arbitrary: tr)
  case Nil
  show ?case by (simp add: jsLoop.simps spec_linkURLs_simps)
next
  case (Cons m rest)
  let ?u = "baseURL @ m ! 1"
  let ?ok = "\<lambda>u. NewRequest L ''GET'' u = None"
  show ?case
  proof (cases "length m < 2 \<or> NewRequest L ''GET'' ?u \<noteq> None")
    case True
    then show ?thesis using Cons.IH [of tr]
      by (auto simp add: jsLoop_step spec_linkURLs_simps)
  next
    case False
    show ?thesis
    proof (cases "spec_asset L cfg net [P_vqd_sep_ws, P_vqd_dq_ws] ?u")
      case (Some t)
      with False have "map reqURL (snd (jsLoop L cfg net (m # rest) tr))
          = map reqURL tr @ take (Suc 0) (filter ?ok (spec_linkURLs (m # rest)))"
        by (simp add: jsLoop_step spec_linkURLs_simps reqURL_getRequest)
      then show ?thesis by blast
    next
      case None
      from Cons.IH [of "tr @ [getRequest cfg ?u []]"] obtain n where
        "map reqURL (snd (jsLoop L cfg net rest (tr @ [getRequest cfg ?u []])))
           = map reqURL (tr @ [getRequest cfg ?u []]) @ take n (filter ?ok (spec_linkURLs rest))" by blast
      with False None have "map reqURL (snd (jsLoop L cfg net (m # rest) tr))
          = map reqURL tr @ take (Suc n) (filter ?ok (spec_linkURLs (m # rest)))"
        by (simp add: jsLoop_step spec_linkURLs_simps reqURL_getRequest)
      then show ?thesis by blast
    qed
  qed
qed


lemma statusProbe_result:
  "(case spec_method4 L cfg net of
      Some t \<Rightarrow> fst (statusProbe L cfg net tr) = Inr (t, [])
    | None \<Rightarrow> isl (fst (statusProbe L cfg net tr)))"
  by (simp add: statusProbe_def spec_method4_def Let_def split: option.splits sum.splits)

lemma statusProbe_trace:
  "map reqURL (snd (statusProbe L cfg net tr)) = map reqURL tr
   \<or> map reqURL (snd (statusProbe L cfg net tr)) = map reqURL tr @ [statusURL]"
  by (simp add: statusProbe_def Let_def reqURL_getRequest split: option.splits sum.splits)

lemma landingPage_None:
  assumes "spec_landingPage L cfg net = None"
  shows "isl (fst (requestTokenAndHash L cfg net))"
    and "snd (requestTokenAndHash L cfg net) = [] \<or> snd (requestTokenAndHash L cfg net) = [getRequest cfg homeURL []]"
  using assms
  by (auto simp add: requestTokenAndHash_def spec_landingPage_def Let_def split: option.splits sum.splits if_splits)

lemma page_matches:
  "spec_submatch (if length (FindStringSubmatch L P_vqd_eq page) < 2
                  then alternateLoop L page [P_vqd_sep, P_vqd_dq, P_vqd_sq] (FindStringSubmatch L P_vqd_eq page)
                  else FindStringSubmatch L P_vqd_eq page)
   = spec_firstMatch L [P_vqd_eq, P_vqd_sep, P_vqd_dq, P_vqd_sq] page"
proof -
  have a: "spec_submatch (alternateLoop L page [P_vqd_sep, P_vqd_dq, P_vqd_sq] m0)
      = spec_firstMatch L [P_vqd_sep, P_vqd_dq, P_vqd_sq] page" for m0
    by (simp only: alternateLoop_spec list.distinct if_False)
  have b: "spec_firstMatch L [P_vqd_eq, P_vqd_sep, P_vqd_dq, P_vqd_sq] page =
      (case spec_submatch (FindStringSubmatch L P_vqd_eq page) of
         Some t \<Rightarrow> Some t
       | None \<Rightarrow> spec_firstMatch L [P_vqd_sep, P_vqd_dq, P_vqd_sq] page)"
    by (rule spec_firstMatch_simps(2))
  show ?thesis
  proof (cases "length (FindStringSubmatch L P_vqd_eq page) < 2")
    case True
    then have "spec_submatch (FindStringSubmatch L P_vqd_eq page) = None"
      by (simp add: spec_submatch_def)
    with True show ?thesis
      by (simp only: if_True a b option.case)
  next
    case False
    then have "spec_submatch (FindStringSubmatch L P_vqd_eq page) = Some (FindStringSubmatch L P_vqd_eq page ! 1)"
      by (simp add: spec_submatch_def)
    with False show ?thesis
      by (simp only: if_False b option.case)
  qed
qed

lemma landingPage_Some:
  assumes "spec_landingPage L cfg net = Some page"
  shows "requestTokenAndHash L cfg net =
     (case spec_firstMatch L [P_vqd_eq, P_vqd_sep, P_vqd_dq, P_vqd_sq] page of
        Some t \<Rightarrow> (Inr (t, []), [getRequest cfg homeURL []])
      | None \<Rightarrow>
          (case jsLoop L cfg net (FindAllStringSubmatch L P_dist_js page) [getRequest cfg homeURL []] of
             (Some t, tr) \<Rightarrow> (Inr (t, []), tr)
           | (None, tr) \<Rightarrow>
               (case fallbackLoop L cfg net fallbackURLs tr of
                  (Some t, tr') \<Rightarrow> (Inr (t, []), tr')
                | (None, tr') \<Rightarrow> statusProbe L cfg net tr')))"
proof -
  from assms obtain resp where
    n: "NewRequest L ''GET'' homeURL = None" and d: "net (getRequest cfg homeURL []) = Inr resp"
    and st: "StatusCode resp = 200" and be: "berr (Body resp) = None" and pg: "bdata (Body resp) = page"
    by (auto simp add: spec_landingPage_def split: option.splits sum.splits if_splits)
  let ?m = "if length (FindStringSubmatch L P_vqd_eq page) < 2
            then alternateLoop L page [P_vqd_sep, P_vqd_dq, P_vqd_sq] (FindStringSubmatch L P_vqd_eq page)
            else FindStringSubmatch L P_vqd_eq page"
  have r: "requestTokenAndHash L cfg net =
     (if 2 \<le> length ?m then (Inr (?m ! 1, []), [getRequest cfg homeURL []])
      else
        (case jsLoop L cfg net (FindAllStringSubmatch L P_dist_js page) [getRequest cfg homeURL []] of
           (Some t, tr) \<Rightarrow> (Inr (t, []), tr)
         | (None, tr) \<Rightarrow>
             (case fallbackLoop L cfg net fallbackURLs tr of
                (Some t, tr') \<Rightarrow> (Inr (t, []), tr')
              | (None, tr') \<Rightarrow> statusProbe L cfg net tr')))"
    unfolding requestTokenAndHash_def by (simp only: n d st be pg option.case sum.case Let_def simp_thms if_False)
  have sm: "spec_submatch ?m = spec_firstMatch L [P_vqd_eq, P_vqd_sep, P_vqd_dq, P_vqd_sq] page"
    by (rule page_matches)
  show ?thesis
  proof (cases "2 \<le> length ?m")
    case True
    then have "spec_submatch ?m = Some (?m ! 1)" by (simp only: spec_submatch_def if_True)
    with sm have "spec_firstMatch L [P_vqd_eq, P_vqd_sep, P_vqd_dq, P_vqd_sq] page = Some (?m ! 1)" by simp
    with True r show ?thesis by (simp only: if_True option.case)
  next
    case False
    then have "spec_submatch ?m = None" by (simp only: spec_submatch_def if_False)
    with sm have "spec_firstMatch L [P_vqd_eq, P_vqd_sep, P_vqd_dq, P_vqd_sq] page = None" by simp
    with False r show ?thesis by (simp only: if_False option.case)
  qed
qed

lemma take_within: "\<exists>k. X @ take n A = take k (X @ A @ B)"
  by (rule exI [of _ "length X + min n (length A)"]) (cases "n \<le> length A", simp_all add: min_def)

text \<open>
  C5, as the code has it. \<open>requestTokenAndHash\<close> first fetches the landing page. When
  that fails (the request cannot be built, the transport fails, the status is not 200
  or the body cannot be read) it returns an error at once, having asked for at most
  the landing page: no other source is tried. Otherwise it returns the token of the
  first of the four methods that yields one, with an empty hash, and an error when
  none of the four yields. So it returns an error exactly when the landing page
  cannot be fetched or all four methods fail. The addresses it asks for are an
  initial part of: the landing page, the linked script assets in page order, the
  fallback assets in list order, the status probe.
\<close>

theorem token_provider_order:
  "(spec_landingPage L cfg net = None \<longrightarrow>
        isl (fst (requestTokenAndHash L cfg net)) \<and> length (snd (requestTokenAndHash L cfg net)) \<le> 1)
 \<and> (spec_landingPage L cfg net \<noteq> None \<longrightarrow>
        (\<forall>t. spec_acquire L cfg net = Some t \<longrightarrow> fst (requestTokenAndHash L cfg net) = Inr (t, []))
      \<and> (spec_acquire L cfg net = None \<longrightarrow> isl (fst (requestTokenAndHash L cfg net))))
 \<and> (isl (fst (requestTokenAndHash L cfg net))
        \<longleftrightarrow> spec_landingPage L cfg net = None \<or> spec_acquire L cfg net = None)
 \<and> (\<exists>n. map reqURL (snd (requestTokenAndHash L cfg net)) = take n (spec_requestOrder L cfg net))"
proof (cases "spec_landingPage L cfg net")
  case None
  note lp = landingPage_None [OF None]
  have tr: "\<exists>n. map reqURL (snd (requestTokenAndHash L cfg net)) = take n (spec_requestOrder L cfg net)"
  proof -
    from lp(2) have "map reqURL (snd (requestTokenAndHash L cfg net)) = take 0 (spec_requestOrder L cfg net)
        \<or> map reqURL (snd (requestTokenAndHash L cfg net)) = take (Suc 0) (spec_requestOrder L cfg net)"
      by (auto simp add: spec_requestOrder_def reqURL_getRequest)
    then show ?thesis by blast
  qed
  from lp(2) have "length (snd (requestTokenAndHash L cfg net)) \<le> 1" by auto
  with None lp(1) tr show ?thesis by simp
next
  case (Some page)
  let ?home = "getRequest cfg homeURL []"
  let ?ok = "\<lambda>u. NewRequest L ''GET'' u = None"
  let ?FA = "filter ?ok (spec_assetURLs L page)"
  let ?FF = "filter ?ok fallbackURLs"
  have order: "spec_requestOrder L cfg net = ([homeURL] @ ?FA) @ ?FF @ [statusURL]"
    by (simp add: spec_requestOrder_def Some)
  have m1: "spec_method1 L cfg net = spec_firstMatch L [P_vqd_eq, P_vqd_sep, P_vqd_dq, P_vqd_sq] page"
    by (simp add: spec_method1_def Some)
  have m2: "spec_method2 L cfg net = fst (jsLoop L cfg net (FindAllStringSubmatch L P_dist_js page) tr)" for tr
    by (simp add: spec_method2_def Some jsLoop_result spec_assetURLs_def)
  have m3: "spec_method3 L cfg net = fst (fallbackLoop L cfg net fallbackURLs tr)" for tr
    by (simp add: spec_method3_def fallbackLoop_result)
  note R = landingPage_Some [OF Some]
  have main: "(case spec_acquire L cfg net of
                 Some t \<Rightarrow> fst (requestTokenAndHash L cfg net) = Inr (t, [])
               | None \<Rightarrow> isl (fst (requestTokenAndHash L cfg net)))
            \<and> (\<exists>n. map reqURL (snd (requestTokenAndHash L cfg net)) = take n (spec_requestOrder L cfg net))"
  proof (cases "spec_firstMatch L [P_vqd_eq, P_vqd_sep, P_vqd_dq, P_vqd_sq] page")
    case (Some t)
    have "map reqURL (snd (requestTokenAndHash L cfg net)) = take (Suc 0) (spec_requestOrder L cfg net)"
      by (simp add: R Some order reqURL_getRequest)
    then have "\<exists>n. map reqURL (snd (requestTokenAndHash L cfg net)) = take n (spec_requestOrder L cfg net)"
      by blast
    then show ?thesis
      by (simp add: R Some spec_acquire_def m1 spec_firstSome_simps)
  next
    case None
    note n1 = None
    obtain j tr where js: "jsLoop L cfg net (FindAllStringSubmatch L P_dist_js page) [?home] = (j, tr)"
      by (cases "jsLoop L cfg net (FindAllStringSubmatch L P_dist_js page) [?home]")
    have m2': "spec_method2 L cfg net = j" using m2 [of "[?home]"] js by simp
    show ?thesis
    proof (cases j)
      case (Some t)
      from jsLoop_trace_prefix [of L cfg net "FindAllStringSubmatch L P_dist_js page" "[?home]"] js
      obtain n where "map reqURL tr = [homeURL] @ take n ?FA"
        by (auto simp add: reqURL_getRequest spec_assetURLs_def)
      moreover have "\<exists>k. [homeURL] @ take n ?FA = take k ([homeURL] @ ?FA @ (?FF @ [statusURL]))"
        by (rule take_within)
      ultimately have "\<exists>k. map reqURL tr = take k (spec_requestOrder L cfg net)"
        by (simp add: order)
      then show ?thesis
        by (simp add: R n1 js Some spec_acquire_def m1 m2' spec_firstSome_simps)
    next
      case None
      note n2 = None
      from jsLoop_trace_all [of L cfg net "FindAllStringSubmatch L P_dist_js page" "[?home]"] js None
      have tr: "map reqURL tr = [homeURL] @ ?FA"
        by (simp add: reqURL_getRequest spec_assetURLs_def)
      obtain f tr' where fb: "fallbackLoop L cfg net fallbackURLs tr = (f, tr')"
        by (cases "fallbackLoop L cfg net fallbackURLs tr")
      have m3': "spec_method3 L cfg net = f" using m3 [of tr] fb by simp
      show ?thesis
      proof (cases f)
        case (Some t)
        from fallbackLoop_trace_prefix [of L cfg net fallbackURLs tr] fb
        obtain n where "map reqURL tr' = ([homeURL] @ ?FA) @ take n ?FF"
          by (auto simp add: tr)
        moreover have "\<exists>k. ([homeURL] @ ?FA) @ take n ?FF = take k (([homeURL] @ ?FA) @ ?FF @ [statusURL])"
          by (rule take_within)
        ultimately have "\<exists>k. map reqURL tr' = take k (spec_requestOrder L cfg net)"
          by (simp only: order)
        then show ?thesis
          by (simp add: R n1 js n2 fb Some spec_acquire_def m1 m2' m3' spec_firstSome_simps)
      next
        case None
        from fallbackLoop_trace_all [of L cfg net fallbackURLs tr] fb None
        have tr': "map reqURL tr' = ([homeURL] @ ?FA) @ ?FF"
          by (simp add: tr)
        have "map reqURL (snd (statusProbe L cfg net tr')) = take (length (([homeURL] @ ?FA) @ ?FF)) (spec_requestOrder L cfg net)
            \<or> map reqURL (snd (statusProbe L cfg net tr')) = take (length (spec_requestOrder L cfg net)) (spec_requestOrder L cfg net)"
          using statusProbe_trace [of L cfg net tr'] by (auto simp add: tr' order)
        then have t: "\<exists>k. map reqURL (snd (statusProbe L cfg net tr')) = take k (spec_requestOrder L cfg net)"
          by blast
        have "requestTokenAndHash L cfg net = statusProbe L cfg net tr'"
          by (simp add: R n1 js n2 fb None)
        with t statusProbe_result [of L cfg net tr'] show ?thesis
          by (simp add: spec_acquire_def m1 n1 m2' n2 m3' None spec_firstSome_simps split: option.splits)
      qed
    qed
  qed
  from main Some show ?thesis
    by (auto split: option.splits)
qed


lemma demo_no_match:
  "FindStringSubmatch demoLib p barePage = []"
  "FindAllStringSubmatch demoLib p barePage = []"
  "FindStringSubmatch demoLib p linkPage = []"
  by (simp_all add: demoLib_def barePage_def tokenPage_def assetText_def linkPage_def)

lemma demo_link_match:
  "FindAllStringSubmatch demoLib P_dist_js linkPage = [[''/dist/app.js'', ''/dist/app.js'']]"
  "FindStringSubmatch demoLib P_vqd_sep_ws assetText = [assetMatch, ''tok2'']"
  by (simp_all add: demoLib_def tokenPage_def assetText_def)

lemma forbiddenNet_facts:
  "forbiddenNet (getRequest cfg homeURL e) = Inr forbiddenResp"
  "forbiddenNet (getRequest cfg statusURL e) = Inr probeResp"
  "u \<in> set fallbackURLs \<Longrightarrow> forbiddenNet (getRequest cfg u e) = Inl ''no route''"
  by (auto simp add: forbiddenNet_def getRequest_def homeURL_def statusURL_def fallbackURLs_def)

lemma probeOnlyNet_facts:
  "probeOnlyNet (getRequest cfg homeURL e) = Inr bareResp"
  "probeOnlyNet (getRequest cfg statusURL e) = Inr probeResp"
  "u \<in> set fallbackURLs \<Longrightarrow> probeOnlyNet (getRequest cfg u e) = Inl ''no route''"
  by (auto simp add: probeOnlyNet_def getRequest_def homeURL_def statusURL_def fallbackURLs_def)

lemma forbidden_methods:
  "spec_landingPage demoLib cfg forbiddenNet = None"
  "spec_method1 demoLib cfg forbiddenNet = None"
  "spec_method2 demoLib cfg forbiddenNet = None"
  "spec_method3 demoLib cfg forbiddenNet = None"
  "spec_method4 demoLib cfg forbiddenNet = Some ''tok''"
proof -
  show lp: "spec_landingPage demoLib cfg forbiddenNet = None"
    by (simp add: spec_landingPage_def demoLib_facts forbiddenNet_facts forbiddenResp_def)
  show "spec_method1 demoLib cfg forbiddenNet = None" by (simp add: spec_method1_def lp)
  show "spec_method2 demoLib cfg forbiddenNet = None" by (simp add: spec_method2_def lp)
  have "spec_asset demoLib cfg forbiddenNet ps u = None" if "u \<in> set fallbackURLs" for ps u
    using that by (simp add: spec_asset_def spec_fetch_def demoLib_facts forbiddenNet_facts)
  then show "spec_method3 demoLib cfg forbiddenNet = None"
    by (simp add: spec_method3_def fallbackURLs_def spec_firstSome_simps)
  show "spec_method4 demoLib cfg forbiddenNet = Some ''tok''"
    by (simp add: spec_method4_def demoLib_facts forbiddenNet_facts probeResp_def)
qed

text \<open>
  C5 as stated fails: an error does not mean that all four methods fail. When the
  landing page answers 403 and the status probe would hand out a token, the function
  returns the error of the landing page after that one request; the status probe,
  the fourth method, is never asked.
\<close>

theorem token_provider_counterexample:
  "\<not> (isl (fst (requestTokenAndHash demoLib defaultConfig forbiddenNet))
        \<longleftrightarrow> spec_acquire demoLib defaultConfig forbiddenNet = None)
   \<and> fst (requestTokenAndHash demoLib defaultConfig forbiddenNet)
        = Inl (''homepage request returned status '' @ showInt 403 @ '': '' @ ''Forbidden'')
   \<and> map reqURL (snd (requestTokenAndHash demoLib defaultConfig forbiddenNet)) = [homeURL]
   \<and> spec_method4 demoLib defaultConfig forbiddenNet = Some ''tok''
   \<and> spec_acquire demoLib defaultConfig forbiddenNet = Some ''tok''"
proof -
  have r: "requestTokenAndHash demoLib defaultConfig forbiddenNet
      = (Inl (''homepage request returned status '' @ showInt 403 @ '': '' @ ''Forbidden''),
         [getRequest defaultConfig homeURL []])"
    by (simp add: requestTokenAndHash_def demoLib_facts forbiddenNet_facts forbiddenResp_def Let_def)
  have a: "spec_acquire demoLib defaultConfig forbiddenNet = Some ''tok''"
    by (simp add: spec_acquire_def forbidden_methods spec_firstSome_simps)
  show ?thesis
    by (simp add: r a forbidden_methods reqURL_getRequest)
qed

lemma probeOnly_methods:
  "spec_landingPage demoLib cfg probeOnlyNet = Some barePage"
  "spec_method1 demoLib cfg probeOnlyNet = None"
  "spec_method2 demoLib cfg probeOnlyNet = None"
  "spec_method3 demoLib cfg probeOnlyNet = None"
  "spec_method4 demoLib cfg probeOnlyNet = Some ''tok''"
proof -
  show lp: "spec_landingPage demoLib cfg probeOnlyNet = Some barePage"
    by (simp add: spec_landingPage_def demoLib_facts probeOnlyNet_facts bareResp_def)
  show "spec_method1 demoLib cfg probeOnlyNet = None"
    by (simp add: spec_method1_def lp spec_firstMatch_def demo_no_match spec_submatch_def spec_firstSome_simps)
  show "spec_method2 demoLib cfg probeOnlyNet = None"
    by (simp add: spec_method2_def lp spec_assetURLs_def demo_no_match spec_linkURLs_simps spec_firstSome_simps)
  have "spec_asset demoLib cfg probeOnlyNet ps u = None" if "u \<in> set fallbackURLs" for ps u
    using that by (simp add: spec_asset_def spec_fetch_def demoLib_facts probeOnlyNet_facts)
  then show "spec_method3 demoLib cfg probeOnlyNet = None"
    by (simp add: spec_method3_def fallbackURLs_def spec_firstSome_simps)
  show "spec_method4 demoLib cfg probeOnlyNet = Some ''tok''"
    by (simp add: spec_method4_def demoLib_facts probeOnlyNet_facts probeResp_def)
qed

lemma deadNet_facts:
  "deadNet (getRequest cfg homeURL e) = Inr bareResp"
  "deadNet (getRequest cfg statusURL e) = Inl ''no route''"
  "u \<in> set fallbackURLs \<Longrightarrow> deadNet (getRequest cfg u e) = Inl ''no route''"
  by (auto simp add: deadNet_def getRequest_def homeURL_def statusURL_def fallbackURLs_def)

lemma dead_methods:
  "spec_landingPage demoLib cfg deadNet = Some barePage"
  "spec_acquire demoLib cfg deadNet = None"
proof -
  show lp: "spec_landingPage demoLib cfg deadNet = Some barePage"
    by (simp add: spec_landingPage_def demoLib_facts deadNet_facts bareResp_def)
  have m1: "spec_method1 demoLib cfg deadNet = None"
    by (simp add: spec_method1_def lp spec_firstMatch_def demo_no_match spec_submatch_def spec_firstSome_simps)
  have m2: "spec_method2 demoLib cfg deadNet = None"
    by (simp add: spec_method2_def lp spec_assetURLs_def demo_no_match spec_linkURLs_simps spec_firstSome_simps)
  have "spec_asset demoLib cfg deadNet ps u = None" if "u \<in> set fallbackURLs" for ps u
    using that by (simp add: spec_asset_def spec_fetch_def demoLib_facts deadNet_facts)
  then have m3: "spec_method3 demoLib cfg deadNet = None"
    by (simp add: spec_method3_def fallbackURLs_def spec_firstSome_simps)
  have m4: "spec_method4 demoLib cfg deadNet = None"
    by (simp add: spec_method4_def demoLib_facts deadNet_facts)
  show "spec_acquire demoLib cfg deadNet = None"
    by (simp add: spec_acquire_def m1 m2 m3 m4 spec_firstSome_simps)
qed

lemma assetNet_facts:
  "assetNet (getRequest cfg homeURL e) = Inr linkResp"
  "assetNet (getRequest cfg (baseURL @ ''/dist/app.js'') e) = Inr assetResp"
  by (simp_all add: assetNet_def getRequest_def homeURL_def baseURL_def)

lemma asset_methods:
  "spec_landingPage demoLib cfg assetNet = Some linkPage"
  "spec_acquire demoLib cfg assetNet = Some ''tok2''"
proof -
  show lp: "spec_landingPage demoLib cfg assetNet = Some linkPage"
    by (simp add: spec_landingPage_def demoLib_facts assetNet_facts linkResp_def)
  have m1: "spec_method1 demoLib cfg assetNet = None"
    by (simp add: spec_method1_def lp spec_firstMatch_def demo_no_match spec_submatch_def spec_firstSome_simps)
  have urls: "spec_assetURLs demoLib linkPage = [baseURL @ ''/dist/app.js'']"
    by (simp only: spec_assetURLs_def demo_link_match) (simp add: spec_linkURLs_simps)
  have a: "spec_asset demoLib cfg assetNet [P_vqd_sep_ws, P_vqd_dq_ws] (baseURL @ ''/dist/app.js'') = Some ''tok2''"
    by (simp only: spec_asset_def spec_fetch_def demoLib_facts assetNet_facts)
       (simp add: assetResp_def spec_firstMatch_def demo_link_match spec_submatch_def spec_firstSome_simps)
  have m2: "spec_method2 demoLib cfg assetNet = Some ''tok2''"
    by (simp only: spec_method2_def lp option.case urls list.map a spec_firstSome_simps)
  show "spec_acquire demoLib cfg assetNet = Some ''tok2''"
    by (simp add: spec_acquire_def m1 m2 spec_firstSome_simps)
qed

text \<open>
  C5 in four worlds: only the status probe yields; a linked script yields; nothing
  yields; the landing page is refused.
\<close>

theorem token_provider_order_witness:
  "fst (requestTokenAndHash demoLib defaultConfig probeOnlyNet) = Inr (''tok'', [])
   \<and> fst (requestTokenAndHash demoLib defaultConfig assetNet) = Inr (''tok2'', [])
   \<and> isl (fst (requestTokenAndHash demoLib defaultConfig deadNet))
   \<and> isl (fst (requestTokenAndHash demoLib defaultConfig forbiddenNet))
   \<and> length (snd (requestTokenAndHash demoLib defaultConfig forbiddenNet)) \<le> 1
   \<and> (\<exists>n. map reqURL (snd (requestTokenAndHash demoLib defaultConfig probeOnlyNet))
          = take n [homeURL, ''https://duckduckgo.com/duck.js'', ''https://duckduckgo.com/chat.js'',
                    ''https://duckduckgo.com/d.js'', statusURL])"
proof -
  note t = token_provider_order [of demoLib defaultConfig probeOnlyNet]
  note f = token_provider_order [of demoLib defaultConfig forbiddenNet]
  note d = token_provider_order [of demoLib defaultConfig deadNet]
  note s = token_provider_order [of demoLib defaultConfig assetNet]
  have acq: "spec_acquire demoLib defaultConfig probeOnlyNet = Some ''tok''"
    by (simp add: spec_acquire_def probeOnly_methods spec_firstSome_simps)
  have lp: "spec_landingPage demoLib defaultConfig probeOnlyNet \<noteq> None"
    by (simp add: probeOnly_methods)
  have a: "fst (requestTokenAndHash demoLib defaultConfig probeOnlyNet) = Inr (''tok'', [])"
    using conjunct1 [OF conjunct2 [OF t]] lp acq by blast
  have lps: "spec_landingPage demoLib defaultConfig assetNet \<noteq> None"
    by (simp add: asset_methods)
  have a2: "fst (requestTokenAndHash demoLib defaultConfig assetNet) = Inr (''tok2'', [])"
    using conjunct1 [OF conjunct2 [OF s]] lps asset_methods(2) [of defaultConfig] by blast
  have lpd: "spec_landingPage demoLib defaultConfig deadNet \<noteq> None"
    by (simp add: dead_methods)
  have a3: "isl (fst (requestTokenAndHash demoLib defaultConfig deadNet))"
    using conjunct1 [OF conjunct2 [OF d]] lpd dead_methods(2) [of defaultConfig] by blast
  have b: "isl (fst (requestTokenAndHash demoLib defaultConfig forbiddenNet))
         \<and> length (snd (requestTokenAndHash demoLib defaultConfig forbiddenNet)) \<le> 1"
    using conjunct1 [OF f] forbidden_methods(1) [of defaultConfig] by blast
  have order: "spec_requestOrder demoLib defaultConfig probeOnlyNet
      = [homeURL, ''https://duckduckgo.com/duck.js'', ''https://duckduckgo.com/chat.js'',
         ''https://duckduckgo.com/d.js'', statusURL]"
    by (simp add: spec_requestOrder_def probeOnly_methods spec_assetURLs_def demo_no_match
          spec_linkURLs_simps demoLib_facts fallbackURLs_def)
  have c: "\<exists>n. map reqURL (snd (requestTokenAndHash demoLib defaultConfig probeOnlyNet))
          = take n [homeURL, ''https://duckduckgo.com/duck.js'', ''https://duckduckgo.com/chat.js'',
                    ''https://duckduckgo.com/d.js'', statusURL]"
    using conjunct2 [OF conjunct2 [OF conjunct2 [OF t]]] by (simp only: order)
  show ?thesis
    using a a2 a3 b c by simp
qed

end
